theory Spec2Isabelle
  imports Main "HOL-Library.Word" "HOL-Library.Sublist" "HOL-Library.AList"
    "HOL-Library.Multiset"
begin

section \<open>The create command of the command-line tool\<close>

text \<open>
  A shallow embedding of \<^verbatim>\<open>CreateCommand.execute\<close>
  (\<^verbatim>\<open>packages/cubejs-cli/src/command/create.command.ts\<close>, lines 37 to 154).
  The function is a straight line of awaited calls into the file system, the package
  manager, the prompt library and packages loaded at run time. Every such call is
  recorded, in the order the calls are started, in a trace; what the outside world answers
  is read from a \<open>world\<close> record. A call that can throw or reject ends the run with
  \<open>Rejected\<close>. The one place where calls run side by side is the writing of the
  template files (lines 130 to 133).
\<close>

subsection \<open>Values\<close>

text \<open>
  The second argument of \<^verbatim>\<open>execute\<close>:
  \<^verbatim>\<open>options: { template?: string, dbType?: string }\<close>. \<open>None\<close> is an absent field.
\<close>

record options =
  template :: "string option"
  dbType :: "string option"

text \<open>Line 40: \<^verbatim>\<open>const createAppOptions = { projectName, dbType: options.dbType, template }\<close>.\<close>

record createAppOptions =
  cao_projectName :: string
  cao_dbType :: "string option"
  cao_template :: string

text \<open>
  What \<^verbatim>\<open>CubejsServer.driverDependencies\<close> may return, and what the list built from
  it holds: nothing, one package name, or an array.
\<close>

datatype jsval = Undefined | Str string | Arr "jsval list"

text \<open>The object of lines 124 to 129, handed to every file renderer.\<close>

record environment =
  env_dbType :: "string option"
  apiSecret :: string
  env_projectName :: string
  env_driverEnvVariables :: "string list option"

text \<open>
  An entry of the template registry (\<^verbatim>\<open>import templates from '../templates'\<close>). The
  registry is not part of the file; its entries have the fields the function reads:
  \<^verbatim>\<open>scripts\<close>, \<^verbatim>\<open>files\<close> (path to renderer, in key order) and the two optional
  dependency lists.
\<close>

record templateConfig =
  scripts :: "(string \<times> string) list"
  files :: "(string \<times> (environment \<Rightarrow> string)) list"
  dependencies :: "string list option"
  devDependencies :: "string list option"

text \<open>
  Modelled from the spec: the registry is not among the sources; the specification
  calls it "a static mapping from template key to TemplateConfig". It is taken to be an
  ordinary object whose own keys are the template names. \<open>templateValue\<close> is what the
  property lookup \<^verbatim>\<open>templates[template]\<close> of lines 52 and 62 can find in it. An
  ordinary object answers to more names than its keys: the ones it inherits from
  \<^verbatim>\<open>Object.prototype\<close>. What is found under an inherited name is a function (under
  \<^verbatim>\<open>__proto__\<close>, the prototype itself): a truthy value with no property
  \<^verbatim>\<open>scripts\<close>, \<^verbatim>\<open>files\<close>, \<^verbatim>\<open>dependencies\<close> or \<^verbatim>\<open>devDependencies\<close>.
\<close>

datatype templateValue = Registered templateConfig | Inherited

definition objectPrototype :: "string list" where
  "objectPrototype =
     [''constructor'', ''__defineGetter__'', ''__defineSetter__'', ''hasOwnProperty'',
      ''__lookupGetter__'', ''__lookupSetter__'', ''isPrototypeOf'', ''propertyIsEnumerable'',
      ''toString'', ''valueOf'', ''__proto__'', ''toLocaleString'']"

text \<open>Reading a property of the value found; \<open>None\<close> is \<^verbatim>\<open>undefined\<close>.\<close>

fun scriptsOf :: "templateValue \<Rightarrow> (string \<times> string) list option" where
  "scriptsOf (Registered tc) = Some (scripts tc)"
| "scriptsOf Inherited = None"

fun filesOf :: "templateValue \<Rightarrow> (string \<times> (environment \<Rightarrow> string)) list option" where
  "filesOf (Registered tc) = Some (files tc)"
| "filesOf Inherited = None"

fun dependenciesOf :: "templateValue \<Rightarrow> string list option" where
  "dependenciesOf (Registered tc) = dependencies tc"
| "dependenciesOf Inherited = None"

fun devDependenciesOf :: "templateValue \<Rightarrow> string list option" where
  "devDependenciesOf (Registered tc) = devDependencies tc"
| "devDependenciesOf Inherited = None"

text \<open>
  A Maven coordinate as the JDBC descriptor carries it, and the \<^verbatim>\<open>java\<close> section of a
  package manifest (line 109: \<^verbatim>\<open>{ dependencies: [dbTypeDescription.mavenDependency] }\<close>).
\<close>

record mavenCoordinate =
  groupId :: string
  artifactId :: string
  mvn_version :: string

record javaSection =
  java_dependencies :: "mavenCoordinate list"

text \<open>
  The package manifest (\<^verbatim>\<open>package.json\<close>). \<open>None\<close> is an absent field. The first four
  fields are the ones line 65 writes; \<^verbatim>\<open>java\<close> is added on line 109;
  \<^verbatim>\<open>dependencies\<close> is what the package manager adds on its own when it installs.
\<close>

record manifest =
  pkg_name :: "string option"
  pkg_version :: "string option"
  pkg_private :: "bool option"
  pkg_scripts :: "(string \<times> string) list option"
  pkg_java :: "javaSection option"
  pkg_dependencies :: "(string \<times> string) list option"

text \<open>What \<^verbatim>\<open>JDBCDriver.dbTypeDescription\<close> returns for a known database type.\<close>

record dbTypeDescriptor =
  mavenDependency :: "mavenCoordinate option"

text \<open>A driver module; \<open>None\<close>: the module has no \<^verbatim>\<open>driverEnvVariables\<close> function.\<close>

record driverClass =
  driverEnvVariables :: "string list option"

text \<open>One question of \<^verbatim>\<open>inquirer.prompt\<close> (lines 77 to 82).\<close>

record question =
  q_type :: string
  q_name :: string
  q_message :: string
  q_choices :: "string list"

text \<open>The three texts handed to \<^verbatim>\<open>displayError\<close> (lines 46, 54, 91 and 104).\<close>

datatype message =
    DirectoryAlreadyExist string
  | UnknownTemplate string
  | UnsupportedDbType "string option"

text \<open>The arguments of \<^verbatim>\<open>logStage\<close>, in the order of the source.\<close>

datatype stage =
    CreatingProjectStructure
  | InstallingServerDependencies
  | InstallingDBDriverDependencies
  | InstallingJDBCDependencies
  | WritingFilesFromTemplate
  | InstallingTemplateDependencies
  | InstallingTemplateDevDependencies
  | AppHasBeenCreated string

subsection \<open>Effects, the world and the state\<close>

text \<open>
  Every call that leaves the function, with its arguments. \<open>DriverDependencies\<close> and
  \<open>DbTypeDescription\<close> are the two lookups of lines 89 and 102; \<open>ConsoleNextStep\<close>
  stands for the six \<^verbatim>\<open>console.log\<close> lines that end the function.
\<close>

datatype effect =
    EventCreateApp createAppOptions
  | PathExists string
  | DisplayError message createAppOptions
  | EnsureDir string
  | Chdir string
  | LogStage stage
  | WritePackageJson manifest
  | NpmInstall "jsval list"
  | RequireFromPackage jsval
  | Prompt "question list"
  | DriverDependencies "string option"
  | RequireJDBCDriver
  | DbTypeDescription "string option"
  | ReadJson string
  | ExecuteCommand string "string list"
  | WriteFile string string
  | EventCreateAppSuccess string "string option"
  | ConsoleNextStep string

text \<open>
  What the outside answers. \<open>rejects\<close> tells, from the calls made so far, whether the
  next call throws. \<open>templates\<close> holds the registry's own keys. \<open>readJson\<close> is the
  manifest found on disk when line 107 reads it (the package manager has rewritten it since
  it was last written). \<open>entropy\<close> is the source of random bytes and \<open>dirname\<close> stands
  for \<^verbatim>\<open>path.dirname\<close>. The last two fields are the timing of the file system while
  the template files are written: \<open>dirReady\<close> is when the directory of a file is in place,
  \<open>settled\<close> when the work on a file has come to its end.
\<close>

record world =
  rejects :: "effect list \<Rightarrow> effect \<Rightarrow> bool"
  pathExists :: "string \<Rightarrow> bool"
  templates :: "string \<Rightarrow> templateConfig option"
  Drivers :: "(string \<times> jsval) list"
  inquirer_prompt :: "question list \<Rightarrow> string \<Rightarrow> string option"
  driverDependencies :: "string option \<Rightarrow> jsval"
  dbTypeDescription :: "string option \<Rightarrow> dbTypeDescriptor option"
  readJson :: "string \<Rightarrow> manifest"
  requireDriver :: "jsval \<Rightarrow> driverClass"
  entropy :: "nat \<Rightarrow> 8 word"
  dirname :: "string \<Rightarrow> string"
  dirReady :: "string \<Rightarrow> nat"
  settled :: "string \<Rightarrow> nat"

text \<open>
  The state threaded through the run: the calls made so far, and the \<^verbatim>\<open>options\<close>
  object, which the caller shares and line 84 assigns to.
\<close>

record state =
  trace :: "effect list"
  opts :: options

datatype failure = TypeError | Failed effect

text \<open>
  How a step ends: with a value, with the process gone (\<^verbatim>\<open>process.exit\<close>), or with
  an exception.
\<close>

datatype 'a result = Value 'a | Exited | Rejected failure

type_synonym 'a action = "state \<Rightarrow> 'a result \<times> state"

definition ret :: "'a \<Rightarrow> 'a action" where
  "ret x s = (Value x, s)"

text \<open>\<^verbatim>\<open>await m\<close>, then the rest of the function body.\<close>

definition await :: "'a action \<Rightarrow> ('a \<Rightarrow> 'b action) \<Rightarrow> 'b action" where
  "await m f s =
     (case m s of
        (Value x, s') \<Rightarrow> f x s'
      | (Exited, s') \<Rightarrow> (Exited, s')
      | (Rejected e, s') \<Rightarrow> (Rejected e, s'))"

text \<open>
  A call that is taken not to fail: logging, the telemetry event of line 42 (it is not
  awaited), \<^verbatim>\<open>fs.pathExists\<close> (it resolves to a boolean), and the two lookups.
\<close>

definition emit :: "effect \<Rightarrow> unit action" where
  "emit e s = (Value (), s\<lparr>trace := trace s @ [e]\<rparr>)"

text \<open>A call that the world may reject; the attempt is recorded either way.\<close>

definition perform :: "world \<Rightarrow> effect \<Rightarrow> unit action" where
  "perform w e s =
     (if rejects w (trace s) e then (Rejected (Failed e), s\<lparr>trace := trace s @ [e]\<rparr>)
      else (Value (), s\<lparr>trace := trace s @ [e]\<rparr>))"

definition throw :: "failure \<Rightarrow> 'a action" where
  "throw e s = (Rejected e, s)"

text \<open>Reading \<^verbatim>\<open>options.template\<close> and \<^verbatim>\<open>options.dbType\<close>; line 84 assigns the latter.\<close>

definition getTemplate :: "string option action" where
  "getTemplate s = (Value (template (opts s)), s)"

definition getDbType :: "string option action" where
  "getDbType s = (Value (dbType (opts s)), s)"

definition setDbType :: "string option \<Rightarrow> unit action" where
  "setDbType v s = (Value (), s\<lparr>opts := (opts s)\<lparr>dbType := v\<rparr>\<rparr>)"

text \<open>
  Modelled from the spec: \<^verbatim>\<open>displayError\<close> is imported from \<^verbatim>\<open>../utils\<close>, which is
  not among the sources. The specification calls each reported error "terminal for the
  invocation": the text is shown to the user and "the process does not continue after
  reporting". So the call records the report and never returns.
\<close>

definition displayError :: "message \<Rightarrow> createAppOptions \<Rightarrow> 'a action" where
  "displayError text opts' s = (Exited, s\<lparr>trace := trace s @ [DisplayError text opts']\<rparr>)"

subsection \<open>Small pieces of JavaScript\<close>

text \<open>Truthiness of an optional string: absent and empty are both false.\<close>

fun truthy :: "string option \<Rightarrow> bool" where
  "truthy None = False"
| "truthy (Some s) = (s \<noteq> [])"

fun truthyVal :: "jsval \<Rightarrow> bool" where
  "truthyVal Undefined = False"
| "truthyVal (Str s) = (s \<noteq> [])"
| "truthyVal (Arr xs) = True"

text \<open>Line 93: \<^verbatim>\<open>Array.isArray(d) ? d : [d]\<close>.\<close>

fun toArray :: "jsval \<Rightarrow> jsval list" where
  "toArray (Arr xs) = xs"
| "toArray v = [v]"

text \<open>\<^verbatim>\<open>driverDependencies[0]\<close>; an empty array gives \<^verbatim>\<open>undefined\<close>.\<close>

fun first :: "jsval list \<Rightarrow> jsval" where
  "first [] = Undefined"
| "first (x # xs) = x"

text \<open>Lines 94 and 99: \<^verbatim>\<open>driverDependencies[0] === '@cubejs-backend/jdbc-driver'\<close>.\<close>

definition isJdbc :: "jsval list \<Rightarrow> bool" where
  "isJdbc ds = (first ds = Str ''@cubejs-backend/jdbc-driver'')"

text \<open>Line 126: \<^verbatim>\<open>crypto.randomBytes(64).toString('hex')\<close>.\<close>

definition randomBytes :: "world \<Rightarrow> nat \<Rightarrow> 8 word list" where
  "randomBytes w n = map (entropy w) [0..<n]"

definition hexDigit :: "nat \<Rightarrow> char" where
  "hexDigit n = ''0123456789abcdef'' ! n"

definition byteToHex :: "8 word \<Rightarrow> string" where
  "byteToHex b = [hexDigit (unat b div 16), hexDigit (unat b mod 16)]"

definition toHex :: "8 word list \<Rightarrow> string" where
  "toHex bs = concat (map byteToHex bs)"

subsection \<open>The function, in the stages it logs\<close>

text \<open>
  \<^verbatim>\<open>templates[template]\<close>: the registry's own entry, else what an ordinary object
  inherits under that name, else \<^verbatim>\<open>undefined\<close>.
\<close>

definition lookupTemplate :: "world \<Rightarrow> string \<Rightarrow> templateValue option" where
  "lookupTemplate w template' =
     (case templates w template' of
        Some templateConfig' \<Rightarrow> Some (Registered templateConfig')
      | None \<Rightarrow> if template' \<in> set objectPrototype then Some Inherited else None)"

text \<open>
  Lines 44 to 57: the two checks made before anything is created. The second one,
  \<^verbatim>\<open>if (!templates[template])\<close>, tests whether the lookup gave something truthy.
\<close>

definition checkArguments :: "world \<Rightarrow> string \<Rightarrow> string \<Rightarrow> createAppOptions \<Rightarrow> unit action" where
  "checkArguments w projectName template' createAppOptions' =
     await (emit (PathExists projectName)) (\<lambda>_.
     await (if pathExists w projectName
            then displayError (DirectoryAlreadyExist projectName) createAppOptions'
            else ret ()) (\<lambda>_.
     if lookupTemplate w template' = None
     then displayError (UnknownTemplate template') createAppOptions'
     else ret ()))"

text \<open>
  Lines 59 to 73: the directory, the first manifest, the server package. Line 62 looks
  the template up again; reading \<^verbatim>\<open>templateConfig.scripts\<close> of \<^verbatim>\<open>undefined\<close> is a
  TypeError.
\<close>

definition createProjectStructure ::
  "world \<Rightarrow> string \<Rightarrow> string \<Rightarrow> templateValue action" where
  "createProjectStructure w projectName template' =
     await (perform w (EnsureDir projectName)) (\<lambda>_.
     await (perform w (Chdir projectName)) (\<lambda>_.
     await (emit (LogStage CreatingProjectStructure)) (\<lambda>_.
     case lookupTemplate w template' of
       None \<Rightarrow> throw TypeError
     | Some templateConfig' \<Rightarrow>
         await (perform w (WritePackageJson
                  \<lparr>pkg_name = Some projectName,
                   pkg_version = Some ''0.0.1'',
                   pkg_private = Some True,
                   pkg_scripts = scriptsOf templateConfig',
                   pkg_java = None,
                   pkg_dependencies = None\<rparr>)) (\<lambda>_.
         await (emit (LogStage InstallingServerDependencies)) (\<lambda>_.
         await (perform w (NpmInstall [Str ''@cubejs-backend/server''])) (\<lambda>_.
         ret templateConfig'))))))"

text \<open>Lines 75 to 85: ask for the database type when the caller gave none.\<close>

definition dbTypeQuestions :: "world \<Rightarrow> question list" where
  "dbTypeQuestions w =
     [\<lparr>q_type = ''list'', q_name = ''dbType'', q_message = ''Select database'',
       q_choices = map fst (Drivers w)\<rparr>]"

definition selectDbType :: "world \<Rightarrow> unit action" where
  "selectDbType w =
     await getDbType (\<lambda>dbType'.
     if \<not> truthy dbType' then
       await (perform w (RequireFromPackage
                (Str ''@cubejs-backend/server-core/core/DriverDependencies.js''))) (\<lambda>_.
       await (perform w (Prompt (dbTypeQuestions w))) (\<lambda>_.
       setDbType (inquirer_prompt w (dbTypeQuestions w) ''dbType'')))
     else ret ())"

text \<open>Lines 87 to 97: resolve the driver packages and install them.\<close>

definition installDriverDependencies :: "world \<Rightarrow> createAppOptions \<Rightarrow> jsval list action" where
  "installDriverDependencies w createAppOptions' =
     await (emit (LogStage InstallingDBDriverDependencies)) (\<lambda>_.
     await (perform w (RequireFromPackage (Str ''@cubejs-backend/server''))) (\<lambda>_.
     await getDbType (\<lambda>dbType'.
     await (emit (DriverDependencies dbType')) (\<lambda>_.
     await (if \<not> truthyVal (driverDependencies w dbType')
            then displayError (UnsupportedDbType dbType') createAppOptions'
            else ret ()) (\<lambda>_.
     let ds = toArray (driverDependencies w dbType');
         ds = (if isJdbc ds then ds @ [Str ''node-java-maven''] else ds)
     in await (perform w (NpmInstall ds)) (\<lambda>_. ret ds))))))"

text \<open>Lines 107 to 114: the manifest read back, with the Maven parts merged in.\<close>

definition mergeJava :: "dbTypeDescriptor \<Rightarrow> manifest \<Rightarrow> manifest" where
  "mergeJava d m =
     (case mavenDependency d of
        Some dep \<Rightarrow> m\<lparr>pkg_java := Some \<lparr>java_dependencies = [dep]\<rparr>\<rparr>
      | None \<Rightarrow> m)"

definition setInstallScript :: "manifest \<Rightarrow> manifest" where
  "setInstallScript m =
     m\<lparr>pkg_scripts :=
         Some (AList.update ''install'' ''./node_modules/.bin/node-java-maven''
                 (case pkg_scripts m of Some sc \<Rightarrow> sc | None \<Rightarrow> []))\<rparr>"

text \<open>
  Lines 99 to 118: only for the JDBC bridge. Reading \<^verbatim>\<open>mavenDependency\<close> of a
  missing descriptor is a TypeError.
\<close>

definition installJDBCDependencies :: "world \<Rightarrow> createAppOptions \<Rightarrow> jsval list \<Rightarrow> unit action" where
  "installJDBCDependencies w createAppOptions' ds =
     (if isJdbc ds then
        await (emit (LogStage InstallingJDBCDependencies)) (\<lambda>_.
        await (perform w RequireJDBCDriver) (\<lambda>_.
        await getDbType (\<lambda>dbType'.
        await (emit (DbTypeDescription dbType')) (\<lambda>_.
        await (if dbTypeDescription w dbType' = None
               then displayError (UnsupportedDbType dbType') createAppOptions'
               else ret ()) (\<lambda>_.
        await (perform w (ReadJson ''package.json'')) (\<lambda>_.
        case dbTypeDescription w dbType' of
          None \<Rightarrow> throw TypeError
        | Some d \<Rightarrow>
            await (perform w (WritePackageJson
                     (setInstallScript (mergeJava d (readJson w ''package.json''))))) (\<lambda>_.
            perform w (ExecuteCommand ''npm'' [''install'']))))))))
      else ret ())"

text \<open>
  Lines 130 to 133: \<^verbatim>\<open>Promise.all(Object.keys(templateConfig.files).map(async ...))\<close>.
  The callbacks are started one after the other, in key order, and each runs up to its
  first \<^verbatim>\<open>await\<close>: so every \<^verbatim>\<open>fs.ensureDir\<close> is called before any file is written.
  \<open>ensureDirs\<close> makes these calls and returns the files whose directory could not be made.
\<close>

fun ensureDirs :: "world \<Rightarrow> string list \<Rightarrow> state \<Rightarrow> string list \<times> state" where
  "ensureDirs w [] s = ([], s)"
| "ensureDirs w (fileName # rest) s =
     (let (failed, s') = ensureDirs w rest (s\<lparr>trace := trace s @ [EnsureDir (dirname w fileName)]\<rparr>)
      in (if rejects w (trace s) (EnsureDir (dirname w fileName)) then fileName # failed
          else failed, s'))"

text \<open>
  Each callback goes on when its directory is in place, so the files are written in the
  order the directories come ready, not in key order. A callback whose
  \<^verbatim>\<open>fs.ensureDir\<close> was rejected ends there; the others render their file and write it,
  whatever happens to the rest. The result lists the callbacks that failed.
\<close>

fun writeReady ::
  "world \<Rightarrow> environment \<Rightarrow> (string \<times> (environment \<Rightarrow> string)) list \<Rightarrow> string list \<Rightarrow>
   string list \<Rightarrow> state \<Rightarrow> (string \<times> failure) list \<times> state" where
  "writeReady w env fs failed [] s = ([], s)"
| "writeReady w env fs failed (fileName # rest) s =
     (if fileName \<in> set failed then
        (let (failures, s') = writeReady w env fs failed rest s
         in ((fileName, Failed (EnsureDir (dirname w fileName))) # failures, s'))
      else
        (case map_of fs fileName of
           None \<Rightarrow>
             (let (failures, s') = writeReady w env fs failed rest s
              in ((fileName, TypeError) # failures, s'))
         | Some render \<Rightarrow>
             (let (failures, s') =
                    writeReady w env fs failed rest
                      (s\<lparr>trace := trace s @ [WriteFile fileName (render env)]\<rparr>)
              in (if rejects w (trace s) (WriteFile fileName (render env))
                  then (fileName, Failed (WriteFile fileName (render env))) # failures
                  else failures, s'))))"

text \<open>
  \<^verbatim>\<open>Promise.all\<close> resolves when every callback has, and rejects with the failure of
  the callback that fails first; the other callbacks are not stopped.
\<close>

definition writeAll ::
  "world \<Rightarrow> environment \<Rightarrow> (string \<times> (environment \<Rightarrow> string)) list \<Rightarrow> unit action" where
  "writeAll w env fs s =
     (let (failed, s1) = ensureDirs w (map fst fs) s;
          (failures, s2) = writeReady w env fs failed (sort_key (dirReady w) (map fst fs)) s1
      in case sort_key (\<lambda>(fileName, f). settled w fileName) failures of
           [] \<Rightarrow> (Value (), s2)
         | (fileName, f) # _ \<Rightarrow> (Rejected f, s2))"

text \<open>
  Lines 120 to 133. \<^verbatim>\<open>Object.keys(templateConfig.files)\<close> of a value without
  \<^verbatim>\<open>files\<close> is a TypeError.
\<close>

definition makeEnv :: "world \<Rightarrow> string \<Rightarrow> string option \<Rightarrow> jsval list \<Rightarrow> environment" where
  "makeEnv w projectName dbType' ds =
     \<lparr>env_dbType = dbType',
      apiSecret = toHex (randomBytes w 64),
      env_projectName = projectName,
      env_driverEnvVariables = driverEnvVariables (requireDriver w (first ds))\<rparr>"

definition writeFilesFromTemplate ::
  "world \<Rightarrow> string \<Rightarrow> templateValue \<Rightarrow> jsval list \<Rightarrow> unit action" where
  "writeFilesFromTemplate w projectName templateConfig' ds =
     await (emit (LogStage WritingFilesFromTemplate)) (\<lambda>_.
     await (perform w (RequireFromPackage (first ds))) (\<lambda>_.
     await getDbType (\<lambda>dbType'.
     case filesOf templateConfig' of
       None \<Rightarrow> throw TypeError
     | Some fs \<Rightarrow> writeAll w (makeEnv w projectName dbType' ds) fs)))"

text \<open>Lines 135 to 143. An array is truthy even when it is empty.\<close>

definition installTemplateDependencies :: "world \<Rightarrow> templateValue \<Rightarrow> unit action" where
  "installTemplateDependencies w templateConfig' =
     await (case dependenciesOf templateConfig' of
              Some deps \<Rightarrow>
                await (emit (LogStage InstallingTemplateDependencies)) (\<lambda>_.
                perform w (NpmInstall (map Str deps)))
            | None \<Rightarrow> ret ()) (\<lambda>_.
     case devDependenciesOf templateConfig' of
       Some deps \<Rightarrow>
         await (emit (LogStage InstallingTemplateDevDependencies)) (\<lambda>_.
         perform w (NpmInstall (map Str deps)))
     | None \<Rightarrow> ret ())"

text \<open>Lines 145 to 153; this telemetry event is awaited.\<close>

definition reportSuccess :: "world \<Rightarrow> string \<Rightarrow> unit action" where
  "reportSuccess w projectName =
     await getDbType (\<lambda>dbType'.
     await (perform w (EventCreateAppSuccess projectName dbType')) (\<lambda>_.
     await (emit (LogStage (AppHasBeenCreated projectName))) (\<lambda>_.
     emit (ConsoleNextStep projectName))))"

text \<open>Line 39: \<^verbatim>\<open>options.template || 'express'\<close>.\<close>

fun effectiveTemplate :: "string option \<Rightarrow> string" where
  "effectiveTemplate None = ''express''"
| "effectiveTemplate (Some t) = (if t = [] then ''express'' else t)"

text \<open>Line 40.\<close>

definition makeCreateAppOptions :: "string \<Rightarrow> string option \<Rightarrow> string \<Rightarrow> createAppOptions" where
  "makeCreateAppOptions projectName dbType' template' =
     \<lparr>cao_projectName = projectName, cao_dbType = dbType', cao_template = template'\<rparr>"

text \<open>The whole body, lines 39 to 153.\<close>

definition execute :: "world \<Rightarrow> string \<Rightarrow> unit action" where
  "execute w projectName =
     await getTemplate (\<lambda>optionsTemplate.
     await getDbType (\<lambda>dbType'.
     let template' = effectiveTemplate optionsTemplate;
         createAppOptions' = makeCreateAppOptions projectName dbType' template'
     in
     await (emit (EventCreateApp createAppOptions')) (\<lambda>_.
     await (checkArguments w projectName template' createAppOptions') (\<lambda>_.
     await (createProjectStructure w projectName template') (\<lambda>templateConfig'.
     await (selectDbType w) (\<lambda>_.
     await (installDriverDependencies w createAppOptions') (\<lambda>ds.
     await (installJDBCDependencies w createAppOptions' ds) (\<lambda>_.
     await (writeFilesFromTemplate w projectName templateConfig' ds) (\<lambda>_.
     await (installTemplateDependencies w templateConfig') (\<lambda>_.
     reportSuccess w projectName))))))))))"

text \<open>A call \<^verbatim>\<open>execute(projectName, options)\<close>: nothing has happened yet.\<close>

definition invoke :: "world \<Rightarrow> string \<Rightarrow> options \<Rightarrow> unit result \<times> state" where
  "invoke w projectName options' = execute w projectName \<lparr>trace = [], opts = options'\<rparr>"

subsection \<open>Runs in which no call is rejected\<close>

text \<open>The calls that are awaited or may throw: the ones made through \<open>perform\<close>.\<close>

fun canFail :: "effect \<Rightarrow> bool" where
  "canFail (EnsureDir _) = True"
| "canFail (Chdir _) = True"
| "canFail (WritePackageJson _) = True"
| "canFail (NpmInstall _) = True"
| "canFail (RequireFromPackage _) = True"
| "canFail (Prompt _) = True"
| "canFail RequireJDBCDriver = True"
| "canFail (ReadJson _) = True"
| "canFail (ExecuteCommand _ _) = True"
| "canFail (WriteFile _ _) = True"
| "canFail (EventCreateAppSuccess _ _) = True"
| "canFail _ = False"

text \<open>The same world, with every call going through.\<close>

definition calm :: "world \<Rightarrow> world" where
  "calm w = w\<lparr>rejects := \<lambda>_ _. False\<rparr>"

text \<open>An action only ever adds to the trace.\<close>

definition grows :: "'a action \<Rightarrow> bool" where
  "grows m = (\<forall>s. prefix (trace s) (trace (snd (m s))))"

fun isWrite :: "effect \<Rightarrow> bool" where
  "isWrite (WriteFile _ _) = True"
| "isWrite _ = False"

fun isEnsureDir :: "effect \<Rightarrow> bool" where
  "isEnsureDir (EnsureDir _) = True"
| "isEnsureDir _ = False"

text \<open>
  \<open>cut w m m0\<close>: from every state, \<open>m\<close> either does exactly what \<open>m0\<close> does, or is
  rejected. Then its calls are \<open>early @ late\<close>, where \<open>m0\<close> makes the calls \<open>early\<close>
  too and goes on with \<open>late0\<close>: either the run stopped at the rejected call, the last of
  \<open>early\<close>, and there is nothing late; or it was rejected while the template files were
  written, \<open>early\<close> ends with the last \<^verbatim>\<open>fs.ensureDir\<close> and \<open>late\<close> are those of the
  writes \<open>late0\<close> whose directory could be made.
\<close>

definition cut :: "world \<Rightarrow> 'a action \<Rightarrow> 'a action \<Rightarrow> bool" where
  "cut w m m0 =
     (\<forall>s. m s = m0 s \<or>
          (\<exists>f early late late0.
              fst (m s) = Rejected f \<and> trace (snd (m s)) = early @ late \<and>
              prefix (early @ late0) (trace (snd (m0 s))) \<and>
              subseq late late0 \<and> (\<forall>e \<in> set late0. isWrite e) \<and>
              early \<noteq> [] \<and> canFail (last early) \<and>
              (late0 = [] \<and> f = Failed (last early) \<or> isEnsureDir (last early))))"

subsection \<open>The calls of an undisturbed run, stage by stage\<close>

text \<open>
  The database type in force from line 85 on: the one given, or the answer to the prompt.
\<close>

definition chosenDbType :: "world \<Rightarrow> options \<Rightarrow> string option" where
  "chosenDbType w options' =
     (if truthy (dbType options') then dbType options'
      else inquirer_prompt w (dbTypeQuestions w) ''dbType'')"

definition givenOptions :: "string \<Rightarrow> options \<Rightarrow> createAppOptions" where
  "givenOptions projectName options' =
     makeCreateAppOptions projectName (dbType options') (effectiveTemplate (template options'))"

definition openingCalls :: "string \<Rightarrow> options \<Rightarrow> effect list" where
  "openingCalls projectName options' =
     [EventCreateApp (givenOptions projectName options'), PathExists projectName]"

definition structureCalls :: "string \<Rightarrow> templateValue \<Rightarrow> effect list" where
  "structureCalls projectName v =
     [EnsureDir projectName, Chdir projectName, LogStage CreatingProjectStructure,
      WritePackageJson
        \<lparr>pkg_name = Some projectName, pkg_version = Some ''0.0.1'', pkg_private = Some True,
         pkg_scripts = scriptsOf v, pkg_java = None, pkg_dependencies = None\<rparr>,
      LogStage InstallingServerDependencies,
      NpmInstall [Str ''@cubejs-backend/server'']]"

definition selectionCalls :: "world \<Rightarrow> options \<Rightarrow> effect list" where
  "selectionCalls w options' =
     (if truthy (dbType options') then []
      else [RequireFromPackage (Str ''@cubejs-backend/server-core/core/DriverDependencies.js''),
            Prompt (dbTypeQuestions w)])"

definition resolveCalls :: "string option \<Rightarrow> effect list" where
  "resolveCalls d =
     [LogStage InstallingDBDriverDependencies,
      RequireFromPackage (Str ''@cubejs-backend/server''),
      DriverDependencies d]"

definition installList :: "world \<Rightarrow> string option \<Rightarrow> jsval list" where
  "installList w d =
     (if isJdbc (toArray (driverDependencies w d))
      then toArray (driverDependencies w d) @ [Str ''node-java-maven'']
      else toArray (driverDependencies w d))"

definition jdbcLookupCalls :: "string option \<Rightarrow> effect list" where
  "jdbcLookupCalls d = [LogStage InstallingJDBCDependencies, RequireJDBCDriver, DbTypeDescription d]"

definition jdbcRewriteCalls :: "world \<Rightarrow> dbTypeDescriptor \<Rightarrow> effect list" where
  "jdbcRewriteCalls w desc =
     [ReadJson ''package.json'',
      WritePackageJson (setInstallScript (mergeJava desc (readJson w ''package.json''))),
      ExecuteCommand ''npm'' [''install'']]"

definition jdbcCalls :: "world \<Rightarrow> string option \<Rightarrow> effect list" where
  "jdbcCalls w d =
     (if isJdbc (toArray (driverDependencies w d))
      then jdbcLookupCalls d @
           (case dbTypeDescription w d of Some desc \<Rightarrow> jdbcRewriteCalls w desc | None \<Rightarrow> [])
      else [])"

definition rendered ::
  "environment \<Rightarrow> (string \<times> (environment \<Rightarrow> string)) list \<Rightarrow> string \<Rightarrow> effect" where
  "rendered env fs n = WriteFile n (case map_of fs n of Some r \<Rightarrow> r env | None \<Rightarrow> [])"

definition fileCalls ::
  "world \<Rightarrow> environment \<Rightarrow> (string \<times> (environment \<Rightarrow> string)) list \<Rightarrow> effect list" where
  "fileCalls w env fs =
     map (\<lambda>n. EnsureDir (dirname w n)) (map fst fs) @
     map (rendered env fs) (sort_key (dirReady w) (map fst fs))"

definition dependencyCalls :: "templateConfig \<Rightarrow> effect list" where
  "dependencyCalls tc =
     (case dependencies tc of
        Some deps \<Rightarrow> [LogStage InstallingTemplateDependencies, NpmInstall (map Str deps)]
      | None \<Rightarrow> []) @
     (case devDependencies tc of
        Some deps \<Rightarrow> [LogStage InstallingTemplateDevDependencies, NpmInstall (map Str deps)]
      | None \<Rightarrow> [])"

definition closingCalls :: "string \<Rightarrow> string option \<Rightarrow> effect list" where
  "closingCalls projectName d =
     [EventCreateAppSuccess projectName d, LogStage (AppHasBeenCreated projectName),
      ConsoleNextStep projectName]"

definition driverCalls :: "world \<Rightarrow> string \<Rightarrow> options \<Rightarrow> templateValue \<Rightarrow> effect list" where
  "driverCalls w projectName options' v =
     openingCalls projectName options' @ structureCalls projectName v @
     selectionCalls w options' @ resolveCalls (chosenDbType w options')"

text \<open>
  From line 120 on. With a value that has no \<^verbatim>\<open>files\<close> the run ends on line 130, in
  a TypeError.
\<close>

fun templateCalls :: "world \<Rightarrow> string \<Rightarrow> options \<Rightarrow> templateValue \<Rightarrow> effect list" where
  "templateCalls w projectName options' (Registered tc) =
     [LogStage WritingFilesFromTemplate,
      RequireFromPackage (first (installList w (chosenDbType w options')))] @
     fileCalls w (makeEnv w projectName (chosenDbType w options')
                    (installList w (chosenDbType w options'))) (files tc) @
     dependencyCalls tc @ closingCalls projectName (chosenDbType w options')"
| "templateCalls w projectName options' Inherited =
     [LogStage WritingFilesFromTemplate,
      RequireFromPackage (first (installList w (chosenDbType w options')))]"

fun outcome :: "templateValue \<Rightarrow> unit result" where
  "outcome (Registered tc) = Value ()"
| "outcome Inherited = Rejected TypeError"

subsection \<open>Reading a trace\<close>

text \<open>The calls that belong to the JDBC handling of lines 99 to 118.\<close>

fun jdbcStep :: "effect \<Rightarrow> bool" where
  "jdbcStep (LogStage InstallingJDBCDependencies) = True"
| "jdbcStep RequireJDBCDriver = True"
| "jdbcStep (DbTypeDescription _) = True"
| "jdbcStep (ReadJson _) = True"
| "jdbcStep (WritePackageJson _) = True"
| "jdbcStep (ExecuteCommand _ _) = True"
| "jdbcStep _ = False"

text \<open>What was written to which file, in order.\<close>

fun writeOf :: "effect \<Rightarrow> (string \<times> string) list" where
  "writeOf (WriteFile n c) = [(n, c)]"
| "writeOf _ = []"

definition fileWrites :: "effect list \<Rightarrow> (string \<times> string) list" where
  "fileWrites tr = concat (map writeOf tr)"

text \<open>The calls that run the package manager.\<close>

fun installs :: "effect \<Rightarrow> bool" where
  "installs (NpmInstall _) = True"
| "installs (ExecuteCommand _ _) = True"
| "installs _ = False"

text \<open>The interactive prompts.\<close>

fun isPrompt :: "effect \<Rightarrow> bool" where
  "isPrompt (Prompt _) = True"
| "isPrompt _ = False"

subsection \<open>A sample world\<close>

definition expressTemplate :: templateConfig where
  "expressTemplate =
     \<lparr>scripts = [(''dev'', ''./node_modules/.bin/cubejs-server'')],
      files = [(''index.js'', \<lambda>env. ''// '' @ env_projectName env),
               (''.env'', \<lambda>env.
                  ''CUBEJS_DB_TYPE='' @ (case env_dbType env of Some d \<Rightarrow> d | None \<Rightarrow> []) @
                  '' CUBEJS_API_SECRET='' @ apiSecret env)],
      dependencies = None,
      devDependencies = None\<rparr>"

definition hiveDescriptor :: dbTypeDescriptor where
  "hiveDescriptor =
     \<lparr>mavenDependency =
        Some \<lparr>groupId = ''org.apache.hive'', artifactId = ''hive-jdbc'', mvn_version = ''2.3.5''\<rparr>\<rparr>"

definition installedManifest :: manifest where
  "installedManifest =
     \<lparr>pkg_name = Some ''fresh'', pkg_version = Some ''0.0.1'', pkg_private = Some True,
      pkg_scripts = Some [(''dev'', ''./node_modules/.bin/cubejs-server'')],
      pkg_java = None,
      pkg_dependencies = Some [(''@cubejs-backend/server'', ''^0.19.0'')]\<rparr>"

text \<open>
  Nothing is rejected; the path \<^verbatim>\<open>taken\<close> exists; \<^verbatim>\<open>express\<close> is the only template;
  the user picks \<^verbatim>\<open>postgres\<close> when asked; \<^verbatim>\<open>hive\<close> resolves to the JDBC bridge;
  the directory of \<^verbatim>\<open>.env\<close> is in place before that of \<^verbatim>\<open>index.js\<close>.
\<close>

definition sampleWorld :: world where
  "sampleWorld =
     \<lparr>rejects = \<lambda>_ _. False,
      pathExists = \<lambda>p. p = ''taken'',
      templates = \<lambda>t. if t = ''express'' then Some expressTemplate else None,
      Drivers = [(''postgres'', Str ''@cubejs-backend/postgres-driver''),
                 (''hive'', Str ''@cubejs-backend/jdbc-driver'')],
      inquirer_prompt = \<lambda>_ n. if n = ''dbType'' then Some ''postgres'' else None,
      driverDependencies = \<lambda>d.
        if d = Some ''postgres'' then Str ''@cubejs-backend/postgres-driver''
        else if d = Some ''hive'' then Str ''@cubejs-backend/jdbc-driver''
        else Undefined,
      dbTypeDescription = \<lambda>d. if d = Some ''hive'' then Some hiveDescriptor else None,
      readJson = \<lambda>_. installedManifest,
      requireDriver = \<lambda>_. \<lparr>driverEnvVariables = Some [''CUBEJS_DB_HOST'']\<rparr>,
      entropy = \<lambda>i. of_nat i,
      dirname = \<lambda>_. ''.'',
      dirReady = \<lambda>n. if n = ''.env'' then 1 else 2,
      settled = \<lambda>n. if n = ''.env'' then 3 else 4\<rparr>"

text \<open>The same world with the package registry out of reach: the first installation fails.\<close>

definition offlineWorld :: world where
  "offlineWorld = sampleWorld\<lparr>rejects := \<lambda>_ e. e = NpmInstall [Str ''@cubejs-backend/server'']\<rparr>"

text \<open>
  The same world with a driver table that has arrays in it: \<^verbatim>\<open>mixed\<close> has the JDBC
  bridge in second place, \<^verbatim>\<open>bridge\<close> has it in first place.
\<close>

definition arrayWorld :: world where
  "arrayWorld =
     sampleWorld
       \<lparr>driverDependencies := \<lambda>d.
          if d = Some ''mixed''
          then Arr [Str ''@cubejs-backend/postgres-driver'', Str ''@cubejs-backend/jdbc-driver'']
          else if d = Some ''bridge''
          then Arr [Str ''@cubejs-backend/jdbc-driver'', Str ''@cubejs-backend/postgres-driver'']
          else Undefined,
        dbTypeDescription := \<lambda>d. if d = Some ''bridge'' then Some hiveDescriptor else None\<rparr>"

text \<open>The same world with a file system that refuses to write \<^verbatim>\<open>.env\<close>.\<close>

fun writesTo :: "string \<Rightarrow> effect \<Rightarrow> bool" where
  "writesTo n (WriteFile n' c) = (n' = n)"
| "writesTo n _ = False"

definition readOnlyWorld :: world where
  "readOnlyWorld = sampleWorld\<lparr>rejects := \<lambda>_ e. writesTo ''.env'' e\<rparr>"

text \<open>The environment that a run in the sample world on the path \<^verbatim>\<open>fresh\<close> builds.\<close>

definition sampleEnv :: "string option \<Rightarrow> jsval list \<Rightarrow> environment" where
  "sampleEnv d ds = makeEnv sampleWorld ''fresh'' d ds"

subsection \<open>Auxiliary notions for the proofs\<close>

text \<open>
  An undisturbed run on a free path with a template name that passes line 52: the calls
  up to the driver lookup, and the calls after it.
\<close>

definition beforeLookup :: "world \<Rightarrow> string \<Rightarrow> options \<Rightarrow> templateValue \<Rightarrow> effect list" where
  "beforeLookup w p o' v =
     openingCalls p o' @ structureCalls p v @ selectionCalls w o' @
     [LogStage InstallingDBDriverDependencies, RequireFromPackage (Str ''@cubejs-backend/server'')]"

definition afterLookup :: "world \<Rightarrow> string \<Rightarrow> options \<Rightarrow> templateValue \<Rightarrow> effect list" where
  "afterLookup w p o' v =
     (let d = chosenDbType w o' in
      if \<not> truthyVal (driverDependencies w d)
      then [DisplayError (UnsupportedDbType d) (givenOptions p o')]
      else NpmInstall (installList w d) #
           (if isJdbc (toArray (driverDependencies w d)) \<and> dbTypeDescription w d = None
            then jdbcLookupCalls d @ [DisplayError (UnsupportedDbType d) (givenOptions p o')]
            else jdbcCalls w d @ templateCalls w p o' v))"

text \<open>
  Changing \<^verbatim>\<open>options.template\<close> in a state, and actions that neither read nor write
  that field.
\<close>

definition retemplate :: "string option \<Rightarrow> state \<Rightarrow> state" where
  "retemplate t s = s\<lparr>opts := (opts s)\<lparr>template := t\<rparr>\<rparr>"

definition blind :: "'a action \<Rightarrow> bool" where
  "blind m = (\<forall>s t. m (retemplate t s) = (fst (m s), retemplate t (snd (m s))))"

text \<open>The body of the function after line 39, with the template name settled.\<close>

definition afterTemplate :: "world \<Rightarrow> string \<Rightarrow> string \<Rightarrow> unit action" where
  "afterTemplate w projectName template' =
     await getDbType (\<lambda>dbType'.
     await (emit (EventCreateApp (makeCreateAppOptions projectName dbType' template'))) (\<lambda>_.
     await (checkArguments w projectName template'
              (makeCreateAppOptions projectName dbType' template')) (\<lambda>_.
     await (createProjectStructure w projectName template') (\<lambda>templateConfig'.
     await (selectDbType w) (\<lambda>_.
     await (installDriverDependencies w
              (makeCreateAppOptions projectName dbType' template')) (\<lambda>ds.
     await (installJDBCDependencies w
              (makeCreateAppOptions projectName dbType' template') ds) (\<lambda>_.
     await (writeFilesFromTemplate w projectName templateConfig' ds) (\<lambda>_.
     await (installTemplateDependencies w templateConfig') (\<lambda>_.
     reportSuccess w projectName)))))))))"

text \<open>An undisturbed run up to the choice of the database type.\<close>

definition selected :: "world \<Rightarrow> string \<Rightarrow> options \<Rightarrow> templateValue \<Rightarrow> effect list" where
  "selected w p o' v = openingCalls p o' @ structureCalls p v @ selectionCalls w o'"

text \<open>
  An action leaves the \<^verbatim>\<open>options\<close> object alone, or stores the answer to the prompt
  in a \<^verbatim>\<open>dbType\<close> that was absent or empty.
\<close>

definition steady :: "world \<Rightarrow> 'a action \<Rightarrow> bool" where
  "steady w m =
     (\<forall>s. opts (snd (m s)) = opts s \<or>
          \<not> truthy (dbType (opts s)) \<and>
          opts (snd (m s)) = (opts s)\<lparr>dbType := inquirer_prompt w (dbTypeQuestions w) ''dbType''\<rparr>)"

section \<open>How a rejected run relates to an undisturbed one\<close>

lemma calm_simps [simp]:
  "rejects (calm w) = (\<lambda>_ _. False)"
  "pathExists (calm w) = pathExists w"
  "templates (calm w) = templates w"
  "Drivers (calm w) = Drivers w"
  "inquirer_prompt (calm w) = inquirer_prompt w"
  "driverDependencies (calm w) = driverDependencies w"
  "dbTypeDescription (calm w) = dbTypeDescription w"
  "readJson (calm w) = readJson w"
  "requireDriver (calm w) = requireDriver w"
  "entropy (calm w) = entropy w"
  "dirname (calm w) = dirname w"
  "dirReady (calm w) = dirReady w"
  "settled (calm w) = settled w"
  by (simp_all add: calm_def)

lemma lookupTemplate_calm [simp]: "lookupTemplate (calm w) = lookupTemplate w"
  by (simp add: lookupTemplate_def fun_eq_iff)

lemma dbTypeQuestions_calm [simp]: "dbTypeQuestions (calm w) = dbTypeQuestions w"
  by (simp add: dbTypeQuestions_def)

lemma makeEnv_calm [simp]: "makeEnv (calm w) = makeEnv w"
  by (simp add: makeEnv_def randomBytes_def fun_eq_iff)

lemma grows_ret: "grows (ret x)"
  by (simp add: grows_def ret_def)

lemma grows_throw: "grows (throw e)"
  by (simp add: grows_def throw_def)

lemma grows_emit: "grows (emit e)"
  by (simp add: grows_def emit_def)

lemma grows_perform: "grows (perform w e)"
  by (simp add: grows_def perform_def)

lemma grows_getTemplate: "grows getTemplate"
  by (simp add: grows_def getTemplate_def)

lemma grows_getDbType: "grows getDbType"
  by (simp add: grows_def getDbType_def)

lemma grows_setDbType: "grows (setDbType v)"
  by (simp add: grows_def setDbType_def)

lemma grows_displayError: "grows (displayError t c)"
  by (simp add: grows_def displayError_def)

lemma grows_await:
  assumes "grows m" and "\<And>x. grows (f x)"
  shows "grows (await m f)"
  unfolding grows_def
proof
  fix s
  obtain r s' where ms: "m s = (r, s')" by (cases "m s")
  with assms(1) have le: "prefix (trace s) (trace s')"
    by (auto simp add: grows_def dest: spec [of _ s])
  show "prefix (trace s) (trace (snd (await m f s)))"
  proof (cases r)
    case (Value x)
    from assms(2) [of x] have "prefix (trace s') (trace (snd (f x s')))"
      by (simp add: grows_def)
    with le ms Value show ?thesis
      by (simp add: await_def)
  qed (use le ms in \<open>simp_all add: await_def\<close>)
qed

lemma grows_if: "grows a \<Longrightarrow> grows b \<Longrightarrow> grows (if c then a else b)"
  by simp

lemma grows_case_option:
  "grows a \<Longrightarrow> (\<And>x. grows (b x)) \<Longrightarrow> grows (case v of None \<Rightarrow> a | Some x \<Rightarrow> b x)"
  by (cases v) auto

lemma cut_refl: "cut w m m"
  by (simp add: cut_def)

lemma cut_perform:
  assumes "canFail e"
  shows "cut w (perform w e) (perform (calm w) e)"
  unfolding cut_def
proof
  fix s
  show "perform w e s = perform (calm w) e s \<or>
         (\<exists>f early late late0.
             fst (perform w e s) = Rejected f \<and> trace (snd (perform w e s)) = early @ late \<and>
             prefix (early @ late0) (trace (snd (perform (calm w) e s))) \<and>
             subseq late late0 \<and> (\<forall>e \<in> set late0. isWrite e) \<and>
             early \<noteq> [] \<and> canFail (last early) \<and>
             (late0 = [] \<and> f = Failed (last early) \<or> isEnsureDir (last early)))"
  proof (cases "rejects w (trace s) e")
    case False
    then show ?thesis by (simp add: perform_def)
  next
    case True
    with assms have "fst (perform w e s) = Rejected (Failed e) \<and>
        trace (snd (perform w e s)) = (trace s @ [e]) @ [] \<and>
        prefix ((trace s @ [e]) @ []) (trace (snd (perform (calm w) e s))) \<and>
        subseq [] [] \<and> (\<forall>e \<in> set []. isWrite e) \<and>
        trace s @ [e] \<noteq> [] \<and> canFail (last (trace s @ [e])) \<and>
        ([] = [] \<and> Failed e = Failed (last (trace s @ [e])) \<or> isEnsureDir (last (trace s @ [e])))"
      by (simp add: perform_def)
    then show ?thesis by blast
  qed
qed

lemma cut_await:
  assumes "cut w m m0" and "\<And>x. cut w (f x) (f0 x)" and "\<And>x. grows (f0 x)"
  shows "cut w (await m f) (await m0 f0)"
  unfolding cut_def
proof
  fix s
  show "await m f s = await m0 f0 s \<or>
         (\<exists>f' early late late0.
             fst (await m f s) = Rejected f' \<and> trace (snd (await m f s)) = early @ late \<and>
             prefix (early @ late0) (trace (snd (await m0 f0 s))) \<and>
             subseq late late0 \<and> (\<forall>e \<in> set late0. isWrite e) \<and>
             early \<noteq> [] \<and> canFail (last early) \<and>
             (late0 = [] \<and> f' = Failed (last early) \<or> isEnsureDir (last early)))"
  proof (cases "m s = m0 s")
    case True
    obtain r s' where ms: "m0 s = (r, s')" by (cases "m0 s")
    show ?thesis
    proof (cases r)
      case (Value x)
      with assms(2) [of x] True ms show ?thesis
        by (simp add: cut_def await_def)
    qed (use True ms in \<open>simp_all add: await_def\<close>)
  next
    case False
    with assms(1) obtain f' early late late0 where
      e: "fst (m s) = Rejected f'" "trace (snd (m s)) = early @ late"
         "prefix (early @ late0) (trace (snd (m0 s)))"
         "subseq late late0" "\<forall>e \<in> set late0. isWrite e" "early \<noteq> []" "canFail (last early)"
         "late0 = [] \<and> f' = Failed (last early) \<or> isEnsureDir (last early)"
      unfolding cut_def by blast
    obtain s1 where ms: "m s = (Rejected f', s1)"
      using e(1) by (cases "m s") auto
    obtain r0 s0 where m0s: "m0 s = (r0, s0)" by (cases "m0 s")
    have "prefix (trace s0) (trace (snd (await m0 f0 s)))"
    proof (cases r0)
      case (Value x)
      with assms(3) [of x] m0s show ?thesis
        by (simp add: grows_def await_def)
    qed (use m0s in \<open>simp_all add: await_def\<close>)
    with e(3) m0s have "prefix (early @ late0) (trace (snd (await m0 f0 s)))"
      by (metis prefix_order.trans snd_conv)
    with e ms have "fst (await m f s) = Rejected f' \<and> trace (snd (await m f s)) = early @ late \<and>
        prefix (early @ late0) (trace (snd (await m0 f0 s))) \<and>
        subseq late late0 \<and> (\<forall>e \<in> set late0. isWrite e) \<and>
        early \<noteq> [] \<and> canFail (last early) \<and>
        (late0 = [] \<and> f' = Failed (last early) \<or> isEnsureDir (last early))"
      by (simp add: await_def)
    then show ?thesis by blast
  qed
qed

lemma cut_if:
  "(c \<Longrightarrow> cut w a a0) \<Longrightarrow> (\<not> c \<Longrightarrow> cut w b b0) \<Longrightarrow>
   cut w (if c then a else b) (if c then a0 else b0)"
  by simp

lemma cut_case_option:
  "cut w a a0 \<Longrightarrow> (\<And>x. cut w (b x) (b0 x)) \<Longrightarrow>
   cut w (case v of None \<Rightarrow> a | Some x \<Rightarrow> b x) (case v of None \<Rightarrow> a0 | Some x \<Rightarrow> b0 x)"
  by (cases v) auto

lemmas grows_intros = grows_await grows_ret grows_throw grows_emit grows_perform
  grows_getTemplate grows_getDbType grows_setDbType grows_displayError grows_if
  grows_case_option

lemmas cut_intros = cut_await cut_perform cut_if cut_case_option

lemma grows_checkArguments: "grows (checkArguments w p t c)"
  unfolding checkArguments_def by (intro grows_intros)

lemma grows_createProjectStructure: "grows (createProjectStructure w p t)"
  unfolding createProjectStructure_def by (intro grows_intros)

lemma grows_selectDbType: "grows (selectDbType w)"
  unfolding selectDbType_def by (intro grows_intros)

lemma grows_installDriverDependencies: "grows (installDriverDependencies w c)"
  unfolding installDriverDependencies_def Let_def by (intro grows_intros)

lemma grows_installJDBCDependencies: "grows (installJDBCDependencies w c ds)"
  unfolding installJDBCDependencies_def by (intro grows_intros)

text \<open>What the two rounds of calls of lines 130 to 133 leave in the trace.\<close>

lemma ensureDirs_state:
  "snd (ensureDirs w ns s) = s\<lparr>trace := trace s @ map (\<lambda>n. EnsureDir (dirname w n)) ns\<rparr>"
  by (induction ns arbitrary: s) (simp_all add: case_prod_beta)

lemma ensureDirs_calm: "fst (ensureDirs (calm w) ns s) = []"
  by (induction ns arbitrary: s) (simp_all add: case_prod_beta)

lemma rendered_known: "map_of fs n = Some render \<Longrightarrow> rendered env fs n = WriteFile n (render env)"
  by (simp add: rendered_def)

lemma key_known:
  assumes "n \<in> fst ` set fs"
  obtains render where "map_of fs n = Some render"
  using assms by (cases "map_of fs n") (auto simp add: map_of_eq_None_iff)

lemma writeReady_state:
  "set ord \<subseteq> fst ` set fs \<Longrightarrow>
   snd (writeReady w env fs failed ord s) =
     s\<lparr>trace := trace s @ map (rendered env fs) (filter (\<lambda>n. n \<notin> set failed) ord)\<rparr>"
proof (induction ord arbitrary: s)
  case Nil
  then show ?case by simp
next
  case (Cons n ord)
  from Cons.prems have "n \<in> fst ` set fs" by simp
  then obtain render where r: "map_of fs n = Some render"
    by (rule key_known)
  from Cons.prems have sub: "set ord \<subseteq> fst ` set fs" by simp
  show ?case
    by (simp add: Cons.IH [OF sub] r rendered_known [OF r] case_prod_beta)
qed

lemma writeReady_all:
  "set ord \<subseteq> fst ` set fs \<Longrightarrow> fst (writeReady w env fs failed ord s) = [] \<Longrightarrow>
   filter (\<lambda>n. n \<notin> set failed) ord = ord"
proof (induction ord arbitrary: s)
  case Nil
  then show ?case by simp
next
  case (Cons n ord)
  from Cons.prems(1) have "n \<in> fst ` set fs" by simp
  then obtain render where r: "map_of fs n = Some render"
    by (rule key_known)
  from Cons.prems(1) have sub: "set ord \<subseteq> fst ` set fs" by simp
  from Cons.prems(2) r have n: "n \<notin> set failed"
    by (auto simp add: case_prod_beta split: if_splits)
  with Cons.prems(2) r
  have "fst (writeReady w env fs failed ord (s\<lparr>trace := trace s @ [WriteFile n (render env)]\<rparr>)) = []"
    by (simp add: case_prod_beta split: if_splits)
  from Cons.IH [OF sub this] n show ?case by simp
qed

lemma writeReady_calm:
  "set ord \<subseteq> fst ` set fs \<Longrightarrow> fst (writeReady (calm w) env fs [] ord s) = []"
proof (induction ord arbitrary: s)
  case Nil
  then show ?case by simp
next
  case (Cons n ord)
  from Cons.prems have "n \<in> fst ` set fs" by simp
  then obtain render where r: "map_of fs n = Some render"
    by (rule key_known)
  from Cons.prems have sub: "set ord \<subseteq> fst ` set fs" by simp
  show ?case
    by (simp add: Cons.IH [OF sub] r case_prod_beta)
qed

lemma writeReady_opts: "opts (snd (writeReady w env fs failed ord s)) = opts s"
  by (induction ord arbitrary: s) (simp_all add: case_prod_beta split: option.splits)

lemma writeReady_grows: "prefix (trace s) (trace (snd (writeReady w env fs failed ord s)))"
proof (induction ord arbitrary: s)
  case Nil
  then show ?case by simp
next
  case (Cons n ord)
  have step: "prefix (trace s) (trace (snd (writeReady w env fs failed ord s')))"
    if "prefix (trace s) (trace s')" for s'
    using that Cons [of s'] by (rule prefix_order.trans)
  show ?case
    by (simp add: case_prod_beta step split: option.splits)
qed

text \<open>An undisturbed round of writes.\<close>

lemma calm_writeAll:
  "writeAll (calm w) env fs s = (Value (), s\<lparr>trace := trace s @ fileCalls w env fs\<rparr>)"
proof -
  let ?ord = "sort_key (dirReady w) (map fst fs)"
  obtain failed s1 where e: "ensureDirs (calm w) (map fst fs) s = (failed, s1)"
    by (cases "ensureDirs (calm w) (map fst fs) s")
  with ensureDirs_calm [of w "map fst fs" s] ensureDirs_state [of "calm w" "map fst fs" s]
  have failed: "failed = []"
    and s1: "s1 = s\<lparr>trace := trace s @ map (\<lambda>n. EnsureDir (dirname w n)) (map fst fs)\<rparr>"
    by simp_all
  have sub: "set ?ord \<subseteq> fst ` set fs"
    by simp
  obtain failures s2 where wr: "writeReady (calm w) env fs [] ?ord s1 = (failures, s2)"
    by (cases "writeReady (calm w) env fs [] ?ord s1")
  with writeReady_calm [OF sub, of w env s1] writeReady_state [OF sub, of "calm w" env "[]" s1]
  have failures: "failures = []"
    and s2: "s2 = s1\<lparr>trace := trace s1 @ map (rendered env fs) ?ord\<rparr>"
    by simp_all
  from e failed wr failures s1 s2 show ?thesis
    by (simp add: writeAll_def fileCalls_def)
qed

lemma writeAll_opts: "opts (snd (writeAll w env fs s)) = opts s"
  by (simp add: writeAll_def case_prod_beta ensureDirs_state writeReady_opts split: list.splits)

lemma grows_writeAll: "grows (writeAll w env fs)"
  unfolding grows_def
proof
  fix s
  let ?s1 = "snd (ensureDirs w (map fst fs) s)"
  let ?failed = "fst (ensureDirs w (map fst fs) s)"
  have "prefix (trace s) (trace ?s1)"
    by (simp add: ensureDirs_state)
  moreover have "prefix (trace ?s1)
      (trace (snd (writeReady w env fs ?failed (sort_key (dirReady w) (map fst fs)) ?s1)))"
    by (rule writeReady_grows)
  ultimately show "prefix (trace s) (trace (snd (writeAll w env fs s)))"
    by (auto simp add: writeAll_def case_prod_beta split: list.splits
          intro: prefix_order.trans)
qed

text \<open>
  A round of writes in which something is rejected: every directory is asked for, and
  the writes are those of the undisturbed round whose directory could be made.
\<close>

lemma cut_writeAll: "cut w (writeAll w env fs) (writeAll (calm w) env fs)"
  unfolding cut_def
proof
  fix s :: state
  let ?ns = "map fst fs"
  let ?ord = "sort_key (dirReady w) ?ns"
  let ?dirs = "map (\<lambda>n. EnsureDir (dirname w n)) ?ns"
  let ?s1 = "s\<lparr>trace := trace s @ ?dirs\<rparr>"
  have sub: "set ?ord \<subseteq> fst ` set fs"
    by simp
  define failed where "failed = fst (ensureDirs w ?ns s)"
  have e: "ensureDirs w ?ns s = (failed, ?s1)"
    unfolding failed_def using ensureDirs_state [of w ?ns s] by (simp add: prod_eq_iff)
  let ?late = "map (rendered env fs) (filter (\<lambda>n. n \<notin> set failed) ?ord)"
  let ?every = "map (rendered env fs) ?ord"
  let ?s2 = "?s1\<lparr>trace := trace ?s1 @ ?late\<rparr>"
  define failures where "failures = fst (writeReady w env fs failed ?ord ?s1)"
  have wr: "writeReady w env fs failed ?ord ?s1 = (failures, ?s2)"
    unfolding failures_def using writeReady_state [OF sub, of w env failed ?s1]
    by (simp add: prod_eq_iff)
  show "writeAll w env fs s = writeAll (calm w) env fs s \<or>
         (\<exists>f early late late0.
             fst (writeAll w env fs s) = Rejected f \<and>
             trace (snd (writeAll w env fs s)) = early @ late \<and>
             prefix (early @ late0) (trace (snd (writeAll (calm w) env fs s))) \<and>
             subseq late late0 \<and> (\<forall>e \<in> set late0. isWrite e) \<and>
             early \<noteq> [] \<and> canFail (last early) \<and>
             (late0 = [] \<and> f = Failed (last early) \<or> isEnsureDir (last early)))"
  proof (cases failures)
    case Nil
    with wr writeReady_all [OF sub, of w env failed ?s1]
    have "filter (\<lambda>n. n \<notin> set failed) ?ord = ?ord"
      by simp
    with e wr Nil have "writeAll w env fs s = (Value (), ?s1\<lparr>trace := trace ?s1 @ ?every\<rparr>)"
      by (simp add: writeAll_def)
    then have "writeAll w env fs s = writeAll (calm w) env fs s"
      by (simp add: calm_writeAll fileCalls_def)
    then show ?thesis ..
  next
    case (Cons x xs)
    then have "sort_key (\<lambda>(n, f). settled w n) failures \<noteq> []"
      by (metis length_sort list.size(3) nat.simps(3) length_Cons)
    then obtain n f rest where first: "sort_key (\<lambda>(n, f). settled w n) failures = (n, f) # rest"
      by (cases "sort_key (\<lambda>(n, f). settled w n) failures") auto
    have "fs \<noteq> []"
    proof
      assume "fs = []"
      with wr Cons show False by simp
    qed
    then have dirs: "?dirs \<noteq> []" "isEnsureDir (last ?dirs)" "canFail (last ?dirs)"
      by (simp_all add: last_map)
    have "subseq ?late ?every"
      by (simp add: subseq_map)
    moreover have "\<forall>e \<in> set ?every. isWrite e"
      by (simp add: rendered_def)
    moreover from e wr first have "fst (writeAll w env fs s) = Rejected f"
      and "trace (snd (writeAll w env fs s)) = (trace s @ ?dirs) @ ?late"
      by (simp_all add: writeAll_def)
    moreover have "prefix ((trace s @ ?dirs) @ ?every) (trace (snd (writeAll (calm w) env fs s)))"
      by (simp add: calm_writeAll fileCalls_def)
    moreover from dirs have "trace s @ ?dirs \<noteq> []" "canFail (last (trace s @ ?dirs))"
      "isEnsureDir (last (trace s @ ?dirs))"
      by simp_all
    ultimately show ?thesis by blast
  qed
qed

lemma grows_writeFilesFromTemplate: "grows (writeFilesFromTemplate w p t ds)"
  unfolding writeFilesFromTemplate_def by (intro grows_intros grows_writeAll)

lemma grows_installTemplateDependencies: "grows (installTemplateDependencies w t)"
  unfolding installTemplateDependencies_def by (intro grows_intros)

lemma grows_reportSuccess: "grows (reportSuccess w p)"
  unfolding reportSuccess_def by (intro grows_intros)

lemmas grows_stages = grows_checkArguments grows_createProjectStructure grows_selectDbType
  grows_installDriverDependencies grows_installJDBCDependencies grows_writeFilesFromTemplate
  grows_installTemplateDependencies grows_reportSuccess

lemma cut_checkArguments: "cut w (checkArguments w p t c) (checkArguments (calm w) p t c)"
  unfolding checkArguments_def by (simp add: cut_refl)

lemma cut_createProjectStructure:
  "cut w (createProjectStructure w p t) (createProjectStructure (calm w) p t)"
  unfolding createProjectStructure_def lookupTemplate_calm calm_simps
  by (intro cut_intros grows_intros cut_refl; simp)

lemma cut_selectDbType: "cut w (selectDbType w) (selectDbType (calm w))"
  unfolding selectDbType_def dbTypeQuestions_calm calm_simps
  by (intro cut_intros grows_intros cut_refl; simp)

lemma cut_installDriverDependencies:
  "cut w (installDriverDependencies w c) (installDriverDependencies (calm w) c)"
  unfolding installDriverDependencies_def Let_def calm_simps
  by (intro cut_intros grows_intros cut_refl; simp)

lemma cut_installJDBCDependencies:
  "cut w (installJDBCDependencies w c ds) (installJDBCDependencies (calm w) c ds)"
  unfolding installJDBCDependencies_def calm_simps
  by (intro cut_intros grows_intros cut_refl; simp)

lemma cut_writeFilesFromTemplate:
  "cut w (writeFilesFromTemplate w p t ds) (writeFilesFromTemplate (calm w) p t ds)"
  unfolding writeFilesFromTemplate_def makeEnv_calm calm_simps
  by (intro cut_intros grows_intros cut_refl cut_writeAll grows_writeAll; simp)

lemma cut_installTemplateDependencies:
  "cut w (installTemplateDependencies w t) (installTemplateDependencies (calm w) t)"
  unfolding installTemplateDependencies_def
  by (intro cut_intros grows_intros cut_refl; simp)

lemma cut_reportSuccess: "cut w (reportSuccess w p) (reportSuccess (calm w) p)"
  unfolding reportSuccess_def
  by (intro cut_intros grows_intros cut_refl; simp)

lemma cut_execute: "cut w (execute w p) (execute (calm w) p)"
  unfolding execute_def Let_def
  by (intro cut_intros grows_intros grows_stages cut_refl
      cut_checkArguments cut_createProjectStructure cut_selectDbType
      cut_installDriverDependencies cut_installJDBCDependencies cut_writeFilesFromTemplate
      cut_installTemplateDependencies cut_reportSuccess)

text \<open>
  Every run either is the undisturbed run, or is rejected: at the first rejected call of
  the undisturbed run, or while the template files are written.
\<close>

lemma invoke_cases:
  obtains (undisturbed) "invoke w p o' = invoke (calm w) p o'"
  | (rejected) f early late late0 where
      "fst (invoke w p o') = Rejected f"
      "trace (snd (invoke w p o')) = early @ late"
      "prefix (early @ late0) (trace (snd (invoke (calm w) p o')))"
      "subseq late late0" "\<forall>e \<in> set late0. isWrite e"
      "early \<noteq> []" "canFail (last early)"
      "late0 = [] \<and> f = Failed (last early) \<or> isEnsureDir (last early)"
proof -
  from cut_execute [of w p]
  have "invoke w p o' = invoke (calm w) p o' \<or>
         (\<exists>f early late late0.
             fst (invoke w p o') = Rejected f \<and>
             trace (snd (invoke w p o')) = early @ late \<and>
             prefix (early @ late0) (trace (snd (invoke (calm w) p o'))) \<and>
             subseq late late0 \<and> (\<forall>e \<in> set late0. isWrite e) \<and>
             early \<noteq> [] \<and> canFail (last early) \<and>
             (late0 = [] \<and> f = Failed (last early) \<or> isEnsureDir (last early)))"
    unfolding cut_def invoke_def by blast
  with that show ?thesis by blast
qed


subsection \<open>Evaluating an undisturbed run\<close>

lemma perform_calm [simp]: "perform (calm w) e s = (Value (), s\<lparr>trace := trace s @ [e]\<rparr>)"
  by (simp add: perform_def)

lemmas run_defs = await_def ret_def emit_def throw_def getTemplate_def getDbType_def setDbType_def
  displayError_def

lemma isJdbc_push [simp]: "isJdbc (ds @ [Str ''node-java-maven'']) = isJdbc ds"
  by (cases ds) (simp_all add: isJdbc_def)

lemmas stage_defs = invoke_def execute_def checkArguments_def createProjectStructure_def
  selectDbType_def installDriverDependencies_def installJDBCDependencies_def
  writeFilesFromTemplate_def installTemplateDependencies_def reportSuccess_def

lemma registered_key:
  "lookupTemplate w t = Some (Registered tc) \<longleftrightarrow> templates w t = Some tc"
  by (simp add: lookupTemplate_def split: option.splits)


lemma calm_checkArguments:
  "checkArguments (calm w) p t c s =
     (if pathExists w p
      then (Exited, s\<lparr>trace := trace s @ [PathExists p, DisplayError (DirectoryAlreadyExist p) c]\<rparr>)
      else if lookupTemplate w t = None
      then (Exited, s\<lparr>trace := trace s @ [PathExists p, DisplayError (UnknownTemplate t) c]\<rparr>)
      else (Value (), s\<lparr>trace := trace s @ [PathExists p]\<rparr>))"
  by (simp add: checkArguments_def run_defs)

lemma calm_createProjectStructure:
  "lookupTemplate w t = Some v \<Longrightarrow>
   createProjectStructure (calm w) p t s = (Value v, s\<lparr>trace := trace s @ structureCalls p v\<rparr>)"
  by (simp add: createProjectStructure_def run_defs structureCalls_def)

lemma calm_selectDbType:
  "selectDbType (calm w) s =
     (Value (), s\<lparr>trace := trace s @ selectionCalls w (opts s),
                  opts := (opts s)\<lparr>dbType := chosenDbType w (opts s)\<rparr>\<rparr>)"
  by (simp add: selectDbType_def run_defs selectionCalls_def chosenDbType_def)

lemma calm_installDriverDependencies:
  "installDriverDependencies (calm w) c s =
     (if truthyVal (driverDependencies w (dbType (opts s)))
      then (Value (installList w (dbType (opts s))),
            s\<lparr>trace := trace s @ resolveCalls (dbType (opts s)) @
                          [NpmInstall (installList w (dbType (opts s)))]\<rparr>)
      else (Exited, s\<lparr>trace := trace s @ resolveCalls (dbType (opts s)) @
                          [DisplayError (UnsupportedDbType (dbType (opts s))) c]\<rparr>))"
  by (simp add: installDriverDependencies_def run_defs resolveCalls_def installList_def Let_def)

lemma isJdbc_installList [simp]: "isJdbc (installList w d) = isJdbc (toArray (driverDependencies w d))"
  by (simp add: installList_def)

lemma calm_installJDBCDependencies:
  "dbType (opts s) = d \<Longrightarrow>
   installJDBCDependencies (calm w) c (installList w d) s =
     (if isJdbc (toArray (driverDependencies w d)) \<and> dbTypeDescription w d = None
      then (Exited, s\<lparr>trace := trace s @ jdbcLookupCalls d @
                          [DisplayError (UnsupportedDbType d) c]\<rparr>)
      else (Value (), s\<lparr>trace := trace s @ jdbcCalls w d\<rparr>))"
  by (auto simp add: installJDBCDependencies_def run_defs jdbcLookupCalls_def jdbcCalls_def
        jdbcRewriteCalls_def)

lemma calm_writeFilesFromTemplate:
  "writeFilesFromTemplate (calm w) p (Registered tc) ds s =
     (Value (), s\<lparr>trace := trace s @
        [LogStage WritingFilesFromTemplate, RequireFromPackage (first ds)] @
        fileCalls w (makeEnv w p (dbType (opts s)) ds) (files tc)\<rparr>)"
  "writeFilesFromTemplate (calm w) p Inherited ds s =
     (Rejected TypeError, s\<lparr>trace := trace s @
        [LogStage WritingFilesFromTemplate, RequireFromPackage (first ds)]\<rparr>)"
  by (simp_all add: writeFilesFromTemplate_def run_defs calm_writeAll)

lemma calm_installTemplateDependencies:
  "installTemplateDependencies (calm w) (Registered tc) s =
     (Value (), s\<lparr>trace := trace s @ dependencyCalls tc\<rparr>)"
  by (simp add: installTemplateDependencies_def run_defs dependencyCalls_def split: option.splits)

lemma calm_reportSuccess:
  "reportSuccess (calm w) p s =
     (Value (), s\<lparr>trace := trace s @ closingCalls p (dbType (opts s))\<rparr>)"
  by (simp add: reportSuccess_def run_defs closingCalls_def)

lemmas calm_stages = calm_checkArguments calm_createProjectStructure calm_selectDbType
  calm_installDriverDependencies calm_installJDBCDependencies calm_writeFilesFromTemplate
  calm_installTemplateDependencies calm_reportSuccess

lemmas calm_eval = invoke_def execute_def run_defs Let_def makeCreateAppOptions_def
  givenOptions_def openingCalls_def calm_stages driverCalls_def

lemma calm_exists:
  "pathExists w p \<Longrightarrow>
   invoke (calm w) p o' =
     (Exited, \<lparr>trace = openingCalls p o' @ [DisplayError (DirectoryAlreadyExist p) (givenOptions p o')],
               opts = o'\<rparr>)"
  by (simp add: calm_eval)

lemma calm_unknown:
  "\<not> pathExists w p \<Longrightarrow> lookupTemplate w (effectiveTemplate (template o')) = None \<Longrightarrow>
   invoke (calm w) p o' =
     (Exited, \<lparr>trace = openingCalls p o' @
                  [DisplayError (UnknownTemplate (effectiveTemplate (template o'))) (givenOptions p o')],
               opts = o'\<rparr>)"
  by (simp add: calm_eval)

lemma calm_unsupported:
  "\<not> pathExists w p \<Longrightarrow> lookupTemplate w (effectiveTemplate (template o')) = Some v \<Longrightarrow>
   \<not> truthyVal (driverDependencies w (chosenDbType w o')) \<Longrightarrow>
   invoke (calm w) p o' =
     (Exited, \<lparr>trace = driverCalls w p o' v @
                  [DisplayError (UnsupportedDbType (chosenDbType w o')) (givenOptions p o')],
               opts = o'\<lparr>dbType := chosenDbType w o'\<rparr>\<rparr>)"
  by (simp add: calm_eval)

lemma calm_nodescriptor:
  "\<not> pathExists w p \<Longrightarrow> lookupTemplate w (effectiveTemplate (template o')) = Some v \<Longrightarrow>
   truthyVal (driverDependencies w (chosenDbType w o')) \<Longrightarrow>
   isJdbc (toArray (driverDependencies w (chosenDbType w o'))) \<Longrightarrow>
   dbTypeDescription w (chosenDbType w o') = None \<Longrightarrow>
   invoke (calm w) p o' =
     (Exited, \<lparr>trace = driverCalls w p o' v @ [NpmInstall (installList w (chosenDbType w o'))] @
                  jdbcLookupCalls (chosenDbType w o') @
                  [DisplayError (UnsupportedDbType (chosenDbType w o')) (givenOptions p o')],
               opts = o'\<lparr>dbType := chosenDbType w o'\<rparr>\<rparr>)"
  by (simp add: calm_eval)

lemma calm_through:
  "\<not> pathExists w p \<Longrightarrow> lookupTemplate w (effectiveTemplate (template o')) = Some v \<Longrightarrow>
   truthyVal (driverDependencies w (chosenDbType w o')) \<Longrightarrow>
   isJdbc (toArray (driverDependencies w (chosenDbType w o'))) \<longrightarrow>
     dbTypeDescription w (chosenDbType w o') \<noteq> None \<Longrightarrow>
   invoke (calm w) p o' =
     (outcome v,
      \<lparr>trace = driverCalls w p o' v @ [NpmInstall (installList w (chosenDbType w o'))] @
                  jdbcCalls w (chosenDbType w o') @ templateCalls w p o' v,
        opts = o'\<lparr>dbType := chosenDbType w o'\<rparr>\<rparr>)"
  by (cases v) (simp_all add: calm_eval)

text \<open>The five ways an undisturbed run can go.\<close>

lemma scenarios [case_names exists unknown unsupported nodescriptor through]:
  obtains "pathExists w p"
  | "\<not> pathExists w p" "lookupTemplate w (effectiveTemplate (template o')) = None"
  | v where "\<not> pathExists w p" "lookupTemplate w (effectiveTemplate (template o')) = Some v"
      "\<not> truthyVal (driverDependencies w (chosenDbType w o'))"
  | v where "\<not> pathExists w p" "lookupTemplate w (effectiveTemplate (template o')) = Some v"
      "truthyVal (driverDependencies w (chosenDbType w o'))"
      "isJdbc (toArray (driverDependencies w (chosenDbType w o')))"
      "dbTypeDescription w (chosenDbType w o') = None"
  | v where "\<not> pathExists w p" "lookupTemplate w (effectiveTemplate (template o')) = Some v"
      "truthyVal (driverDependencies w (chosenDbType w o'))"
      "isJdbc (toArray (driverDependencies w (chosenDbType w o'))) \<longrightarrow>
         dbTypeDescription w (chosenDbType w o') \<noteq> None"
  by (cases "lookupTemplate w (effectiveTemplate (template o'))") blast+

lemmas segment_defs = driverCalls_def openingCalls_def structureCalls_def selectionCalls_def
  resolveCalls_def jdbcLookupCalls_def jdbcRewriteCalls_def jdbcCalls_def
  fileCalls_def dependencyCalls_def closingCalls_def rendered_def

lemma calm_known:
  assumes "\<not> pathExists w p" and "lookupTemplate w (effectiveTemplate (template o')) = Some v"
  shows "trace (snd (invoke (calm w) p o')) =
           beforeLookup w p o' v @ DriverDependencies (chosenDbType w o') # afterLookup w p o' v"
    and "fst (invoke (calm w) p o') =
           (if truthyVal (driverDependencies w (chosenDbType w o')) \<and>
               (isJdbc (toArray (driverDependencies w (chosenDbType w o'))) \<longrightarrow>
                  dbTypeDescription w (chosenDbType w o') \<noteq> None)
            then outcome v else Exited)"
    and "opts (snd (invoke (calm w) p o')) = o'\<lparr>dbType := chosenDbType w o'\<rparr>"
proof -
  let ?d = "chosenDbType w o'"
  let ?goal = "trace (snd (invoke (calm w) p o')) =
           beforeLookup w p o' v @ DriverDependencies ?d # afterLookup w p o' v \<and>
         fst (invoke (calm w) p o') =
           (if truthyVal (driverDependencies w ?d) \<and>
               (isJdbc (toArray (driverDependencies w ?d)) \<longrightarrow> dbTypeDescription w ?d \<noteq> None)
            then outcome v else Exited) \<and>
         opts (snd (invoke (calm w) p o')) = o'\<lparr>dbType := ?d\<rparr>"
  have ?goal
  proof (cases "truthyVal (driverDependencies w ?d)")
    case False
    from calm_unsupported [OF assms False] False show ?thesis
      by (simp add: afterLookup_def beforeLookup_def driverCalls_def resolveCalls_def Let_def)
  next
    case True
    show ?thesis
    proof (cases "isJdbc (toArray (driverDependencies w ?d)) \<and> dbTypeDescription w ?d = None")
      case True
      with calm_nodescriptor [OF assms \<open>truthyVal (driverDependencies w ?d)\<close>]
        \<open>truthyVal (driverDependencies w ?d)\<close>
      show ?thesis
        by (simp add: afterLookup_def beforeLookup_def driverCalls_def resolveCalls_def Let_def)
    next
      case False
      then have "isJdbc (toArray (driverDependencies w ?d)) \<longrightarrow> dbTypeDescription w ?d \<noteq> None"
        by simp
      from calm_through [OF assms True this] True False show ?thesis
        by (auto simp add: afterLookup_def beforeLookup_def driverCalls_def resolveCalls_def Let_def)
    qed
  qed
  then show "trace (snd (invoke (calm w) p o')) =
           beforeLookup w p o' v @ DriverDependencies (chosenDbType w o') # afterLookup w p o' v"
    and "fst (invoke (calm w) p o') =
           (if truthyVal (driverDependencies w (chosenDbType w o')) \<and>
               (isJdbc (toArray (driverDependencies w (chosenDbType w o'))) \<longrightarrow>
                  dbTypeDescription w (chosenDbType w o') \<noteq> None)
            then outcome v else Exited)"
    and "opts (snd (invoke (calm w) p o')) = o'\<lparr>dbType := chosenDbType w o'\<rparr>"
    by simp_all
qed

lemma no_lookup_before: "DriverDependencies d \<notin> set (beforeLookup w p o' v)"
  by (simp add: beforeLookup_def segment_defs)

lemma no_lookup_templateCalls: "DriverDependencies d \<notin> set (templateCalls w p o' v)"
  by (cases v) (auto simp add: segment_defs split: option.splits)

lemma no_lookup_after: "DriverDependencies d \<notin> set (afterLookup w p o' v)"
  using no_lookup_templateCalls [of d w p o' v]
  by (auto simp add: afterLookup_def jdbcLookupCalls_def jdbcRewriteCalls_def jdbcCalls_def
        Let_def split: option.splits)

lemma lookup_in_calm:
  assumes "DriverDependencies d \<in> set (trace (snd (invoke (calm w) p o')))"
  shows "\<not> pathExists w p \<and> lookupTemplate w (effectiveTemplate (template o')) \<noteq> None"
  using assms
  by (cases rule: scenarios [where w = w and p = p and o' = o'])
     (auto simp add: calm_exists calm_unknown openingCalls_def)

subsection \<open>Any run against the undisturbed one\<close>

lemma writes_only:
  assumes "subseq late every" and "\<forall>e \<in> set every. isWrite e"
  shows "\<forall>e \<in> set late. isWrite e" and "set late \<subseteq> set every"
  using assms by (auto elim: list_emb_set)

text \<open>
  The calls of a run are \<open>early @ late\<close>: the undisturbed run makes the calls \<open>early\<close>
  too, and \<open>late\<close> are file writes that it makes as well.
\<close>

lemma run_relates:
  assumes "invoke w p o' = (r, s)"
  obtains early late every rest where
    "trace s = early @ late"
    "trace (snd (invoke (calm w) p o')) = early @ every @ rest"
    "\<forall>e \<in> set late. isWrite e" "\<forall>e \<in> set every. isWrite e" "set late \<subseteq> set every"
    "r = fst (invoke (calm w) p o') \<and> s = snd (invoke (calm w) p o') \<and>
       late = [] \<and> every = [] \<and> rest = [] \<or>
     (\<exists>f. r = Rejected f \<and> early \<noteq> [] \<and> canFail (last early) \<and>
        (late = [] \<and> every = [] \<and> f = Failed (last early) \<or> isEnsureDir (last early)))"
proof (cases rule: invoke_cases [of w p o'])
  case undisturbed
  with assms have "trace s = trace s @ []"
    and "trace (snd (invoke (calm w) p o')) = trace s @ [] @ []"
    and "\<forall>e \<in> set []. isWrite e" and "set [] \<subseteq> set ([] :: effect list)"
    and "r = fst (invoke (calm w) p o') \<and> s = snd (invoke (calm w) p o') \<and>
          [] = ([] :: effect list) \<and> [] = ([] :: effect list) \<and> [] = ([] :: effect list)"
    by simp_all
  then show ?thesis
    using that [of "trace s" "[]" "[]" "[]"] by blast
next
  case (rejected f early late every)
  from rejected(3) obtain rest where
    T: "trace (snd (invoke (calm w) p o')) = (early @ every) @ rest" ..
  from rejected(4,5) have late: "\<forall>e \<in> set late. isWrite e" "set late \<subseteq> set every"
    by (rule writes_only)+
  from rejected(4,8) have "late = [] \<and> every = [] \<and> f = Failed (last early) \<or>
      isEnsureDir (last early)"
    by auto
  with rejected(1,2,5,6,7) assms T late show ?thesis
    using that [of early late every rest] by simp
qed

lemma run_within:
  assumes "invoke w p o' = (r, s)"
  shows "set (trace s) \<subseteq> set (trace (snd (invoke (calm w) p o')))"
  using assms by (rule run_relates) auto

text \<open>A call that is not a file write lies in the early part.\<close>

lemma split_early:
  assumes "early @ late = pre @ x # post" and "\<forall>e \<in> set late. isWrite e" and "\<not> isWrite x"
  obtains post1 where "early = pre @ x # post1" and "post = post1 @ late"
proof -
  from assms(1) consider us where "early = pre @ us" "us @ late = x # post"
    | us where "early @ us = pre" "late = us @ x # post"
    by (auto simp add: append_eq_append_conv2)
  then show ?thesis
  proof cases
    case 1
    show ?thesis
    proof (cases us)
      case Nil
      with 1 assms(2,3) show ?thesis by auto
    next
      case (Cons y ys)
      with 1 that show ?thesis by auto
    qed
  next
    case 2
    with assms(2,3) show ?thesis by auto
  qed
qed

lemma run_split:
  assumes run: "invoke w p o' = (r, s)" and split: "trace s = pre @ x # post"
    and x: "\<not> isWrite x"
  obtains post' where "trace (snd (invoke (calm w) p o')) = pre @ x # post'"
proof -
  from run obtain early late every rest where
    s: "trace s = early @ late"
    and T: "trace (snd (invoke (calm w) p o')) = early @ every @ rest"
    and late: "\<forall>e \<in> set late. isWrite e"
    by (rule run_relates)
  from s split have "early @ late = pre @ x # post" by simp
  from this late x obtain post1 where "early = pre @ x # post1"
    by (rule split_early)
  with T that show ?thesis by simp
qed

text \<open>
  What follows the driver lookup in any run: \<open>post1\<close>, calls that the undisturbed run
  makes there too, then file writes only.
\<close>

lemma after_lookup:
  assumes run: "invoke w p o' = (r, s)" and split: "trace s = pre @ DriverDependencies d # post"
  obtains v post1 late where
    "\<not> pathExists w p" "lookupTemplate w (effectiveTemplate (template o')) = Some v"
    "d = chosenDbType w o'" "pre = beforeLookup w p o' v"
    "post = post1 @ late" "prefix post1 (afterLookup w p o' v)"
    "\<forall>e \<in> set late. isWrite e" "set post \<subseteq> set (afterLookup w p o' v)"
    "r = fst (invoke (calm w) p o') \<and> s = snd (invoke (calm w) p o') \<and>
       post = afterLookup w p o' v \<and> late = [] \<or>
     (\<exists>f. r = Rejected f \<and> post1 \<noteq> [] \<and> canFail (last post1) \<and>
        (late = [] \<and> f = Failed (last post1) \<or> isEnsureDir (last post1)))"
proof -
  from run obtain early late every rest where
    s: "trace s = early @ late"
    and T: "trace (snd (invoke (calm w) p o')) = early @ every @ rest"
    and late: "\<forall>e \<in> set late. isWrite e" and sub: "set late \<subseteq> set every"
    and how: "r = fst (invoke (calm w) p o') \<and> s = snd (invoke (calm w) p o') \<and>
       late = [] \<and> every = [] \<and> rest = [] \<or>
     (\<exists>f. r = Rejected f \<and> early \<noteq> [] \<and> canFail (last early) \<and>
        (late = [] \<and> every = [] \<and> f = Failed (last early) \<or> isEnsureDir (last early)))"
    by (rule run_relates)
  from s split have "early @ late = pre @ DriverDependencies d # post" by simp
  from this late obtain post1 where
    early: "early = pre @ DriverDependencies d # post1" and post: "post = post1 @ late"
    by (rule split_early) simp
  from T early have "DriverDependencies d \<in> set (trace (snd (invoke (calm w) p o')))"
    by simp
  from lookup_in_calm [OF this] obtain v where
    np: "\<not> pathExists w p" and v: "lookupTemplate w (effectiveTemplate (template o')) = Some v"
    by auto
  let ?d = "chosenDbType w o'"
  from calm_known(1) [OF np v] T early
  have eq: "beforeLookup w p o' v @ DriverDependencies ?d # afterLookup w p o' v =
            pre @ DriverDependencies d # (post1 @ every @ rest)"
    by simp
  then have "DriverDependencies d \<in> set (beforeLookup w p o' v @
               DriverDependencies ?d # afterLookup w p o' v)"
    by simp
  then have d: "d = ?d"
    using no_lookup_before no_lookup_after by auto
  from eq d no_lookup_before [of ?d w p o' v] no_lookup_after [of ?d w p o' v]
  have parts: "pre = beforeLookup w p o' v" "post1 @ every @ rest = afterLookup w p o' v"
    by (simp_all add: append_Cons_eq_iff)
  from parts(2) have pf: "prefix post1 (afterLookup w p o' v)"
    by (metis prefixI)
  have "set (post1 @ late) \<subseteq> set (post1 @ every @ rest)"
    using sub by auto
  with parts(2) post have within: "set post \<subseteq> set (afterLookup w p o' v)"
    by simp
  from how have "r = fst (invoke (calm w) p o') \<and> s = snd (invoke (calm w) p o') \<and>
       post = afterLookup w p o' v \<and> late = [] \<or>
     (\<exists>f. r = Rejected f \<and> post1 \<noteq> [] \<and> canFail (last post1) \<and>
        (late = [] \<and> f = Failed (last post1) \<or> isEnsureDir (last post1)))"
  proof
    assume "r = fst (invoke (calm w) p o') \<and> s = snd (invoke (calm w) p o') \<and>
       late = [] \<and> every = [] \<and> rest = []"
    with parts(2) post show ?thesis by simp
  next
    assume "\<exists>f. r = Rejected f \<and> early \<noteq> [] \<and> canFail (last early) \<and>
        (late = [] \<and> every = [] \<and> f = Failed (last early) \<or> isEnsureDir (last early))"
    then obtain f where f: "r = Rejected f" "canFail (last early)"
      "late = [] \<and> every = [] \<and> f = Failed (last early) \<or> isEnsureDir (last early)"
      by blast
    have ne: "post1 \<noteq> []"
    proof
      assume "post1 = []"
      with early f(2) show False by simp
    qed
    with early have "last early = last post1" by simp
    with f ne show ?thesis by auto
  qed
  with np v d parts(1) post pf late within show ?thesis by (rule that)
qed

subsection \<open>The template option is read once\<close>

lemma blind_ret: "blind (ret x)"
  by (simp add: blind_def ret_def)

lemma blind_throw: "blind (throw e)"
  by (simp add: blind_def throw_def)

lemma blind_emit: "blind (emit e)"
  by (simp add: blind_def emit_def retemplate_def)

lemma blind_perform: "blind (perform w e)"
  by (simp add: blind_def perform_def retemplate_def)

lemma blind_getDbType: "blind getDbType"
  by (simp add: blind_def getDbType_def retemplate_def)

lemma blind_setDbType: "blind (setDbType v)"
  by (simp add: blind_def setDbType_def retemplate_def)

lemma blind_displayError: "blind (displayError t c)"
  by (simp add: blind_def displayError_def retemplate_def)

lemma blind_await:
  assumes "blind m" and "\<And>x. blind (f x)"
  shows "blind (await m f)"
  unfolding blind_def
proof (intro allI)
  fix s t
  obtain r s' where ms: "m s = (r, s')" by (cases "m s")
  with assms(1) have mt: "m (retemplate t s) = (r, retemplate t s')"
    by (simp add: blind_def)
  show "await m f (retemplate t s) = (fst (await m f s), retemplate t (snd (await m f s)))"
  proof (cases r)
    case (Value x)
    with assms(2) [of x] ms mt show ?thesis
      by (simp add: await_def blind_def)
  qed (use ms mt in \<open>simp_all add: await_def\<close>)
qed

lemma blind_if: "blind a \<Longrightarrow> blind b \<Longrightarrow> blind (if c then a else b)"
  by simp

lemma blind_case_option:
  "blind a \<Longrightarrow> (\<And>x. blind (b x)) \<Longrightarrow> blind (case v of None \<Rightarrow> a | Some x \<Rightarrow> b x)"
  by (cases v) auto

lemmas blind_intros = blind_await blind_ret blind_throw blind_emit blind_perform blind_getDbType
  blind_setDbType blind_displayError blind_if blind_case_option

lemma retemplate_trace [simp]:
  "trace (retemplate t s) = trace s"
  "(retemplate t s)\<lparr>trace := tr\<rparr> = retemplate t (s\<lparr>trace := tr\<rparr>)"
  by (simp_all add: retemplate_def)

lemma ensureDirs_retemplate:
  "ensureDirs w ns (retemplate t s) =
     (fst (ensureDirs w ns s), retemplate t (snd (ensureDirs w ns s)))"
  by (induction ns arbitrary: s) (simp_all add: case_prod_beta)

lemma writeReady_retemplate:
  "writeReady w env fs failed ord (retemplate t s) =
     (fst (writeReady w env fs failed ord s), retemplate t (snd (writeReady w env fs failed ord s)))"
  by (induction ord arbitrary: s) (simp_all add: case_prod_beta split: option.splits)

lemma blind_writeAll: "blind (writeAll w env fs)"
  by (simp add: blind_def writeAll_def ensureDirs_retemplate writeReady_retemplate
        case_prod_beta split: list.splits)

lemma execute_afterTemplate:
  "execute w p s = afterTemplate w p (effectiveTemplate (template (opts s))) s"
  by (simp add: execute_def afterTemplate_def Let_def await_def getTemplate_def)

lemma blind_afterTemplate: "blind (afterTemplate w p t)"
  unfolding afterTemplate_def checkArguments_def createProjectStructure_def selectDbType_def
    installDriverDependencies_def installJDBCDependencies_def writeFilesFromTemplate_def
    installTemplateDependencies_def reportSuccess_def Let_def
  by (intro blind_intros blind_writeAll)

subsection \<open>Runs in the sample world\<close>

lemma makeEnv_fields [simp]:
  "env_dbType (makeEnv w p d ds) = d"
  "env_projectName (makeEnv w p d ds) = p"
  by (simp_all add: makeEnv_def)

lemmas sample_eval = invoke_def execute_def checkArguments_def createProjectStructure_def
  selectDbType_def installDriverDependencies_def installJDBCDependencies_def
  writeFilesFromTemplate_def installTemplateDependencies_def reportSuccess_def writeAll_def
  lookupTemplate_def objectPrototype_def
  run_defs perform_def Let_def sampleWorld_def makeCreateAppOptions_def dbTypeQuestions_def
  expressTemplate_def isJdbc_def

lemma sample_oracle:
  "invoke sampleWorld ''fresh'' \<lparr>template = None, dbType = Some ''oracle''\<rparr> =
     (Exited,
      \<lparr>trace =
         [EventCreateApp \<lparr>cao_projectName = ''fresh'', cao_dbType = Some ''oracle'',
                          cao_template = ''express''\<rparr>,
          PathExists ''fresh'', EnsureDir ''fresh'', Chdir ''fresh'',
          LogStage CreatingProjectStructure,
          WritePackageJson
            \<lparr>pkg_name = Some ''fresh'', pkg_version = Some ''0.0.1'', pkg_private = Some True,
             pkg_scripts = Some [(''dev'', ''./node_modules/.bin/cubejs-server'')],
             pkg_java = None, pkg_dependencies = None\<rparr>,
          LogStage InstallingServerDependencies,
          NpmInstall [Str ''@cubejs-backend/server''],
          LogStage InstallingDBDriverDependencies,
          RequireFromPackage (Str ''@cubejs-backend/server'')] @
         [DriverDependencies (Some ''oracle''),
          DisplayError (UnsupportedDbType (Some ''oracle''))
            \<lparr>cao_projectName = ''fresh'', cao_dbType = Some ''oracle'',
             cao_template = ''express''\<rparr>],
       opts = \<lparr>template = None, dbType = Some ''oracle''\<rparr>\<rparr>)"
  by (simp add: sample_eval)

lemma sample_prompted:
  "invoke sampleWorld ''fresh'' \<lparr>template = None, dbType = None\<rparr> =
     (Value (),
      \<lparr>trace =
         [EventCreateApp \<lparr>cao_projectName = ''fresh'', cao_dbType = None,
                          cao_template = ''express''\<rparr>,
          PathExists ''fresh'', EnsureDir ''fresh'', Chdir ''fresh'',
          LogStage CreatingProjectStructure,
          WritePackageJson
            \<lparr>pkg_name = Some ''fresh'', pkg_version = Some ''0.0.1'', pkg_private = Some True,
             pkg_scripts = Some [(''dev'', ''./node_modules/.bin/cubejs-server'')],
             pkg_java = None, pkg_dependencies = None\<rparr>,
          LogStage InstallingServerDependencies,
          NpmInstall [Str ''@cubejs-backend/server''],
          RequireFromPackage (Str ''@cubejs-backend/server-core/core/DriverDependencies.js''),
          Prompt [\<lparr>q_type = ''list'', q_name = ''dbType'', q_message = ''Select database'',
                   q_choices = [''postgres'', ''hive'']\<rparr>],
          LogStage InstallingDBDriverDependencies,
          RequireFromPackage (Str ''@cubejs-backend/server''),
          DriverDependencies (Some ''postgres''),
          NpmInstall [Str ''@cubejs-backend/postgres-driver''],
          LogStage WritingFilesFromTemplate,
          RequireFromPackage (Str ''@cubejs-backend/postgres-driver''),
          EnsureDir ''.'',
          EnsureDir ''.'',
          WriteFile ''.env'' (''CUBEJS_DB_TYPE=postgres CUBEJS_API_SECRET='' @ apiSecret
             (sampleEnv (Some ''postgres'') [Str ''@cubejs-backend/postgres-driver''])),
          WriteFile ''index.js'' ''// fresh'',
          EventCreateAppSuccess ''fresh'' (Some ''postgres''),
          LogStage (AppHasBeenCreated ''fresh''),
          ConsoleNextStep ''fresh''],
       opts = \<lparr>template = None, dbType = Some ''postgres''\<rparr>\<rparr>)"
  by (simp add: sample_eval sampleEnv_def)

subsection \<open>Facts about the stages\<close>

lemma isJdbc_truthy: "isJdbc (toArray v) \<Longrightarrow> truthyVal v"
  by (cases v) (simp_all add: isJdbc_def)

lemma isJdbc_first: "isJdbc ds \<longleftrightarrow> (\<exists>rest. ds = Str ''@cubejs-backend/jdbc-driver'' # rest)"
  by (cases ds) (simp_all add: isJdbc_def)

lemma toArray_single: "\<forall>xs. v \<noteq> Arr xs \<Longrightarrow> toArray v = [v]"
  by (cases v) simp_all

lemma no_jdbcStep_templateCalls: "e \<in> set (templateCalls w p o' v) \<Longrightarrow> \<not> jdbcStep e"
  by (cases v) (auto simp add: segment_defs split: option.splits)

lemma afterLookup_resolved:
  "truthyVal (driverDependencies w (chosenDbType w o')) \<Longrightarrow>
   afterLookup w p o' v =
     NpmInstall (installList w (chosenDbType w o')) #
       (if isJdbc (toArray (driverDependencies w (chosenDbType w o')))
        then jdbcLookupCalls (chosenDbType w o') @
             (case dbTypeDescription w (chosenDbType w o') of
                None \<Rightarrow> [DisplayError (UnsupportedDbType (chosenDbType w o')) (givenOptions p o')]
              | Some desc \<Rightarrow> jdbcRewriteCalls w desc @ templateCalls w p o' v)
        else templateCalls w p o' v)"
  by (simp add: afterLookup_def Let_def jdbcCalls_def split: option.splits)

lemma rewritten_install:
  "\<exists>sc. pkg_scripts (setInstallScript m) = Some sc \<and>
        map_of sc ''install'' = Some ''./node_modules/.bin/node-java-maven''"
  by (simp add: setInstallScript_def update_conv')

lemma rewritten_java:
  "pkg_java (setInstallScript (mergeJava desc m)) =
     (case mavenDependency desc of
        Some dep \<Rightarrow> Some \<lparr>java_dependencies = [dep]\<rparr>
      | None \<Rightarrow> pkg_java m)"
  by (simp add: setInstallScript_def mergeJava_def split: option.splits)

lemma no_write_templateCalls: "WritePackageJson m \<notin> set (templateCalls w p o' v)"
  using no_jdbcStep_templateCalls [of "WritePackageJson m" w p o' v] by auto

lemma fileWrites_simps [simp]:
  "fileWrites [] = []"
  "fileWrites (e # es) = writeOf e @ fileWrites es"
  "fileWrites (xs @ ys) = fileWrites xs @ fileWrites ys"
  by (simp_all add: fileWrites_def)

lemma fileWrites_dirs: "fileWrites (map (\<lambda>n. EnsureDir (f n)) ns) = []"
  by (induction ns) simp_all

lemma fileWrites_rendered:
  "fileWrites (map (rendered env fs) ns) =
     map (\<lambda>n. (n, case map_of fs n of Some r \<Rightarrow> r env | None \<Rightarrow> [])) ns"
  by (induction ns) (simp_all add: rendered_def)

lemma fileWrites_fileCalls:
  "fileWrites (fileCalls w env fs) =
     map (\<lambda>n. (n, case map_of fs n of Some r \<Rightarrow> r env | None \<Rightarrow> []))
       (sort_key (dirReady w) (map fst fs))"
  unfolding fileCalls_def fileWrites_simps fileWrites_dirs fileWrites_rendered by simp

lemma fileWrites_dependencyCalls: "fileWrites (dependencyCalls tc) = []"
  by (simp add: dependencyCalls_def split: option.splits)

lemma fileWrites_closingCalls: "fileWrites (closingCalls p d) = []"
  by (simp add: closingCalls_def)

lemma fileWrites_beforeLookup: "fileWrites (beforeLookup w p o' v) = []"
  by (simp add: beforeLookup_def openingCalls_def structureCalls_def selectionCalls_def)

lemma fileWrites_jdbcCalls: "fileWrites (jdbcCalls w d) = []"
  by (simp add: jdbcCalls_def jdbcLookupCalls_def jdbcRewriteCalls_def split: option.splits)

lemma hexDigit_hex: "n < 16 \<Longrightarrow> hexDigit n \<in> set ''0123456789abcdef''"
  unfolding hexDigit_def by (rule nth_mem) simp

lemma byteToHex_hex: "set (byteToHex b) \<subseteq> set ''0123456789abcdef''"
proof -
  have "unat b < 256"
    using unsigned_less [of b] by simp
  then have "unat b div 16 < 16" and "unat b mod 16 < 16"
    by simp_all
  then have "hexDigit (unat b div 16) \<in> set ''0123456789abcdef''"
    and "hexDigit (unat b mod 16) \<in> set ''0123456789abcdef''"
    by (simp_all only: hexDigit_hex)
  then show ?thesis
    unfolding byteToHex_def by simp
qed

lemma toHex_hex: "set (toHex bs) \<subseteq> set ''0123456789abcdef''"
  unfolding toHex_def using byteToHex_hex by (auto simp del: set_simps)

lemma length_toHex: "length (toHex bs) = 2 * length bs"
  by (induction bs) (simp_all add: toHex_def byteToHex_def)

lemma length_randomBytes: "length (randomBytes w n) = n"
  by (simp add: randomBytes_def)

lemma takeWhile_split:
  assumes "xs = pre @ x # post" and "\<forall>e \<in> set pre. P e" and "P x"
  shows "x \<in> set (takeWhile P xs)"
  using assms by (simp add: takeWhile_append2)

lemma takeWhile_before:
  assumes "xs = pre @ x # post" and "\<not> P x"
  shows "set (takeWhile P xs) \<subseteq> set pre"
proof (cases "\<forall>e \<in> set pre. P e")
  case True
  with assms show ?thesis by (simp add: takeWhile_append2)
next
  case False
  then obtain e where "e \<in> set pre" "\<not> P e" by blast
  then have "takeWhile P (pre @ x # post) = takeWhile P pre"
    by (rule takeWhile_append1)
  with assms(1) show ?thesis
    using set_takeWhileD by fastforce
qed

lemma calm_shape:
  "(\<exists>m. trace (snd (invoke (calm w) p o')) =
          openingCalls p o' @ [DisplayError m (givenOptions p o')]) \<or>
   (\<exists>v. lookupTemplate w (effectiveTemplate (template o')) = Some v \<and>
      trace (snd (invoke (calm w) p o')) =
        beforeLookup w p o' v @ DriverDependencies (chosenDbType w o') # afterLookup w p o' v)"
proof (cases "pathExists w p")
  case True
  from calm_exists [OF this] show ?thesis by simp
next
  case np: False
  show ?thesis
  proof (cases "lookupTemplate w (effectiveTemplate (template o'))")
    case None
    from calm_unknown [OF np None] show ?thesis by simp
  next
    case (Some v)
    from calm_known(1) [OF np Some] Some show ?thesis by simp
  qed
qed

lemma before_first_install:
  "takeWhile (\<lambda>e. \<not> installs e) (beforeLookup w p o' v @ rest) =
     openingCalls p o' @
     [EnsureDir p, Chdir p, LogStage CreatingProjectStructure,
      WritePackageJson
        \<lparr>pkg_name = Some p, pkg_version = Some ''0.0.1'', pkg_private = Some True,
         pkg_scripts = scriptsOf v, pkg_java = None, pkg_dependencies = None\<rparr>,
      LogStage InstallingServerDependencies]"
  by (simp add: beforeLookup_def openingCalls_def structureCalls_def)

lemma prefix_split:
  assumes "ys @ zs = xs @ rest" and "x \<in> set xs" and "x \<notin> set ys"
  obtains us where "xs = ys @ us" and "zs = us @ rest"
proof -
  from assms(1) consider us where "ys = xs @ us" "rest = us @ zs"
    | us where "ys @ us = xs" "zs = us @ rest"
    by (auto simp add: append_eq_append_conv2)
  then show ?thesis
  proof cases
    case 1
    with assms(2,3) show ?thesis by auto
  next
    case 2
    with that show ?thesis by blast
  qed
qed

lemma no_prompt_templateCalls: "\<not> isPrompt e" if "e \<in> set (templateCalls w p o' v)"
  using that by (cases v) (auto simp add: segment_defs split: option.splits)

lemma no_prompt_afterLookup: "\<not> isPrompt e" if "e \<in> set (afterLookup w p o' v)"
  using that no_prompt_templateCalls [of e w p o' v]
  by (auto simp add: afterLookup_def Let_def jdbcCalls_def jdbcLookupCalls_def
        jdbcRewriteCalls_def split: if_splits option.splits)

lemma filter_none: "(\<And>e. e \<in> set xs \<Longrightarrow> \<not> P e) \<Longrightarrow> filter P xs = []"
  by (simp add: filter_empty_conv)

lemma prompts_afterLookup [simp]: "filter isPrompt (afterLookup w p o' v) = []"
  by (rule filter_none) (rule no_prompt_afterLookup)

lemma write_no_prompt: "isWrite e \<Longrightarrow> \<not> isPrompt e"
  by (cases e) simp_all

lemma prompts_writes: "\<forall>e \<in> set xs. isWrite e \<Longrightarrow> filter isPrompt xs = []"
  by (rule filter_none) (simp add: write_no_prompt)

lemma beforeLookup_selected:
  "beforeLookup w p o' v =
     selected w p o' v @
     [LogStage InstallingDBDriverDependencies, RequireFromPackage (Str ''@cubejs-backend/server'')]"
  by (simp add: beforeLookup_def selected_def)

lemma prompts_selected:
  "filter isPrompt (selected w p o' v) =
     (if truthy (dbType o') then [] else [Prompt (dbTypeQuestions w)])"
  by (simp add: selected_def openingCalls_def structureCalls_def selectionCalls_def)

lemma stage_not_selected: "LogStage InstallingDBDriverDependencies \<notin> set (selected w p o' v)"
  by (simp add: selected_def openingCalls_def structureCalls_def selectionCalls_def)

lemma dbType_in_templateCalls:
  assumes "e \<in> set (templateCalls w p o' v)"
    and "e = DriverDependencies d \<or> e = DbTypeDescription d \<or> e = EventCreateAppSuccess p' d"
  shows "d = chosenDbType w o'"
  using assms by (cases v) (auto simp add: segment_defs split: option.splits)

lemma dbType_in_afterLookup:
  assumes "e \<in> set (afterLookup w p o' v)"
    and "e = DriverDependencies d \<or> e = DbTypeDescription d \<or> e = EventCreateAppSuccess p' d"
  shows "d = chosenDbType w o'"
  using assms dbType_in_templateCalls [of e w p o' v d p']
  by (auto simp add: afterLookup_def Let_def jdbcCalls_def jdbcLookupCalls_def
        jdbcRewriteCalls_def split: if_splits option.splits)

lemma dbType_in_beforeLookup:
  assumes "e \<in> set (beforeLookup w p o' v)"
    and "e = DriverDependencies d \<or> e = DbTypeDescription d \<or> e = EventCreateAppSuccess p' d"
  shows "False"
  using assms
  by (auto simp add: beforeLookup_def openingCalls_def structureCalls_def selectionCalls_def
        split: if_splits)

lemma write_in_templateCalls:
  assumes "WriteFile n c \<in> set (templateCalls w p o' v)"
  shows "\<exists>tc render. v = Registered tc \<and> map_of (files tc) n = Some render \<and>
           c = render (makeEnv w p (chosenDbType w o') (installList w (chosenDbType w o')))"
proof (cases v)
  case Inherited
  with assms show ?thesis by simp
next
  case (Registered tc)
  let ?env = "makeEnv w p (chosenDbType w o') (installList w (chosenDbType w o'))"
  from assms Registered have "WriteFile n c \<in> set (fileCalls w ?env (files tc))"
    by (auto simp add: dependencyCalls_def closingCalls_def split: option.splits)
  then have n: "n \<in> fst ` set (files tc)"
    and c: "c = (case map_of (files tc) n of Some r \<Rightarrow> r ?env | None \<Rightarrow> [])"
    by (auto simp add: fileCalls_def rendered_def)
  from n obtain render where "map_of (files tc) n = Some render"
    by (rule key_known)
  with c Registered show ?thesis by simp
qed

lemma write_in_afterLookup:
  assumes "WriteFile n c \<in> set (afterLookup w p o' v)"
  shows "\<exists>tc render. v = Registered tc \<and> map_of (files tc) n = Some render \<and>
           c = render (makeEnv w p (chosenDbType w o') (installList w (chosenDbType w o')))"
proof -
  from assms have "WriteFile n c \<in> set (templateCalls w p o' v)"
    by (auto simp add: afterLookup_def Let_def jdbcCalls_def jdbcLookupCalls_def
        jdbcRewriteCalls_def split: if_splits option.splits)
  then show ?thesis by (rule write_in_templateCalls)
qed

subsection \<open>The options object\<close>

lemma steady_ret: "steady w (ret x)"
  by (simp add: steady_def ret_def)

lemma steady_throw: "steady w (throw e)"
  by (simp add: steady_def throw_def)

lemma steady_emit: "steady w (emit e)"
  by (simp add: steady_def emit_def)

lemma steady_perform: "steady w (perform w' e)"
  by (simp add: steady_def perform_def)

lemma steady_getTemplate: "steady w getTemplate"
  by (simp add: steady_def getTemplate_def)

lemma steady_getDbType: "steady w getDbType"
  by (simp add: steady_def getDbType_def)

lemma steady_displayError: "steady w (displayError t c)"
  by (simp add: steady_def displayError_def)

lemma steady_await:
  assumes "steady w m" and "\<And>x. steady w (f x)"
  shows "steady w (await m f)"
  unfolding steady_def
proof
  fix s
  let ?a = "inquirer_prompt w (dbTypeQuestions w) ''dbType''"
  obtain r s' where ms: "m s = (r, s')" by (cases "m s")
  with assms(1) have first: "opts s' = opts s \<or>
      \<not> truthy (dbType (opts s)) \<and> opts s' = (opts s)\<lparr>dbType := ?a\<rparr>"
    by (auto simp add: steady_def dest: spec [of _ s])
  show "opts (snd (await m f s)) = opts s \<or>
          \<not> truthy (dbType (opts s)) \<and> opts (snd (await m f s)) = (opts s)\<lparr>dbType := ?a\<rparr>"
  proof (cases r)
    case (Value x)
    from assms(2) [of x] have "opts (snd (f x s')) = opts s' \<or>
      \<not> truthy (dbType (opts s')) \<and> opts (snd (f x s')) = (opts s')\<lparr>dbType := ?a\<rparr>"
      by (simp add: steady_def)
    with first ms Value show ?thesis
      by (auto simp add: await_def)
  qed (use first ms in \<open>simp_all add: await_def\<close>)
qed

lemma steady_if: "steady w a \<Longrightarrow> steady w b \<Longrightarrow> steady w (if c then a else b)"
  by simp

lemma steady_case_option:
  "steady w a \<Longrightarrow> (\<And>x. steady w (b x)) \<Longrightarrow> steady w (case v of None \<Rightarrow> a | Some x \<Rightarrow> b x)"
  by (cases v) auto

lemmas steady_intros = steady_await steady_ret steady_throw steady_emit steady_perform
  steady_getTemplate steady_getDbType steady_displayError steady_if steady_case_option

lemma steady_writeAll: "steady w (writeAll w env fs)"
  by (simp add: steady_def writeAll_opts)

lemma steady_selectDbType: "steady w (selectDbType w)"
  by (simp add: steady_def selectDbType_def run_defs perform_def)

lemma steady_execute: "steady w (execute w p)"
  unfolding execute_def checkArguments_def createProjectStructure_def
    installDriverDependencies_def installJDBCDependencies_def writeFilesFromTemplate_def
    installTemplateDependencies_def reportSuccess_def Let_def
  by (intro steady_intros steady_writeAll steady_selectDbType)

lemma templateCalls_kinds:
  assumes "e \<in> set (templateCalls w p o' v)"
  shows "e \<noteq> DisplayError m c \<and> e \<noteq> EventCreateApp c"
  using assms by (cases v) (auto simp add: segment_defs split: option.splits)

lemma jdbcCalls_kinds:
  assumes "e \<in> set (jdbcCalls w d)"
  shows "e \<noteq> DisplayError m c \<and> e \<noteq> EventCreateApp c"
  using assms
  by (auto simp add: jdbcCalls_def jdbcLookupCalls_def jdbcRewriteCalls_def
        split: if_splits option.splits)

lemma report_in_afterLookup:
  assumes "e \<in> set (afterLookup w p o' v)" and "e = EventCreateApp c \<or> e = DisplayError m c"
  shows "c = givenOptions p o'"
proof (cases "truthyVal (driverDependencies w (chosenDbType w o'))")
  case False
  with assms show ?thesis
    by (auto simp add: afterLookup_def Let_def)
next
  case True
  show ?thesis
  proof (cases "isJdbc (toArray (driverDependencies w (chosenDbType w o'))) \<and>
                dbTypeDescription w (chosenDbType w o') = None")
    case True
    with assms \<open>truthyVal (driverDependencies w (chosenDbType w o'))\<close> show ?thesis
      by (auto simp add: afterLookup_def Let_def jdbcLookupCalls_def)
  next
    case False
    with assms \<open>truthyVal (driverDependencies w (chosenDbType w o'))\<close>
    have "e = NpmInstall (installList w (chosenDbType w o')) \<or>
          e \<in> set (jdbcCalls w (chosenDbType w o')) \<or> e \<in> set (templateCalls w p o' v)"
      by (auto simp add: afterLookup_def Let_def)
    with assms(2) jdbcCalls_kinds [of e w "chosenDbType w o'" m c]
      templateCalls_kinds [of e w p o' v m c]
    show ?thesis by auto
  qed
qed

lemma report_in_beforeLookup:
  assumes "e \<in> set (beforeLookup w p o' v)" and "e = EventCreateApp c \<or> e = DisplayError m c"
  shows "c = givenOptions p o'"
  using assms
  by (auto simp add: beforeLookup_def openingCalls_def structureCalls_def selectionCalls_def
        split: if_splits)

subsection \<open>More runs in the sample world\<close>

lemma sample_hive:
  "invoke sampleWorld ''fresh'' \<lparr>template = None, dbType = Some ''hive''\<rparr> =
     (Value (),
      \<lparr>trace =
         [EventCreateApp \<lparr>cao_projectName = ''fresh'', cao_dbType = Some ''hive'',
                          cao_template = ''express''\<rparr>,
          PathExists ''fresh'', EnsureDir ''fresh'', Chdir ''fresh'',
          LogStage CreatingProjectStructure,
          WritePackageJson
            \<lparr>pkg_name = Some ''fresh'', pkg_version = Some ''0.0.1'', pkg_private = Some True,
             pkg_scripts = Some [(''dev'', ''./node_modules/.bin/cubejs-server'')],
             pkg_java = None, pkg_dependencies = None\<rparr>,
          LogStage InstallingServerDependencies,
          NpmInstall [Str ''@cubejs-backend/server''],
          LogStage InstallingDBDriverDependencies,
          RequireFromPackage (Str ''@cubejs-backend/server'')] @
         DriverDependencies (Some ''hive'') #
         [NpmInstall [Str ''@cubejs-backend/jdbc-driver'', Str ''node-java-maven''],
          LogStage InstallingJDBCDependencies,
          RequireJDBCDriver,
          DbTypeDescription (Some ''hive''),
          ReadJson ''package.json'',
          WritePackageJson
            \<lparr>pkg_name = Some ''fresh'', pkg_version = Some ''0.0.1'', pkg_private = Some True,
             pkg_scripts = Some [(''dev'', ''./node_modules/.bin/cubejs-server''),
                                 (''install'', ''./node_modules/.bin/node-java-maven'')],
             pkg_java = Some \<lparr>java_dependencies =
               [\<lparr>groupId = ''org.apache.hive'', artifactId = ''hive-jdbc'',
                  mvn_version = ''2.3.5''\<rparr>]\<rparr>,
             pkg_dependencies = Some [(''@cubejs-backend/server'', ''^0.19.0'')]\<rparr>,
          ExecuteCommand ''npm'' [''install''],
          LogStage WritingFilesFromTemplate,
          RequireFromPackage (Str ''@cubejs-backend/jdbc-driver''),
          EnsureDir ''.'',
          EnsureDir ''.'',
          WriteFile ''.env'' (''CUBEJS_DB_TYPE=hive CUBEJS_API_SECRET='' @ apiSecret
             (sampleEnv (Some ''hive'')
                [Str ''@cubejs-backend/jdbc-driver'', Str ''node-java-maven''])),
          WriteFile ''index.js'' ''// fresh'',
          EventCreateAppSuccess ''fresh'' (Some ''hive''),
          LogStage (AppHasBeenCreated ''fresh''),
          ConsoleNextStep ''fresh''],
       opts = \<lparr>template = None, dbType = Some ''hive''\<rparr>\<rparr>)"
  by (simp add: sample_eval sampleEnv_def setInstallScript_def mergeJava_def hiveDescriptor_def
        installedManifest_def)

text \<open>A driver table entry that is an array with the JDBC bridge in second place.\<close>

lemma sample_mixed:
  "invoke arrayWorld ''fresh'' \<lparr>template = None, dbType = Some ''mixed''\<rparr> =
     (Value (),
      \<lparr>trace =
         [EventCreateApp \<lparr>cao_projectName = ''fresh'', cao_dbType = Some ''mixed'',
                          cao_template = ''express''\<rparr>,
          PathExists ''fresh'', EnsureDir ''fresh'', Chdir ''fresh'',
          LogStage CreatingProjectStructure,
          WritePackageJson
            \<lparr>pkg_name = Some ''fresh'', pkg_version = Some ''0.0.1'', pkg_private = Some True,
             pkg_scripts = Some [(''dev'', ''./node_modules/.bin/cubejs-server'')],
             pkg_java = None, pkg_dependencies = None\<rparr>,
          LogStage InstallingServerDependencies,
          NpmInstall [Str ''@cubejs-backend/server''],
          LogStage InstallingDBDriverDependencies,
          RequireFromPackage (Str ''@cubejs-backend/server'')] @
         DriverDependencies (Some ''mixed'') #
         [NpmInstall [Str ''@cubejs-backend/postgres-driver'', Str ''@cubejs-backend/jdbc-driver''],
          LogStage WritingFilesFromTemplate,
          RequireFromPackage (Str ''@cubejs-backend/postgres-driver''),
          EnsureDir ''.'',
          EnsureDir ''.'',
          WriteFile ''.env'' (''CUBEJS_DB_TYPE=mixed CUBEJS_API_SECRET='' @ apiSecret
             (makeEnv arrayWorld ''fresh'' (Some ''mixed'')
                [Str ''@cubejs-backend/postgres-driver'', Str ''@cubejs-backend/jdbc-driver''])),
          WriteFile ''index.js'' ''// fresh'',
          EventCreateAppSuccess ''fresh'' (Some ''mixed''),
          LogStage (AppHasBeenCreated ''fresh''),
          ConsoleNextStep ''fresh''],
       opts = \<lparr>template = None, dbType = Some ''mixed''\<rparr>\<rparr>)"
  by (simp add: sample_eval arrayWorld_def makeEnv_def randomBytes_def)

text \<open>A driver table entry that is an array with the JDBC bridge in first place.\<close>

lemma sample_bridge:
  "invoke arrayWorld ''fresh'' \<lparr>template = None, dbType = Some ''bridge''\<rparr> =
     (Value (),
      \<lparr>trace =
         [EventCreateApp \<lparr>cao_projectName = ''fresh'', cao_dbType = Some ''bridge'',
                          cao_template = ''express''\<rparr>,
          PathExists ''fresh'', EnsureDir ''fresh'', Chdir ''fresh'',
          LogStage CreatingProjectStructure,
          WritePackageJson
            \<lparr>pkg_name = Some ''fresh'', pkg_version = Some ''0.0.1'', pkg_private = Some True,
             pkg_scripts = Some [(''dev'', ''./node_modules/.bin/cubejs-server'')],
             pkg_java = None, pkg_dependencies = None\<rparr>,
          LogStage InstallingServerDependencies,
          NpmInstall [Str ''@cubejs-backend/server''],
          LogStage InstallingDBDriverDependencies,
          RequireFromPackage (Str ''@cubejs-backend/server'')] @
         DriverDependencies (Some ''bridge'') #
         [NpmInstall [Str ''@cubejs-backend/jdbc-driver'', Str ''@cubejs-backend/postgres-driver'',
                      Str ''node-java-maven''],
          LogStage InstallingJDBCDependencies,
          RequireJDBCDriver,
          DbTypeDescription (Some ''bridge''),
          ReadJson ''package.json'',
          WritePackageJson
            \<lparr>pkg_name = Some ''fresh'', pkg_version = Some ''0.0.1'', pkg_private = Some True,
             pkg_scripts = Some [(''dev'', ''./node_modules/.bin/cubejs-server''),
                                 (''install'', ''./node_modules/.bin/node-java-maven'')],
             pkg_java = Some \<lparr>java_dependencies =
               [\<lparr>groupId = ''org.apache.hive'', artifactId = ''hive-jdbc'',
                  mvn_version = ''2.3.5''\<rparr>]\<rparr>,
             pkg_dependencies = Some [(''@cubejs-backend/server'', ''^0.19.0'')]\<rparr>,
          ExecuteCommand ''npm'' [''install''],
          LogStage WritingFilesFromTemplate,
          RequireFromPackage (Str ''@cubejs-backend/jdbc-driver''),
          EnsureDir ''.'',
          EnsureDir ''.'',
          WriteFile ''.env'' (''CUBEJS_DB_TYPE=bridge CUBEJS_API_SECRET='' @ apiSecret
             (makeEnv arrayWorld ''fresh'' (Some ''bridge'')
                [Str ''@cubejs-backend/jdbc-driver'', Str ''@cubejs-backend/postgres-driver'',
                 Str ''node-java-maven''])),
          WriteFile ''index.js'' ''// fresh'',
          EventCreateAppSuccess ''fresh'' (Some ''bridge''),
          LogStage (AppHasBeenCreated ''fresh''),
          ConsoleNextStep ''fresh''],
       opts = \<lparr>template = None, dbType = Some ''bridge''\<rparr>\<rparr>)"
  by (simp add: sample_eval arrayWorld_def makeEnv_def randomBytes_def setInstallScript_def
        mergeJava_def hiveDescriptor_def installedManifest_def)

text \<open>
  A file system that refuses to write \<^verbatim>\<open>.env\<close>: the run is rejected with that
  failure, and \<^verbatim>\<open>index.js\<close> is written all the same.
\<close>

lemma sample_readOnly:
  "invoke readOnlyWorld ''fresh'' \<lparr>template = None, dbType = Some ''postgres''\<rparr> =
     (Rejected (Failed (WriteFile ''.env'' (''CUBEJS_DB_TYPE=postgres CUBEJS_API_SECRET='' @ apiSecret
             (makeEnv readOnlyWorld ''fresh'' (Some ''postgres'')
                [Str ''@cubejs-backend/postgres-driver''])))),
      \<lparr>trace =
         [EventCreateApp \<lparr>cao_projectName = ''fresh'', cao_dbType = Some ''postgres'',
                          cao_template = ''express''\<rparr>,
          PathExists ''fresh'', EnsureDir ''fresh'', Chdir ''fresh'',
          LogStage CreatingProjectStructure,
          WritePackageJson
            \<lparr>pkg_name = Some ''fresh'', pkg_version = Some ''0.0.1'', pkg_private = Some True,
             pkg_scripts = Some [(''dev'', ''./node_modules/.bin/cubejs-server'')],
             pkg_java = None, pkg_dependencies = None\<rparr>,
          LogStage InstallingServerDependencies,
          NpmInstall [Str ''@cubejs-backend/server''],
          LogStage InstallingDBDriverDependencies,
          RequireFromPackage (Str ''@cubejs-backend/server''),
          DriverDependencies (Some ''postgres''),
          NpmInstall [Str ''@cubejs-backend/postgres-driver''],
          LogStage WritingFilesFromTemplate,
          RequireFromPackage (Str ''@cubejs-backend/postgres-driver''),
          EnsureDir ''.'',
          EnsureDir ''.'',
          WriteFile ''.env'' (''CUBEJS_DB_TYPE=postgres CUBEJS_API_SECRET='' @ apiSecret
             (makeEnv readOnlyWorld ''fresh'' (Some ''postgres'')
                [Str ''@cubejs-backend/postgres-driver''])),
          WriteFile ''index.js'' ''// fresh''],
       opts = \<lparr>template = None, dbType = Some ''postgres''\<rparr>\<rparr>)"
  by (simp add: sample_eval readOnlyWorld_def makeEnv_def randomBytes_def)

subsection \<open>Small facts about lists of calls\<close>

lemma prefix_head:
  assumes "prefix post1 (x # xs)" and "post1 \<noteq> []"
  shows "\<exists>post'. post1 @ late = x # post'"
  using assms by (cases post1) auto

lemma installs_not_write: "installs e \<Longrightarrow> \<not> isWrite e"
  by (cases e) simp_all

section \<open>The claims\<close>

subsection \<open>The two checks before anything is created\<close>

text \<open>
  Claim C1. When a file or directory named \<open>projectName\<close> already exists, the run
  reports the directory conflict and nothing else happens: the whole trace is the
  telemetry event, the existence check and the report, so no directory is created,
  nothing is installed, no manifest and no template file is written; the process exits.
\<close>

theorem existing_directory_stops_the_run:
  assumes "pathExists w projectName"
  shows "invoke w projectName options' =
     (Exited,
      \<lparr>trace =
         [EventCreateApp (makeCreateAppOptions projectName (dbType options')
                            (effectiveTemplate (template options'))),
          PathExists projectName,
          DisplayError (DirectoryAlreadyExist projectName)
            (makeCreateAppOptions projectName (dbType options')
               (effectiveTemplate (template options')))],
       opts = options'\<rparr>)"
  using assms by (simp add: invoke_def execute_def checkArguments_def run_defs Let_def)

text \<open>Claim C1 at the path \<^verbatim>\<open>taken\<close> of the sample world.\<close>

theorem existing_directory_stops_the_run_witness:
  "pathExists sampleWorld ''taken'' \<and>
   invoke sampleWorld ''taken'' \<lparr>template = None, dbType = Some ''postgres''\<rparr> =
     (Exited,
      \<lparr>trace =
         [EventCreateApp \<lparr>cao_projectName = ''taken'', cao_dbType = Some ''postgres'',
                          cao_template = ''express''\<rparr>,
          PathExists ''taken'',
          DisplayError (DirectoryAlreadyExist ''taken'')
            \<lparr>cao_projectName = ''taken'', cao_dbType = Some ''postgres'',
             cao_template = ''express''\<rparr>],
       opts = \<lparr>template = None, dbType = Some ''postgres''\<rparr>\<rparr>)"
  using existing_directory_stops_the_run
          [of sampleWorld "''taken''" "\<lparr>template = None, dbType = Some ''postgres''\<rparr>"]
  by (simp add: sampleWorld_def makeCreateAppOptions_def)




subsection \<open>Resolving the driver packages\<close>

text \<open>
  Claim C3. In any run, once the driver packages have been looked up for the database
  type \<open>d\<close> and the lookup gave nothing (or an empty name), the only thing that follows
  is the report of the unsupported database type, and the process exits: no driver is
  installed, no JDBC handling, no file is rendered, no template dependency is installed,
  no success is reported.
\<close>

theorem unsupported_database_type_is_terminal:
  assumes run: "invoke w projectName options' = (r, s)"
    and looked: "trace s = pre @ DriverDependencies d # post"
    and falsy: "\<not> truthyVal (driverDependencies w d)"
  shows "r = Exited \<and>
         post = [DisplayError (UnsupportedDbType d)
                   (makeCreateAppOptions projectName (dbType options')
                      (effectiveTemplate (template options')))]"
proof -
  from run looked obtain v post1 late where
    np: "\<not> pathExists w projectName"
    and v: "lookupTemplate w (effectiveTemplate (template options')) = Some v"
    and d: "d = chosenDbType w options'"
    and "pre = beforeLookup w projectName options' v"
    and post: "post = post1 @ late"
    and pf: "prefix post1 (afterLookup w projectName options' v)"
    and late: "\<forall>e \<in> set late. isWrite e"
    and within: "set post \<subseteq> set (afterLookup w projectName options' v)"
    and how: "r = fst (invoke (calm w) projectName options') \<and>
                s = snd (invoke (calm w) projectName options') \<and>
                post = afterLookup w projectName options' v \<and> late = [] \<or>
              (\<exists>f. r = Rejected f \<and> post1 \<noteq> [] \<and> canFail (last post1) \<and>
                 (late = [] \<and> f = Failed (last post1) \<or> isEnsureDir (last post1)))"
    by (rule after_lookup)
  from falsy d have al: "afterLookup w projectName options' v =
      [DisplayError (UnsupportedDbType d) (givenOptions projectName options')]"
    by (simp add: afterLookup_def)
  from how show ?thesis
  proof
    assume "r = fst (invoke (calm w) projectName options') \<and>
              s = snd (invoke (calm w) projectName options') \<and>
              post = afterLookup w projectName options' v \<and> late = []"
    with al calm_known(2) [OF np v] falsy d show ?thesis
      by (simp add: givenOptions_def)
  next
    assume "\<exists>f. r = Rejected f \<and> post1 \<noteq> [] \<and> canFail (last post1) \<and>
                 (late = [] \<and> f = Failed (last post1) \<or> isEnsureDir (last post1))"
    then have e: "post1 \<noteq> []" "canFail (last post1)" by blast+
    from pf al e(1)
    have "post1 = [DisplayError (UnsupportedDbType d) (givenOptions projectName options')]"
      by (auto simp add: prefix_Cons)
    with e(2) have False by simp
    then show ?thesis ..
  qed
qed

text \<open>Claim C3 in the sample world, for the database type \<^verbatim>\<open>oracle\<close>.\<close>

theorem unsupported_database_type_is_terminal_witness:
  "\<not> truthyVal (driverDependencies sampleWorld (Some ''oracle'')) \<and>
   fst (invoke sampleWorld ''fresh'' \<lparr>template = None, dbType = Some ''oracle''\<rparr>) = Exited \<and>
   drop 10 (trace (snd (invoke sampleWorld ''fresh'' \<lparr>template = None, dbType = Some ''oracle''\<rparr>))) =
     [DriverDependencies (Some ''oracle''),
      DisplayError (UnsupportedDbType (Some ''oracle''))
        (makeCreateAppOptions ''fresh'' (Some ''oracle'') ''express'')]"
proof -
  let ?run = "invoke sampleWorld ''fresh'' \<lparr>template = None, dbType = Some ''oracle''\<rparr>"
  have run: "?run = (fst ?run, snd ?run)"
    by simp
  have looked: "trace (snd ?run) =
      take 10 (trace (snd ?run)) @ DriverDependencies (Some ''oracle'') # drop 11 (trace (snd ?run))"
    by (simp add: sample_oracle)
  have falsy: "\<not> truthyVal (driverDependencies sampleWorld (Some ''oracle''))"
    by (simp add: sampleWorld_def)
  from unsupported_database_type_is_terminal [OF run looked falsy] falsy show ?thesis
    by (simp add: sample_oracle makeCreateAppOptions_def)
qed

text \<open>
  Claim C9. Once the driver packages have been looked up and the lookup gave something.
  A result that is not an array is installed as the one-element list holding it, with
  the Maven helper appended exactly when the result is the bridge's package name; a step
  of the JDBC handling (stage log, loading the driver, descriptor lookup, reading and
  rewriting the manifest, running the package manager) occurs only then, and then the
  handling is entered unless a call is rejected. A result that is an array is installed
  as it is, with the Maven helper appended exactly when its first element is the bridge's
  package name; a step of the JDBC handling occurs only then, and then the handling is
  entered unless a call is rejected. So an array whose first element is something else
  is installed unchanged and no step of the JDBC handling occurs, whatever its later
  elements are.
\<close>

theorem jdbc_handling_depends_on_first_element:
  assumes run: "invoke w projectName options' = (r, s)"
    and looked: "trace s = pre @ DriverDependencies d # post"
    and resolved: "truthyVal (driverDependencies w d)"
  shows "((\<forall>xs. driverDependencies w d \<noteq> Arr xs) \<longrightarrow>
            (\<exists>post'. post =
               NpmInstall (if driverDependencies w d = Str ''@cubejs-backend/jdbc-driver''
                           then [driverDependencies w d, Str ''node-java-maven'']
                           else [driverDependencies w d]) # post') \<and>
            ((\<exists>e \<in> set post. jdbcStep e) \<longrightarrow>
               driverDependencies w d = Str ''@cubejs-backend/jdbc-driver'') \<and>
            (driverDependencies w d = Str ''@cubejs-backend/jdbc-driver'' \<and>
             (\<forall>f. r \<noteq> Rejected f) \<longrightarrow>
               LogStage InstallingJDBCDependencies \<in> set post \<and>
               DbTypeDescription d \<in> set post)) \<and>
         (\<forall>xs. driverDependencies w d = Arr xs \<longrightarrow>
            (\<exists>post'. post =
               NpmInstall (if \<exists>rest. xs = Str ''@cubejs-backend/jdbc-driver'' # rest
                           then xs @ [Str ''node-java-maven''] else xs) # post') \<and>
            ((\<exists>e \<in> set post. jdbcStep e) \<longrightarrow>
               (\<exists>rest. xs = Str ''@cubejs-backend/jdbc-driver'' # rest)) \<and>
            ((\<exists>rest. xs = Str ''@cubejs-backend/jdbc-driver'' # rest) \<and>
             (\<forall>f. r \<noteq> Rejected f) \<longrightarrow>
               LogStage InstallingJDBCDependencies \<in> set post \<and>
               DbTypeDescription d \<in> set post)) \<and>
         (\<forall>x rest. driverDependencies w d = Arr (x # rest) \<and>
                   x \<noteq> Str ''@cubejs-backend/jdbc-driver'' \<longrightarrow>
            (\<exists>post'. post = NpmInstall (x # rest) # post') \<and>
            (\<forall>e \<in> set post. \<not> jdbcStep e))"
proof -
  let ?ds = "toArray (driverDependencies w d)"
  let ?jdbc = "Str ''@cubejs-backend/jdbc-driver''"
  let ?list = "if isJdbc ?ds then ?ds @ [Str ''node-java-maven''] else ?ds"
  from run looked obtain v post1 late where
    np: "\<not> pathExists w projectName"
    and v: "lookupTemplate w (effectiveTemplate (template options')) = Some v"
    and d: "d = chosenDbType w options'"
    and "pre = beforeLookup w projectName options' v"
    and post: "post = post1 @ late"
    and pf: "prefix post1 (afterLookup w projectName options' v)"
    and late: "\<forall>e \<in> set late. isWrite e"
    and within: "set post \<subseteq> set (afterLookup w projectName options' v)"
    and how: "r = fst (invoke (calm w) projectName options') \<and>
                s = snd (invoke (calm w) projectName options') \<and>
                post = afterLookup w projectName options' v \<and> late = [] \<or>
              (\<exists>f. r = Rejected f \<and> post1 \<noteq> [] \<and> canFail (last post1) \<and>
                 (late = [] \<and> f = Failed (last post1) \<or> isEnsureDir (last post1)))"
    by (rule after_lookup)
  from resolved have al: "afterLookup w projectName options' v =
     NpmInstall (installList w d) #
       (if isJdbc ?ds
        then jdbcLookupCalls d @
             (case dbTypeDescription w d of
                None \<Rightarrow> [DisplayError (UnsupportedDbType d) (givenOptions projectName options')]
              | Some desc \<Rightarrow> jdbcRewriteCalls w desc @ templateCalls w projectName options' v)
        else templateCalls w projectName options' v)"
    unfolding d by (rule afterLookup_resolved)
  from how have installed: "\<exists>post'. post = NpmInstall ?list # post'"
  proof
    assume "r = fst (invoke (calm w) projectName options') \<and>
              s = snd (invoke (calm w) projectName options') \<and>
              post = afterLookup w projectName options' v \<and> late = []"
    with al show ?thesis by (simp add: installList_def)
  next
    assume "\<exists>f. r = Rejected f \<and> post1 \<noteq> [] \<and> canFail (last post1) \<and>
                 (late = [] \<and> f = Failed (last post1) \<or> isEnsureDir (last post1))"
    then have "post1 \<noteq> []" by blast
    with pf show ?thesis
      unfolding al post installList_def by (rule prefix_head)
  qed
  have only: "isJdbc ?ds" if "e \<in> set post" and "jdbcStep e" for e
  proof (rule ccontr)
    assume no: "\<not> isJdbc ?ds"
    from that(1) within al no
    have "e = NpmInstall (installList w d) \<or> e \<in> set (templateCalls w projectName options' v)"
      by auto
    with that(2) show False
      by (auto dest: no_jdbcStep_templateCalls)
  qed
  have entered: "LogStage InstallingJDBCDependencies \<in> set post \<and> DbTypeDescription d \<in> set post"
    if "isJdbc ?ds" and "\<forall>f. r \<noteq> Rejected f"
  proof -
    from that(2) how have "post = afterLookup w projectName options' v" by auto
    with al that(1) show ?thesis
      by (simp add: jdbcLookupCalls_def)
  qed
  have single: "(\<forall>xs. driverDependencies w d \<noteq> Arr xs) \<longrightarrow>
            (\<exists>post'. post =
               NpmInstall (if driverDependencies w d = ?jdbc
                           then [driverDependencies w d, Str ''node-java-maven'']
                           else [driverDependencies w d]) # post') \<and>
            ((\<exists>e \<in> set post. jdbcStep e) \<longrightarrow> driverDependencies w d = ?jdbc) \<and>
            (driverDependencies w d = ?jdbc \<and> (\<forall>f. r \<noteq> Rejected f) \<longrightarrow>
               LogStage InstallingJDBCDependencies \<in> set post \<and> DbTypeDescription d \<in> set post)"
  proof (intro impI conjI)
    assume plain: "\<forall>xs. driverDependencies w d \<noteq> Arr xs"
    then have ds: "?ds = [driverDependencies w d]"
      by (simp add: toArray_single)
    then have j: "isJdbc ?ds \<longleftrightarrow> driverDependencies w d = ?jdbc"
      by (simp add: isJdbc_def)
    from installed [unfolded j, unfolded ds]
    show "\<exists>post'. post =
               NpmInstall (if driverDependencies w d = ?jdbc
                           then [driverDependencies w d, Str ''node-java-maven'']
                           else [driverDependencies w d]) # post'"
      by (cases "driverDependencies w d = ?jdbc") simp_all
    {
      assume "\<exists>e \<in> set post. jdbcStep e"
      then obtain e where "e \<in> set post" "jdbcStep e" ..
      then have "isJdbc ?ds" by (rule only)
      with j show "driverDependencies w d = ?jdbc" by simp
    }
    {
      assume "driverDependencies w d = ?jdbc \<and> (\<forall>f. r \<noteq> Rejected f)"
      with j have "isJdbc ?ds" and "\<forall>f. r \<noteq> Rejected f" by simp_all
      then have both: "LogStage InstallingJDBCDependencies \<in> set post \<and>
          DbTypeDescription d \<in> set post"
        by (rule entered)
      from both show "LogStage InstallingJDBCDependencies \<in> set post" ..
      from both show "DbTypeDescription d \<in> set post" ..
    }
  qed
  have array: "\<forall>xs. driverDependencies w d = Arr xs \<longrightarrow>
            (\<exists>post'. post =
               NpmInstall (if \<exists>rest. xs = ?jdbc # rest
                           then xs @ [Str ''node-java-maven''] else xs) # post') \<and>
            ((\<exists>e \<in> set post. jdbcStep e) \<longrightarrow> (\<exists>rest. xs = ?jdbc # rest)) \<and>
            ((\<exists>rest. xs = ?jdbc # rest) \<and> (\<forall>f. r \<noteq> Rejected f) \<longrightarrow>
               LogStage InstallingJDBCDependencies \<in> set post \<and> DbTypeDescription d \<in> set post)"
  proof (intro allI impI conjI)
    fix xs
    assume arr: "driverDependencies w d = Arr xs"
    then have ds: "?ds = xs" by simp
    then have j: "isJdbc ?ds \<longleftrightarrow> (\<exists>rest. xs = ?jdbc # rest)"
      by (simp only: isJdbc_first)
    from installed [unfolded j, unfolded ds]
    show "\<exists>post'. post =
               NpmInstall (if \<exists>rest. xs = ?jdbc # rest
                           then xs @ [Str ''node-java-maven''] else xs) # post'" .
    {
      assume "\<exists>e \<in> set post. jdbcStep e"
      then obtain e where "e \<in> set post" "jdbcStep e" ..
      then have "isJdbc ?ds" by (rule only)
      with j show "\<exists>rest. xs = ?jdbc # rest" by simp
    }
    {
      assume "(\<exists>rest. xs = ?jdbc # rest) \<and> (\<forall>f. r \<noteq> Rejected f)"
      with j have "isJdbc ?ds" and "\<forall>f. r \<noteq> Rejected f" by simp_all
      then have both: "LogStage InstallingJDBCDependencies \<in> set post \<and>
          DbTypeDescription d \<in> set post"
        by (rule entered)
      from both show "LogStage InstallingJDBCDependencies \<in> set post" ..
      from both show "DbTypeDescription d \<in> set post" ..
    }
  qed
  have later: "\<forall>x rest. driverDependencies w d = Arr (x # rest) \<and> x \<noteq> ?jdbc \<longrightarrow>
            (\<exists>post'. post = NpmInstall (x # rest) # post') \<and>
            (\<forall>e \<in> set post. \<not> jdbcStep e)"
  proof (intro allI impI, elim conjE)
    fix x rest
    assume arr: "driverDependencies w d = Arr (x # rest)" and x: "x \<noteq> ?jdbc"
    from x have no: "\<not> (\<exists>rest'. x # rest = ?jdbc # rest')"
      by simp
    note facts = array [rule_format, OF arr]
    from facts
    have a: "\<exists>post'. post =
               NpmInstall (if \<exists>rest'. x # rest = ?jdbc # rest'
                           then (x # rest) @ [Str ''node-java-maven''] else x # rest) # post'"
      by (rule conjunct1)
    from facts [THEN conjunct2]
    have b: "(\<exists>e \<in> set post. jdbcStep e) \<longrightarrow> (\<exists>rest'. x # rest = ?jdbc # rest')"
      by (rule conjunct1)
    from a no have "\<exists>post'. post = NpmInstall (x # rest) # post'"
      by (simp only: if_False)
    moreover from b no have "\<forall>e \<in> set post. \<not> jdbcStep e"
      by blast
    ultimately show "(\<exists>post'. post = NpmInstall (x # rest) # post') \<and>
            (\<forall>e \<in> set post. \<not> jdbcStep e)" ..
  qed
  from single array later show ?thesis
    by (intro conjI)
qed

text \<open>
  Claim C9 for two driver table entries that are arrays: \<^verbatim>\<open>mixed\<close>, with the bridge in
  second place, and \<^verbatim>\<open>bridge\<close>, with the bridge in first place.
\<close>

theorem jdbc_handling_depends_on_first_element_witness:
  "driverDependencies arrayWorld (Some ''mixed'') =
     Arr [Str ''@cubejs-backend/postgres-driver'', Str ''@cubejs-backend/jdbc-driver''] \<and>
   truthyVal (driverDependencies arrayWorld (Some ''mixed'')) \<and>
   hd (drop 11 (trace (snd (invoke arrayWorld ''fresh'' \<lparr>template = None, dbType = Some ''mixed''\<rparr>)))) =
     NpmInstall [Str ''@cubejs-backend/postgres-driver'', Str ''@cubejs-backend/jdbc-driver''] \<and>
   filter jdbcStep (drop 11 (trace (snd (invoke arrayWorld ''fresh'' \<lparr>template = None, dbType = Some ''mixed''\<rparr>)))) = [] \<and>
   driverDependencies arrayWorld (Some ''bridge'') =
     Arr [Str ''@cubejs-backend/jdbc-driver'', Str ''@cubejs-backend/postgres-driver''] \<and>
   truthyVal (driverDependencies arrayWorld (Some ''bridge'')) \<and>
   hd (drop 11 (trace (snd (invoke arrayWorld ''fresh'' \<lparr>template = None, dbType = Some ''bridge''\<rparr>)))) =
     NpmInstall [Str ''@cubejs-backend/jdbc-driver'', Str ''@cubejs-backend/postgres-driver'',
                 Str ''node-java-maven''] \<and>
   LogStage InstallingJDBCDependencies \<in> set (drop 11 (trace (snd (invoke arrayWorld ''fresh'' \<lparr>template = None, dbType = Some ''bridge''\<rparr>)))) \<and>
   DbTypeDescription (Some ''bridge'') \<in> set (drop 11 (trace (snd (invoke arrayWorld ''fresh'' \<lparr>template = None, dbType = Some ''bridge''\<rparr>))))"
proof -
  let ?mixed = "invoke arrayWorld ''fresh'' \<lparr>template = None, dbType = Some ''mixed''\<rparr>"
  let ?bridge = "invoke arrayWorld ''fresh'' \<lparr>template = None, dbType = Some ''bridge''\<rparr>"
  let ?pg = "Str ''@cubejs-backend/postgres-driver''"
  let ?jdbc = "Str ''@cubejs-backend/jdbc-driver''"
  have mixed: "?mixed = (fst ?mixed, snd ?mixed)" and bridge: "?bridge = (fst ?bridge, snd ?bridge)"
    by simp_all
  have lookedM: "trace (snd ?mixed) =
      take 10 (trace (snd ?mixed)) @ DriverDependencies (Some ''mixed'') # drop 11 (trace (snd ?mixed))"
    by (simp add: sample_mixed)
  have lookedB: "trace (snd ?bridge) =
      take 10 (trace (snd ?bridge)) @ DriverDependencies (Some ''bridge'') # drop 11 (trace (snd ?bridge))"
    by (simp add: sample_bridge)
  have arrM: "driverDependencies arrayWorld (Some ''mixed'') = Arr [?pg, ?jdbc]"
    and arrB: "driverDependencies arrayWorld (Some ''bridge'') = Arr [?jdbc, ?pg]"
    by (simp_all add: arrayWorld_def)
  then have resolvedM: "truthyVal (driverDependencies arrayWorld (Some ''mixed''))"
    and resolvedB: "truthyVal (driverDependencies arrayWorld (Some ''bridge''))"
    by simp_all
  have finished: "\<forall>f. fst ?bridge \<noteq> Rejected f"
    by (simp add: sample_bridge)
  from jdbc_handling_depends_on_first_element
         [OF mixed lookedM resolvedM, THEN conjunct2, THEN conjunct2, rule_format,
          of ?pg "[?jdbc]"] arrM
  have "(\<exists>post'. drop 11 (trace (snd ?mixed)) = NpmInstall [?pg, ?jdbc] # post') \<and>
        (\<forall>e \<in> set (drop 11 (trace (snd ?mixed))). \<not> jdbcStep e)"
    by simp
  then have m: "hd (drop 11 (trace (snd ?mixed))) = NpmInstall [?pg, ?jdbc]"
    "filter jdbcStep (drop 11 (trace (snd ?mixed))) = []"
    by (auto simp add: filter_empty_conv)
  from jdbc_handling_depends_on_first_element
         [OF bridge lookedB resolvedB, THEN conjunct2, THEN conjunct1, rule_format,
          of "[?jdbc, ?pg]", OF arrB] finished
  have "(\<exists>post'. drop 11 (trace (snd ?bridge)) =
           NpmInstall [?jdbc, ?pg, Str ''node-java-maven''] # post') \<and>
        LogStage InstallingJDBCDependencies \<in> set (drop 11 (trace (snd ?bridge))) \<and>
        DbTypeDescription (Some ''bridge'') \<in> set (drop 11 (trace (snd ?bridge)))"
    by simp
  then have b: "hd (drop 11 (trace (snd ?bridge))) =
      NpmInstall [?jdbc, ?pg, Str ''node-java-maven'']"
    "LogStage InstallingJDBCDependencies \<in> set (drop 11 (trace (snd ?bridge)))"
    "DbTypeDescription (Some ''bridge'') \<in> set (drop 11 (trace (snd ?bridge)))"
    by auto
  from arrM resolvedM m arrB resolvedB b show ?thesis
    by (intro conjI)
qed

subsection \<open>The JDBC bridge\<close>

text \<open>
  Claim C5. Once the driver packages have been looked up for \<open>d\<close> and the list is the
  JDBC bridge's: the driver installation that follows is given the list with
  \<^verbatim>\<open>node-java-maven\<close> appended; any manifest written after that is the manifest read
  back with the \<^verbatim>\<open>install\<close> script set to \<^verbatim>\<open>./node_modules/.bin/node-java-maven\<close>,
  and with \<^verbatim>\<open>java.dependencies\<close> set to the list holding the descriptor's Maven
  coordinate when the descriptor has one, the \<^verbatim>\<open>java\<close> field left as read otherwise;
  unless that write is itself rejected, \<^verbatim>\<open>npm install\<close> is the next call; and a run
  that succeeds has rewritten the manifest.
\<close>

theorem jdbc_bridge_handling:
  assumes run: "invoke w projectName options' = (r, s)"
    and looked: "trace s = pre @ DriverDependencies d # post"
    and jdbc: "isJdbc (toArray (driverDependencies w d))"
  shows "(\<exists>post'. post =
            NpmInstall (toArray (driverDependencies w d) @ [Str ''node-java-maven'']) # post') \<and>
         (\<forall>m. WritePackageJson m \<in> set post \<longrightarrow>
            (\<exists>desc. dbTypeDescription w d = Some desc \<and>
               m = setInstallScript (mergeJava desc (readJson w ''package.json'')) \<and>
               (\<exists>sc. pkg_scripts m = Some sc \<and>
                  map_of sc ''install'' = Some ''./node_modules/.bin/node-java-maven'') \<and>
               pkg_java m =
                 (case mavenDependency desc of
                    Some dep \<Rightarrow> Some \<lparr>java_dependencies = [dep]\<rparr>
                  | None \<Rightarrow> pkg_java (readJson w ''package.json'')))) \<and>
         (\<forall>m before after.
            post = before @ WritePackageJson m # after \<and>
            r \<noteq> Rejected (Failed (WritePackageJson m)) \<longrightarrow>
            (\<exists>after'. after = ExecuteCommand ''npm'' [''install''] # after')) \<and>
         (r = Value () \<longrightarrow> (\<exists>m. WritePackageJson m \<in> set post))"
proof -
  let ?ds = "toArray (driverDependencies w d)"
  let ?rd = "readJson w ''package.json''"
  from run looked obtain v post1 late where
    np: "\<not> pathExists w projectName"
    and v: "lookupTemplate w (effectiveTemplate (template options')) = Some v"
    and d: "d = chosenDbType w options'"
    and "pre = beforeLookup w projectName options' v"
    and post: "post = post1 @ late"
    and pf: "prefix post1 (afterLookup w projectName options' v)"
    and late: "\<forall>e \<in> set late. isWrite e"
    and within: "set post \<subseteq> set (afterLookup w projectName options' v)"
    and how: "r = fst (invoke (calm w) projectName options') \<and>
                s = snd (invoke (calm w) projectName options') \<and>
                post = afterLookup w projectName options' v \<and> late = [] \<or>
              (\<exists>f. r = Rejected f \<and> post1 \<noteq> [] \<and> canFail (last post1) \<and>
                 (late = [] \<and> f = Failed (last post1) \<or> isEnsureDir (last post1)))"
    by (rule after_lookup)
  from jdbc have resolved: "truthyVal (driverDependencies w d)"
    by (rule isJdbc_truthy)
  from resolved jdbc have al: "afterLookup w projectName options' v =
     NpmInstall (?ds @ [Str ''node-java-maven'']) # jdbcLookupCalls d @
       (case dbTypeDescription w d of
          None \<Rightarrow> [DisplayError (UnsupportedDbType d) (givenOptions projectName options')]
        | Some desc \<Rightarrow> jdbcRewriteCalls w desc @ templateCalls w projectName options' v)"
    unfolding d by (simp add: afterLookup_resolved installList_def)
  from how have a: "\<exists>post'. post = NpmInstall (?ds @ [Str ''node-java-maven'']) # post'"
  proof
    assume "r = fst (invoke (calm w) projectName options') \<and>
              s = snd (invoke (calm w) projectName options') \<and>
              post = afterLookup w projectName options' v \<and> late = []"
    with al show ?thesis by simp
  next
    assume "\<exists>f. r = Rejected f \<and> post1 \<noteq> [] \<and> canFail (last post1) \<and>
                 (late = [] \<and> f = Failed (last post1) \<or> isEnsureDir (last post1))"
    then have "post1 \<noteq> []" by blast
    with pf show ?thesis
      unfolding al post by (rule prefix_head)
  qed
  have written: "\<exists>desc. dbTypeDescription w d = Some desc \<and>
      m = setInstallScript (mergeJava desc ?rd)"
    if "WritePackageJson m \<in> set (afterLookup w projectName options' v)" for m
    using that al no_write_templateCalls [of m w projectName options' v]
    by (cases "dbTypeDescription w d") (auto simp add: jdbcLookupCalls_def jdbcRewriteCalls_def)
  have b: "\<exists>desc. dbTypeDescription w d = Some desc \<and>
      m = setInstallScript (mergeJava desc ?rd) \<and>
      (\<exists>sc. pkg_scripts m = Some sc \<and>
         map_of sc ''install'' = Some ''./node_modules/.bin/node-java-maven'') \<and>
      pkg_java m =
        (case mavenDependency desc of
           Some dep \<Rightarrow> Some \<lparr>java_dependencies = [dep]\<rparr>
         | None \<Rightarrow> pkg_java ?rd)"
    if "WritePackageJson m \<in> set post" for m
  proof -
    from that within
    have "WritePackageJson m \<in> set (afterLookup w projectName options' v)" by auto
    from written [OF this] obtain desc where
      "dbTypeDescription w d = Some desc" "m = setInstallScript (mergeJava desc ?rd)"
      by blast
    then show ?thesis
      using rewritten_install [of "mergeJava desc ?rd"] rewritten_java [of desc ?rd] by simp
  qed
  have c: "\<exists>after'. after = ExecuteCommand ''npm'' [''install''] # after'"
    if split: "post = before @ WritePackageJson m # after"
      and ok: "r \<noteq> Rejected (Failed (WritePackageJson m))" for m before after
  proof -
    from split post have "post1 @ late = before @ WritePackageJson m # after"
      by simp
    from this late obtain after1 where
      post1: "post1 = before @ WritePackageJson m # after1" and after: "after = after1 @ late"
      by (rule split_early) simp
    from pf obtain rest where rest: "afterLookup w projectName options' v = post1 @ rest" ..
    with post1 have "WritePackageJson m \<in> set (afterLookup w projectName options' v)"
      by simp
    from written [OF this] obtain desc where
      desc: "dbTypeDescription w d = Some desc" "m = setInstallScript (mergeJava desc ?rd)"
      by blast
    let ?X = "NpmInstall (?ds @ [Str ''node-java-maven'']) # jdbcLookupCalls d @
                [ReadJson ''package.json'']"
    let ?Y = "ExecuteCommand ''npm'' [''install''] # templateCalls w projectName options' v"
    from al desc have "afterLookup w projectName options' v = ?X @ WritePackageJson m # ?Y"
      by (simp add: jdbcRewriteCalls_def)
    with rest post1 have eq: "?X @ WritePackageJson m # ?Y =
        before @ WritePackageJson m # (after1 @ rest)"
      by simp
    have nX: "WritePackageJson m \<notin> set ?X"
      by (simp add: jdbcLookupCalls_def)
    have nY: "WritePackageJson m \<notin> set ?Y"
      using no_write_templateCalls [of m w projectName options' v] by simp
    from eq have "?X = before \<and> ?Y = after1 @ rest"
      by (rule iffD1 [OF append_Cons_eq_iff [OF nX nY]])
    then have parts: "before = ?X" "after1 @ rest = ?Y"
      by auto
    show ?thesis
    proof (cases after1)
      case Nil
      with post1 have l: "post1 \<noteq> []" "last post1 = WritePackageJson m"
        by simp_all
      from how show ?thesis
      proof
        assume "r = fst (invoke (calm w) projectName options') \<and>
                  s = snd (invoke (calm w) projectName options') \<and>
                  post = afterLookup w projectName options' v \<and> late = []"
        with rest post have "rest = []" by simp
        with parts(2) Nil show ?thesis by simp
      next
        assume "\<exists>f. r = Rejected f \<and> post1 \<noteq> [] \<and> canFail (last post1) \<and>
                 (late = [] \<and> f = Failed (last post1) \<or> isEnsureDir (last post1))"
        with l(2) ok show ?thesis by auto
      qed
    next
      case (Cons x xs)
      with parts(2) after show ?thesis by simp
    qed
  qed
  have e: "\<exists>m. WritePackageJson m \<in> set post" if "r = Value ()"
  proof -
    from that how have post: "post = afterLookup w projectName options' v"
      and r: "fst (invoke (calm w) projectName options') = Value ()"
      by auto
    from r calm_known(2) [OF np v] jdbc d obtain desc where
      "dbTypeDescription w d = Some desc"
      by (auto split: if_splits)
    with post al show ?thesis
      by (auto simp add: jdbcRewriteCalls_def)
  qed
  from a b c e show ?thesis by blast
qed

text \<open>Claim C5 in the sample world, for the database type \<^verbatim>\<open>hive\<close>.\<close>

theorem jdbc_bridge_handling_witness:
  "isJdbc (toArray (driverDependencies sampleWorld (Some ''hive''))) \<and>
   fst (invoke sampleWorld ''fresh'' \<lparr>template = None, dbType = Some ''hive''\<rparr>) = Value () \<and>
   hd (drop 11 (trace (snd (invoke sampleWorld ''fresh'' \<lparr>template = None, dbType = Some ''hive''\<rparr>)))) =
     NpmInstall [Str ''@cubejs-backend/jdbc-driver'', Str ''node-java-maven''] \<and>
   dbTypeDescription sampleWorld (Some ''hive'') = Some hiveDescriptor \<and>
   WritePackageJson (setInstallScript (mergeJava hiveDescriptor installedManifest))
     \<in> set (drop 11 (trace (snd (invoke sampleWorld ''fresh'' \<lparr>template = None, dbType = Some ''hive''\<rparr>)))) \<and>
   pkg_java (setInstallScript (mergeJava hiveDescriptor installedManifest)) =
     Some \<lparr>java_dependencies =
       [\<lparr>groupId = ''org.apache.hive'', artifactId = ''hive-jdbc'', mvn_version = ''2.3.5''\<rparr>]\<rparr> \<and>
   hd (drop 17 (trace (snd (invoke sampleWorld ''fresh'' \<lparr>template = None, dbType = Some ''hive''\<rparr>)))) = ExecuteCommand ''npm'' [''install'']"
proof -
  let ?run = "invoke sampleWorld ''fresh'' \<lparr>template = None, dbType = Some ''hive''\<rparr>"
  let ?m = "setInstallScript (mergeJava hiveDescriptor installedManifest)"
  have run: "?run = (fst ?run, snd ?run)"
    by simp
  have looked: "trace (snd ?run) =
      take 10 (trace (snd ?run)) @ DriverDependencies (Some ''hive'') # drop 11 (trace (snd ?run))"
    by (simp add: sample_hive)
  have jdbc: "isJdbc (toArray (driverDependencies sampleWorld (Some ''hive'')))"
    by (simp add: sampleWorld_def isJdbc_def)
  have finished: "fst ?run = Value ()"
    by (simp add: sample_hive)
  have desc: "dbTypeDescription sampleWorld (Some ''hive'') = Some hiveDescriptor"
    by (simp add: sampleWorld_def)
  have written: "drop 11 (trace (snd ?run)) =
      take 5 (drop 11 (trace (snd ?run))) @ WritePackageJson ?m # drop 17 (trace (snd ?run))"
    by (simp add: sample_hive setInstallScript_def mergeJava_def hiveDescriptor_def
          installedManifest_def)
  have notRejected: "fst ?run \<noteq> Rejected (Failed (WritePackageJson ?m))"
    by (simp add: sample_hive)
  from jdbc_bridge_handling [OF run looked jdbc]
  have first: "\<exists>post'. drop 11 (trace (snd ?run)) =
      NpmInstall (toArray (driverDependencies sampleWorld (Some ''hive'')) @
                  [Str ''node-java-maven'']) # post'"
    and java: "\<And>m. WritePackageJson m \<in> set (drop 11 (trace (snd ?run))) \<Longrightarrow>
      \<exists>desc. dbTypeDescription sampleWorld (Some ''hive'') = Some desc \<and>
        pkg_java m =
          (case mavenDependency desc of
             Some dep \<Rightarrow> Some \<lparr>java_dependencies = [dep]\<rparr>
           | None \<Rightarrow> pkg_java (readJson sampleWorld ''package.json''))"
    and again: "\<And>m before after.
      drop 11 (trace (snd ?run)) = before @ WritePackageJson m # after \<Longrightarrow>
      fst ?run \<noteq> Rejected (Failed (WritePackageJson m)) \<Longrightarrow>
      \<exists>after'. after = ExecuteCommand ''npm'' [''install''] # after'"
    by blast+
  from first have a: "hd (drop 11 (trace (snd ?run))) =
      NpmInstall [Str ''@cubejs-backend/jdbc-driver'', Str ''node-java-maven'']"
    by (auto simp add: sampleWorld_def)
  from written have b: "WritePackageJson ?m \<in> set (drop 11 (trace (snd ?run)))"
    by (metis in_set_conv_decomp)
  from java [OF b] desc have c: "pkg_java ?m =
      Some \<lparr>java_dependencies =
        [\<lparr>groupId = ''org.apache.hive'', artifactId = ''hive-jdbc'', mvn_version = ''2.3.5''\<rparr>]\<rparr>"
    by (auto simp add: hiveDescriptor_def)
  from again [OF written notRejected]
  have d: "hd (drop 17 (trace (snd ?run))) = ExecuteCommand ''npm'' [''install'']"
    by auto
  from jdbc finished a desc b c d show ?thesis
    by blast
qed

subsection \<open>The template files\<close>

text \<open>
  Claim C6. In a run that succeeds, with \<open>tc\<close> the chosen template: the paths written
  are the declared paths of \<open>tc\<close>, each as often as it is declared, in whatever order
  the file system got to them; there is one environment such that each file's content
  is its renderer applied to it; that environment carries the given project name, and
  its secret is the hexadecimal form of 64 random bytes, 128 characters long, all of
  them hexadecimal digits.
\<close>

theorem template_files_written:
  assumes run: "invoke w projectName options' = (Value (), s)"
  shows "\<exists>tc env.
           templates w (effectiveTemplate (template options')) = Some tc \<and>
           env_projectName env = projectName \<and>
           apiSecret env = toHex (randomBytes w 64) \<and>
           length (randomBytes w 64) = 64 \<and>
           length (apiSecret env) = 128 \<and>
           set (apiSecret env) \<subseteq> set ''0123456789abcdef'' \<and>
           mset (map fst (fileWrites (trace s))) = mset (map fst (files tc)) \<and>
           length (fileWrites (trace s)) = length (files tc) \<and>
           (\<forall>(n, c) \<in> set (fileWrites (trace s)).
              \<exists>render. map_of (files tc) n = Some render \<and> c = render env)"
proof -
  from run have same: "invoke (calm w) projectName options' = (Value (), s)"
    by (cases rule: invoke_cases [of w projectName options']) simp_all
  have np: "\<not> pathExists w projectName"
  proof
    assume "pathExists w projectName"
    from calm_exists [OF this] same show False by simp
  qed
  obtain v where v: "lookupTemplate w (effectiveTemplate (template options')) = Some v"
  proof (cases "lookupTemplate w (effectiveTemplate (template options'))")
    case None
    from calm_unknown [OF np None] same show ?thesis by simp
  next
    case (Some v)
    then show ?thesis by (rule that)
  qed
  let ?d = "chosenDbType w options'"
  let ?env = "makeEnv w projectName ?d (installList w ?d)"
  from calm_known(1,2) [OF np v] same
  have T: "trace s = beforeLookup w projectName options' v @ DriverDependencies ?d #
                       afterLookup w projectName options' v"
    and ok: "truthyVal (driverDependencies w ?d)"
      "\<not> (isJdbc (toArray (driverDependencies w ?d)) \<and> dbTypeDescription w ?d = None)"
    and through: "outcome v = Value ()"
    by (auto split: if_splits)
  from through obtain tc where reg: "v = Registered tc"
    by (cases v) simp_all
  with v have tc: "templates w (effectiveTemplate (template options')) = Some tc"
    by (simp add: registered_key)
  from ok have "afterLookup w projectName options' v =
      NpmInstall (installList w ?d) # jdbcCalls w ?d @ templateCalls w projectName options' v"
    by (auto simp add: afterLookup_def Let_def)
  with T reg have fw: "fileWrites (trace s) =
      map (\<lambda>n. (n, case map_of (files tc) n of Some r \<Rightarrow> r ?env | None \<Rightarrow> []))
        (sort_key (dirReady w) (map fst (files tc)))"
    by (simp add: fileWrites_beforeLookup fileWrites_jdbcCalls fileWrites_fileCalls
          fileWrites_dependencyCalls fileWrites_closingCalls)
  have content: "\<exists>render. map_of (files tc) n = Some render \<and> c = render ?env"
    if "(n, c) \<in> set (fileWrites (trace s))" for n c
  proof -
    from that fw have n: "n \<in> fst ` set (files tc)"
      and c: "c = (case map_of (files tc) n of Some r \<Rightarrow> r ?env | None \<Rightarrow> [])"
      by auto
    from n obtain render where "map_of (files tc) n = Some render"
      by (rule key_known)
    with c show ?thesis by simp
  qed
  from fw have "map fst (fileWrites (trace s)) = sort_key (dirReady w) (map fst (files tc))"
    by (simp add: comp_def)
  then have paths: "mset (map fst (fileWrites (trace s))) = mset (map fst (files tc))"
    by simp
  from fw have count: "length (fileWrites (trace s)) = length (files tc)"
    by simp
  have "env_projectName ?env = projectName" and "apiSecret ?env = toHex (randomBytes w 64)"
    by (simp_all add: makeEnv_def)
  moreover have "length (apiSecret ?env) = 128"
    by (simp add: makeEnv_def length_toHex length_randomBytes)
  moreover have "set (apiSecret ?env) \<subseteq> set ''0123456789abcdef''"
    unfolding makeEnv_def using toHex_hex [of "randomBytes w 64"] by simp
  ultimately show ?thesis
    using tc content paths count length_randomBytes [of w 64] by blast
qed

text \<open>
  Claim C6 in the sample world, for a run that asks for the database type. The two
  declared paths are written, \<^verbatim>\<open>.env\<close> first.
\<close>

theorem template_files_written_witness:
  "fst (invoke sampleWorld ''fresh'' \<lparr>template = None, dbType = None\<rparr>) = Value () \<and>
   map fst (files expressTemplate) = [''index.js'', ''.env''] \<and>
   mset (map fst (fileWrites (trace (snd (invoke sampleWorld ''fresh'' \<lparr>template = None, dbType = None\<rparr>))))) =
     mset [''index.js'', ''.env''] \<and>
   map fst (fileWrites (trace (snd (invoke sampleWorld ''fresh'' \<lparr>template = None, dbType = None\<rparr>)))) =
     [''.env'', ''index.js''] \<and>
   length (fileWrites (trace (snd (invoke sampleWorld ''fresh'' \<lparr>template = None, dbType = None\<rparr>)))) = 2 \<and>
   length (toHex (randomBytes sampleWorld 64)) = 128 \<and>
   set (toHex (randomBytes sampleWorld 64)) \<subseteq> set ''0123456789abcdef''"
proof -
  let ?run = "invoke sampleWorld ''fresh'' \<lparr>template = None, dbType = None\<rparr>"
  have finished: "fst ?run = Value ()"
    by (simp add: sample_prompted)
  then have run: "?run = (Value (), snd ?run)"
    by (metis prod.collapse)
  have declared: "map fst (files expressTemplate) = [''index.js'', ''.env'']"
    by (simp add: expressTemplate_def)
  have order: "map fst (fileWrites (trace (snd ?run))) = [''.env'', ''index.js'']"
    by (simp add: sample_prompted)
  note files = template_files_written [OF run]
  from files have "\<exists>tc. templates sampleWorld
        (effectiveTemplate (template \<lparr>template = None, dbType = None\<rparr>)) = Some tc \<and>
      mset (map fst (fileWrites (trace (snd ?run)))) = mset (map fst (files tc)) \<and>
      length (fileWrites (trace (snd ?run))) = length (files tc)"
    by metis
  then have written: "mset (map fst (fileWrites (trace (snd ?run)))) = mset [''index.js'', ''.env'']"
    "length (fileWrites (trace (snd ?run))) = 2"
    by (auto simp add: sampleWorld_def expressTemplate_def)
  from files have secret: "length (toHex (randomBytes sampleWorld 64)) = 128"
    "set (toHex (randomBytes sampleWorld 64)) \<subseteq> set ''0123456789abcdef''"
    by metis+
  from finished declared written order secret show ?thesis
    by (intro conjI)
qed

subsection \<open>The first manifest\<close>

text \<open>
  Claim C7 does not hold of the code for every invocation. The check of line 52 lets the
  template name \<^verbatim>\<open>constructor\<close> through, although the registry has no such key: on a
  free path the directory is made and the first manifest is written with name, version
  and private flag but without \<^verbatim>\<open>scripts\<close>, since there is no template to take them
  from. The run goes on to install the server and the driver, and ends on line 130 in a
  TypeError; the unknown template is never reported.
\<close>

theorem first_manifest_without_scripts:
  "templates sampleWorld ''constructor'' = None \<and>
   invoke sampleWorld ''fresh'' \<lparr>template = Some ''constructor'', dbType = Some ''postgres''\<rparr> =
     (Rejected TypeError,
      \<lparr>trace =
         [EventCreateApp \<lparr>cao_projectName = ''fresh'', cao_dbType = Some ''postgres'',
                          cao_template = ''constructor''\<rparr>,
          PathExists ''fresh'', EnsureDir ''fresh'', Chdir ''fresh'',
          LogStage CreatingProjectStructure,
          WritePackageJson
            \<lparr>pkg_name = Some ''fresh'', pkg_version = Some ''0.0.1'', pkg_private = Some True,
             pkg_scripts = None, pkg_java = None, pkg_dependencies = None\<rparr>,
          LogStage InstallingServerDependencies,
          NpmInstall [Str ''@cubejs-backend/server''],
          LogStage InstallingDBDriverDependencies,
          RequireFromPackage (Str ''@cubejs-backend/server''),
          DriverDependencies (Some ''postgres''),
          NpmInstall [Str ''@cubejs-backend/postgres-driver''],
          LogStage WritingFilesFromTemplate,
          RequireFromPackage (Str ''@cubejs-backend/postgres-driver'')],
       opts = \<lparr>template = Some ''constructor'', dbType = Some ''postgres''\<rparr>\<rparr>)"
  by (simp add: sample_eval)

text \<open>
  For a template that is a key of the registry the claim holds. In any such run, a
  manifest written before anything has been installed is exactly: name the project name,
  version \<^verbatim>\<open>0.0.1\<close>, private true, scripts the template's scripts, and no other field;
  and whenever something is installed, a manifest has been written before.
\<close>

lemma first_manifest_of_a_registered_template:
  assumes run: "invoke w projectName options' = (r, s)"
    and known: "templates w (effectiveTemplate (template options')) = Some tc"
  shows "(\<forall>pre m post.
            trace s = pre @ WritePackageJson m # post \<and> (\<forall>e \<in> set pre. \<not> installs e) \<longrightarrow>
            m = \<lparr>pkg_name = Some projectName, pkg_version = Some ''0.0.1'',
                 pkg_private = Some True, pkg_scripts = Some (scripts tc),
                 pkg_java = None, pkg_dependencies = None\<rparr>) \<and>
         (\<forall>pre e post.
            trace s = pre @ e # post \<and> installs e \<longrightarrow> (\<exists>m. WritePackageJson m \<in> set pre))"
proof -
  let ?T = "trace (snd (invoke (calm w) projectName options'))"
  let ?P = "\<lambda>e. \<not> installs e"
  from known have v: "lookupTemplate w (effectiveTemplate (template options')) = Some (Registered tc)"
    by (simp add: registered_key)
  have first: "m = \<lparr>pkg_name = Some projectName, pkg_version = Some ''0.0.1'',
           pkg_private = Some True, pkg_scripts = Some (scripts tc),
           pkg_java = None, pkg_dependencies = None\<rparr>"
    if split: "trace s = pre @ WritePackageJson m # post" and pre: "\<forall>e \<in> set pre. \<not> installs e"
    for pre m post
  proof -
    from run split obtain post' where "?T = pre @ WritePackageJson m # post'"
      by (rule run_split) simp
    from takeWhile_split [OF this, of ?P] pre
    have m: "WritePackageJson m \<in> set (takeWhile ?P ?T)" by simp
    from calm_shape [of w projectName options'] show ?thesis
    proof (elim disjE exE conjE)
      fix m'
      assume "?T = openingCalls projectName options' @
                     [DisplayError m' (givenOptions projectName options')]"
      with m show ?thesis by (simp add: openingCalls_def)
    next
      fix v'
      assume "lookupTemplate w (effectiveTemplate (template options')) = Some v'"
        and "?T = beforeLookup w projectName options' v' @
                  DriverDependencies (chosenDbType w options') #
                  afterLookup w projectName options' v'"
      with v m before_first_install [of w projectName options' "Registered tc"]
      show ?thesis
        by (simp add: openingCalls_def)
    qed
  qed
  have second: "\<exists>m. WritePackageJson m \<in> set pre"
    if split: "trace s = pre @ e # post" and e: "installs e" for pre e post
  proof -
    from e have "\<not> isWrite e" by (rule installs_not_write)
    with run split obtain post' where TT: "?T = pre @ e # post'"
      by (rule run_split)
    from e have "\<not> ?P e" by simp
    from takeWhile_before [OF TT, of ?P, OF this]
    have sub: "set (takeWhile ?P ?T) \<subseteq> set pre" .
    from calm_shape [of w projectName options'] show ?thesis
    proof (elim disjE exE conjE)
      fix m'
      let ?D = "DisplayError m' (givenOptions projectName options')"
      assume "?T = openingCalls projectName options' @ [?D]"
      with TT have "e \<in> set (openingCalls projectName options' @ [?D])"
        by simp
      with e show ?thesis by (auto simp add: openingCalls_def)
    next
      fix v'
      assume "?T = beforeLookup w projectName options' v' @
                  DriverDependencies (chosenDbType w options') #
                  afterLookup w projectName options' v'"
      with sub before_first_install [of w projectName options' v']
      show ?thesis by auto
    qed
  qed
  from first second show ?thesis by blast
qed

subsection \<open>The database type\<close>

text \<open>
  Claim C4 as stated fails in two ways. A database type that is supplied but empty is
  asked for all the same: line 75 tests \<^verbatim>\<open>!options.dbType\<close> and the empty string is
  falsy. And a run without a database type that does not get as far as line 75 issues no
  prompt: here the installation of line 73 fails and the run ends with that failure.
\<close>

theorem database_type_prompt_counterexample:
  "dbType \<lparr>template = None, dbType = Some []\<rparr> = Some [] \<and>
   Prompt [\<lparr>q_type = ''list'', q_name = ''dbType'', q_message = ''Select database'',
            q_choices = [''postgres'', ''hive'']\<rparr>]
     \<in> set (trace (snd (invoke sampleWorld ''fresh'' \<lparr>template = None, dbType = Some []\<rparr>))) \<and>
   dbType \<lparr>template = None, dbType = None\<rparr> = None \<and>
   fst (invoke offlineWorld ''fresh'' \<lparr>template = None, dbType = None\<rparr>) =
     Rejected (Failed (NpmInstall [Str ''@cubejs-backend/server''])) \<and>
   filter isPrompt (trace (snd (invoke offlineWorld ''fresh'' \<lparr>template = None, dbType = None\<rparr>))) = []"
  by (simp add: sample_eval offlineWorld_def)

text \<open>
  Claim C4, amended. When \<^verbatim>\<open>options.dbType\<close> is a non-empty string, no prompt is ever
  issued. When it is absent or empty, at most one prompt is issued, and any prompt is
  the one list question named \<^verbatim>\<open>dbType\<close> whose choices are the keys of the driver
  registry; a run that gets as far as the driver stage has issued exactly one. In either
  case the database type in force (the one given, or else the answer) is the one used by
  the driver lookup, the JDBC descriptor lookup and the success event; and there is one
  environment, with that database type as its \<^verbatim>\<open>dbType\<close> and the given project name,
  that every written file is rendered from.
\<close>

theorem database_type_prompt:
  assumes run: "invoke w projectName options' = (r, s)"
  shows "(truthy (dbType options') \<longrightarrow> (\<forall>qs. Prompt qs \<notin> set (trace s))) \<and>
         (\<not> truthy (dbType options') \<longrightarrow>
            length (filter isPrompt (trace s)) \<le> 1 \<and>
            (\<forall>qs. Prompt qs \<in> set (trace s) \<longrightarrow>
               qs = [\<lparr>q_type = ''list'', q_name = ''dbType'', q_message = ''Select database'',
                      q_choices = map fst (Drivers w)\<rparr>])) \<and>
         (\<not> truthy (dbType options') \<and>
          LogStage InstallingDBDriverDependencies \<in> set (trace s) \<longrightarrow>
            filter isPrompt (trace s) =
              [Prompt [\<lparr>q_type = ''list'', q_name = ''dbType'', q_message = ''Select database'',
                        q_choices = map fst (Drivers w)\<rparr>]]) \<and>
         (\<forall>d. DriverDependencies d \<in> set (trace s) \<or> DbTypeDescription d \<in> set (trace s) \<or>
               EventCreateAppSuccess projectName d \<in> set (trace s) \<longrightarrow>
               d = chosenDbType w options') \<and>
         (\<exists>env. env_dbType env = chosenDbType w options' \<and>
            env_projectName env = projectName \<and>
            (\<forall>n c. WriteFile n c \<in> set (trace s) \<longrightarrow>
               (\<exists>tc render.
                  templates w (effectiveTemplate (template options')) = Some tc \<and>
                  map_of (files tc) n = Some render \<and> c = render env))) \<and>
         chosenDbType w options' =
           (if truthy (dbType options') then dbType options'
            else inquirer_prompt w
                   [\<lparr>q_type = ''list'', q_name = ''dbType'', q_message = ''Select database'',
                     q_choices = map fst (Drivers w)\<rparr>] ''dbType'')"
proof -
  let ?T = "trace (snd (invoke (calm w) projectName options'))"
  let ?Q = "[\<lparr>q_type = ''list'', q_name = ''dbType'', q_message = ''Select database'',
              q_choices = map fst (Drivers w)\<rparr>]"
  let ?env = "makeEnv w projectName (chosenDbType w options')
                (installList w (chosenDbType w options'))"
  have Q: "dbTypeQuestions w = ?Q"
    by (simp add: dbTypeQuestions_def)
  from run obtain early late every rest where
    s: "trace s = early @ late" and T: "?T = early @ every @ rest"
    and late: "\<forall>e \<in> set late. isWrite e" and every: "\<forall>e \<in> set every. isWrite e"
    by (rule run_relates)
  from late every have quiet: "filter isPrompt late = []" "filter isPrompt every = []"
    by (simp_all add: prompts_writes)
  from run have sub: "set (trace s) \<subseteq> set ?T"
    by (rule run_within)
  have chosen: "chosenDbType w options' =
      (if truthy (dbType options') then dbType options' else inquirer_prompt w ?Q ''dbType'')"
    by (simp add: chosenDbType_def Q)
  have env: "env_dbType ?env = chosenDbType w options'" "env_projectName ?env = projectName"
    by (simp_all add: makeEnv_def)
  from calm_shape [of w projectName options']
  have "(truthy (dbType options') \<longrightarrow> (\<forall>qs. Prompt qs \<notin> set (trace s))) \<and>
         (\<not> truthy (dbType options') \<longrightarrow>
            length (filter isPrompt (trace s)) \<le> 1 \<and>
            (\<forall>qs. Prompt qs \<in> set (trace s) \<longrightarrow> qs = ?Q)) \<and>
         (\<not> truthy (dbType options') \<and>
          LogStage InstallingDBDriverDependencies \<in> set (trace s) \<longrightarrow>
            filter isPrompt (trace s) = [Prompt ?Q]) \<and>
         (\<forall>d. DriverDependencies d \<in> set (trace s) \<or> DbTypeDescription d \<in> set (trace s) \<or>
               EventCreateAppSuccess projectName d \<in> set (trace s) \<longrightarrow>
               d = chosenDbType w options') \<and>
         (\<forall>n c. WriteFile n c \<in> set (trace s) \<longrightarrow>
            (\<exists>tc render.
               templates w (effectiveTemplate (template options')) = Some tc \<and>
               map_of (files tc) n = Some render \<and> c = render ?env))"
  proof (elim disjE exE conjE)
    fix m
    let ?D = "DisplayError m (givenOptions projectName options')"
    assume shape: "?T = openingCalls projectName options' @ [?D]"
    with sub have "set (trace s) \<subseteq> set (openingCalls projectName options' @ [?D])"
      by simp
    moreover from T s quiet have "filter isPrompt (trace s) @ filter isPrompt rest =
        filter isPrompt ?T"
      by simp
    with shape have "filter isPrompt (trace s) = []"
      by (simp add: openingCalls_def)
    ultimately show ?thesis
      by (auto simp add: openingCalls_def)
  next
    fix v
    assume v: "lookupTemplate w (effectiveTemplate (template options')) = Some v"
      and shape: "?T = beforeLookup w projectName options' v @
                  DriverDependencies (chosenDbType w options') #
                  afterLookup w projectName options' v"
    let ?S = "selected w projectName options' v"
    let ?R = "[LogStage InstallingDBDriverDependencies,
               RequireFromPackage (Str ''@cubejs-backend/server''),
               DriverDependencies (chosenDbType w options')] @
              afterLookup w projectName options' v"
    from shape T have eq: "?S @ ?R = early @ (every @ rest)"
      by (simp add: beforeLookup_selected)
    have pR: "filter isPrompt ?R = []"
      by simp
    from eq have "filter isPrompt early @ filter isPrompt (every @ rest) =
        filter isPrompt (?S @ ?R)"
      by (metis filter_append)
    with pR s quiet have pT: "filter isPrompt (trace s) @ filter isPrompt rest =
        (if truthy (dbType options') then [] else [Prompt ?Q])"
      by (simp add: prompts_selected Q)
    from sub have mem: "e \<in> set (beforeLookup w projectName options' v) \<or>
         e = DriverDependencies (chosenDbType w options') \<or>
         e \<in> set (afterLookup w projectName options' v)" if "e \<in> set (trace s)" for e
      using that unfolding shape by auto
    have one: "truthy (dbType options') \<longrightarrow> (\<forall>qs. Prompt qs \<notin> set (trace s))"
    proof (intro impI allI notI)
      fix qs assume t: "truthy (dbType options')" and "Prompt qs \<in> set (trace s)"
      then have "Prompt qs \<in> set (filter isPrompt (trace s))" by simp
      with pT t show False by simp
    qed
    have two: "\<not> truthy (dbType options') \<longrightarrow>
            length (filter isPrompt (trace s)) \<le> 1 \<and>
            (\<forall>qs. Prompt qs \<in> set (trace s) \<longrightarrow> qs = ?Q)"
    proof (intro impI conjI allI)
      assume f: "\<not> truthy (dbType options')"
      with pT have a: "filter isPrompt (trace s) @ filter isPrompt rest = [Prompt ?Q]" by simp
      then have "length (filter isPrompt (trace s) @ filter isPrompt rest) = 1" by simp
      then show "length (filter isPrompt (trace s)) \<le> 1" by simp
      fix qs assume "Prompt qs \<in> set (trace s)"
      then have "Prompt qs \<in> set (filter isPrompt (trace s) @ filter isPrompt rest)" by simp
      with a show "qs = ?Q" by simp
    qed
    have three: "\<not> truthy (dbType options') \<and>
          LogStage InstallingDBDriverDependencies \<in> set (trace s) \<longrightarrow>
            filter isPrompt (trace s) = [Prompt ?Q]"
    proof (intro impI, elim conjE)
      assume f: "\<not> truthy (dbType options')"
        and st: "LogStage InstallingDBDriverDependencies \<in> set (trace s)"
      from st s late have "LogStage InstallingDBDriverDependencies \<in> set early"
        by auto
      from eq this stage_not_selected [of w projectName options' v]
      obtain us where us: "early = ?S @ us" "?R = us @ (every @ rest)"
        by (rule prefix_split)
      from us(2) pR have "filter isPrompt us @ filter isPrompt (every @ rest) = []"
        by (metis filter_append)
      with us(1) s quiet f show "filter isPrompt (trace s) = [Prompt ?Q]"
        by (simp add: prompts_selected Q)
    qed
    have four: "\<forall>d. DriverDependencies d \<in> set (trace s) \<or> DbTypeDescription d \<in> set (trace s) \<or>
               EventCreateAppSuccess projectName d \<in> set (trace s) \<longrightarrow>
               d = chosenDbType w options'"
    proof (intro allI impI)
      fix d
      assume "DriverDependencies d \<in> set (trace s) \<or> DbTypeDescription d \<in> set (trace s) \<or>
               EventCreateAppSuccess projectName d \<in> set (trace s)"
      then obtain e where e: "e \<in> set (trace s)"
        "e = DriverDependencies d \<or> e = DbTypeDescription d \<or> e = EventCreateAppSuccess projectName d"
        by blast
      from mem [OF e(1)] e(2) dbType_in_beforeLookup [of e w projectName options' v d projectName]
        dbType_in_afterLookup [of e w projectName options' v d projectName]
      show "d = chosenDbType w options'"
        by auto
    qed
    have five: "\<forall>n c. WriteFile n c \<in> set (trace s) \<longrightarrow>
            (\<exists>tc render.
               templates w (effectiveTemplate (template options')) = Some tc \<and>
               map_of (files tc) n = Some render \<and> c = render ?env)"
    proof (intro allI impI)
      fix n c
      assume "WriteFile n c \<in> set (trace s)"
      from mem [OF this] have "WriteFile n c \<in> set (afterLookup w projectName options' v)"
        by (auto simp add: beforeLookup_def openingCalls_def structureCalls_def selectionCalls_def
              split: if_splits)
      from write_in_afterLookup [OF this] obtain tc render where
        "v = Registered tc" "map_of (files tc) n = Some render" "c = render ?env"
        by blast
      with v show "\<exists>tc render.
               templates w (effectiveTemplate (template options')) = Some tc \<and>
               map_of (files tc) n = Some render \<and> c = render ?env"
        by (auto simp add: registered_key)
    qed
    from one two three four five show ?thesis by blast
  qed
  with chosen env show ?thesis by blast
qed

text \<open>
  Claim C4, amended, in the sample world: a run that asks, and a run given \<^verbatim>\<open>hive\<close>.
\<close>

theorem database_type_prompt_witness:
  "\<not> truthy (dbType \<lparr>template = None, dbType = None\<rparr>) \<and>
   LogStage InstallingDBDriverDependencies \<in> set (trace (snd (invoke sampleWorld ''fresh'' \<lparr>template = None, dbType = None\<rparr>))) \<and>
   filter isPrompt (trace (snd (invoke sampleWorld ''fresh'' \<lparr>template = None, dbType = None\<rparr>))) =
     [Prompt [\<lparr>q_type = ''list'', q_name = ''dbType'', q_message = ''Select database'',
               q_choices = [''postgres'', ''hive'']\<rparr>]] \<and>
   DriverDependencies (Some ''postgres'') \<in> set (trace (snd (invoke sampleWorld ''fresh'' \<lparr>template = None, dbType = None\<rparr>))) \<and>
   chosenDbType sampleWorld \<lparr>template = None, dbType = None\<rparr> = Some ''postgres'' \<and>
   truthy (dbType \<lparr>template = None, dbType = Some ''hive''\<rparr>) \<and>
   filter isPrompt (trace (snd (invoke sampleWorld ''fresh'' \<lparr>template = None, dbType = Some ''hive''\<rparr>))) = [] \<and>
   DbTypeDescription (Some ''hive'') \<in> set (trace (snd (invoke sampleWorld ''fresh'' \<lparr>template = None, dbType = Some ''hive''\<rparr>))) \<and>
   chosenDbType sampleWorld \<lparr>template = None, dbType = Some ''hive''\<rparr> = Some ''hive'' \<and>
   (\<exists>c. WriteFile ''.env'' c \<in> set (trace (snd (invoke sampleWorld ''fresh'' \<lparr>template = None, dbType = None\<rparr>))) \<and>
        take 23 c = ''CUBEJS_DB_TYPE=postgres'') \<and>
   (\<exists>c. WriteFile ''.env'' c \<in> set (trace (snd (invoke sampleWorld ''fresh'' \<lparr>template = None, dbType = Some ''hive''\<rparr>))) \<and>
        take 19 c = ''CUBEJS_DB_TYPE=hive'')"
proof -
  let ?ask = "invoke sampleWorld ''fresh'' \<lparr>template = None, dbType = None\<rparr>"
  let ?hive = "invoke sampleWorld ''fresh'' \<lparr>template = None, dbType = Some ''hive''\<rparr>"
  have ask: "?ask = (fst ?ask, snd ?ask)" and hive: "?hive = (fst ?hive, snd ?hive)"
    by simp_all
  have stage: "LogStage InstallingDBDriverDependencies \<in> set (trace (snd ?ask))"
    and lookup: "DriverDependencies (Some ''postgres'') \<in> set (trace (snd ?ask))"
    by (simp_all add: sample_prompted)
  have described: "DbTypeDescription (Some ''hive'') \<in> set (trace (snd ?hive))"
    by (simp add: sample_hive)
  have keys: "map fst (Drivers sampleWorld) = [''postgres'', ''hive'']"
    by (simp add: sampleWorld_def)
  from database_type_prompt [OF ask] stage lookup keys
  have a: "filter isPrompt (trace (snd ?ask)) =
      [Prompt [\<lparr>q_type = ''list'', q_name = ''dbType'', q_message = ''Select database'',
                q_choices = [''postgres'', ''hive'']\<rparr>]]"
    and b: "chosenDbType sampleWorld \<lparr>template = None, dbType = None\<rparr> = Some ''postgres''"
    by auto
  from database_type_prompt [OF hive] described
  have c: "\<forall>qs. Prompt qs \<notin> set (trace (snd ?hive))"
    and d: "chosenDbType sampleWorld \<lparr>template = None, dbType = Some ''hive''\<rparr> = Some ''hive''"
    by auto
  from c have e: "filter isPrompt (trace (snd ?hive)) = []"
    by (auto simp add: filter_empty_conv elim: isPrompt.elims)
  have express: "templates sampleWorld (effectiveTemplate None) = Some expressTemplate"
    by (simp add: sampleWorld_def)
  let ?asked = "''CUBEJS_DB_TYPE=postgres CUBEJS_API_SECRET='' @ apiSecret
      (sampleEnv (Some ''postgres'') [Str ''@cubejs-backend/postgres-driver''])"
  let ?given = "''CUBEJS_DB_TYPE=hive CUBEJS_API_SECRET='' @ apiSecret
      (sampleEnv (Some ''hive'') [Str ''@cubejs-backend/jdbc-driver'', Str ''node-java-maven''])"
  have wa: "WriteFile ''.env'' ?asked \<in> set (trace (snd ?ask))"
    by (simp add: sample_prompted)
  have wh: "WriteFile ''.env'' ?given \<in> set (trace (snd ?hive))"
    by (simp add: sample_hive)
  from database_type_prompt
         [OF ask, THEN conjunct2, THEN conjunct2, THEN conjunct2, THEN conjunct2, THEN conjunct1]
  obtain env where env: "env_dbType env = chosenDbType sampleWorld \<lparr>template = None, dbType = None\<rparr>"
    and rendered: "\<forall>n c. WriteFile n c \<in> set (trace (snd ?ask)) \<longrightarrow>
      (\<exists>tc render. templates sampleWorld
           (effectiveTemplate (template \<lparr>template = None, dbType = None\<rparr>)) = Some tc \<and>
         map_of (files tc) n = Some render \<and> c = render env)"
    by blast
  from rendered wa express obtain render where
    render: "map_of (files expressTemplate) ''.env'' = Some render" and same: "?asked = render env"
    by fastforce
  from render have "render env =
      ''CUBEJS_DB_TYPE='' @ (case env_dbType env of Some d \<Rightarrow> d | None \<Rightarrow> []) @
      '' CUBEJS_API_SECRET='' @ apiSecret env"
    by (auto simp add: expressTemplate_def)
  with env b have "take 23 (render env) = ''CUBEJS_DB_TYPE=postgres''"
    by simp
  with same have "take 23 ?asked = ''CUBEJS_DB_TYPE=postgres''"
    by (simp only:)
  with wa have f: "\<exists>c. WriteFile ''.env'' c \<in> set (trace (snd ?ask)) \<and>
      take 23 c = ''CUBEJS_DB_TYPE=postgres''"
    by blast
  from database_type_prompt
         [OF hive, THEN conjunct2, THEN conjunct2, THEN conjunct2, THEN conjunct2, THEN conjunct1]
  obtain env' where env': "env_dbType env' =
      chosenDbType sampleWorld \<lparr>template = None, dbType = Some ''hive''\<rparr>"
    and rendered': "\<forall>n c. WriteFile n c \<in> set (trace (snd ?hive)) \<longrightarrow>
      (\<exists>tc render. templates sampleWorld
           (effectiveTemplate (template \<lparr>template = None, dbType = Some ''hive''\<rparr>)) = Some tc \<and>
         map_of (files tc) n = Some render \<and> c = render env')"
    by blast
  from rendered' wh express obtain render' where
    render': "map_of (files expressTemplate) ''.env'' = Some render'"
    and same': "?given = render' env'"
    by fastforce
  from render' have "render' env' =
      ''CUBEJS_DB_TYPE='' @ (case env_dbType env' of Some d \<Rightarrow> d | None \<Rightarrow> []) @
      '' CUBEJS_API_SECRET='' @ apiSecret env'"
    by (auto simp add: expressTemplate_def)
  with env' d have "take 19 (render' env') = ''CUBEJS_DB_TYPE=hive''"
    by simp
  with same' have "take 19 ?given = ''CUBEJS_DB_TYPE=hive''"
    by (simp only:)
  with wh have g: "\<exists>c. WriteFile ''.env'' c \<in> set (trace (snd ?hive)) \<and>
      take 19 c = ''CUBEJS_DB_TYPE=hive''"
    by blast
  from a b d e f g stage lookup described show ?thesis
    by simp
qed

subsection \<open>The options\<close>

text \<open>
  Claim C8 as stated fails when the database type is asked for: line 84 assigns the
  answer to \<^verbatim>\<open>options.dbType\<close>, so the \<^verbatim>\<open>options\<close> argument, without a database
  type at the start, holds \<^verbatim>\<open>postgres\<close> at the end.
\<close>

theorem options_mutated_counterexample:
  "dbType \<lparr>template = None, dbType = None\<rparr> = None \<and>
   dbType (opts (snd (invoke sampleWorld ''fresh'' \<lparr>template = None, dbType = None\<rparr>))) = Some ''postgres''"
  by (simp add: sample_prompted)

text \<open>
  Claim C8, amended. The record built on line 40 never changes: the telemetry event and
  every error report carry the project name, the database type as passed in and the
  effective template. Of the \<^verbatim>\<open>options\<close> argument, \<^verbatim>\<open>template\<close> is never changed;
  \<^verbatim>\<open>dbType\<close> is never changed when it is a non-empty string, and otherwise is either
  still as passed in or holds the answer to the prompt.
\<close>

theorem options_after_construction:
  assumes run: "invoke w projectName options' = (r, s)"
  shows "(\<forall>c. EventCreateApp c \<in> set (trace s) \<longrightarrow>
            c = \<lparr>cao_projectName = projectName, cao_dbType = dbType options',
                 cao_template = effectiveTemplate (template options')\<rparr>) \<and>
         (\<forall>m c. DisplayError m c \<in> set (trace s) \<longrightarrow>
            c = \<lparr>cao_projectName = projectName, cao_dbType = dbType options',
                 cao_template = effectiveTemplate (template options')\<rparr>) \<and>
         template (opts s) = template options' \<and>
         (truthy (dbType options') \<longrightarrow> opts s = options') \<and>
         (\<not> truthy (dbType options') \<longrightarrow>
            opts s = options' \<or>
            opts s = options'\<lparr>dbType := inquirer_prompt w
                        [\<lparr>q_type = ''list'', q_name = ''dbType'', q_message = ''Select database'',
                          q_choices = map fst (Drivers w)\<rparr>] ''dbType''\<rparr>)"
proof -
  let ?T = "trace (snd (invoke (calm w) projectName options'))"
  let ?c = "\<lparr>cao_projectName = projectName, cao_dbType = dbType options',
             cao_template = effectiveTemplate (template options')\<rparr>"
  have c: "givenOptions projectName options' = ?c"
    by (simp add: givenOptions_def makeCreateAppOptions_def)
  from run have sub: "set (trace s) \<subseteq> set ?T"
    by (rule run_within)
  have events: "c' = ?c"
    if "e \<in> set ?T" and "e = EventCreateApp c' \<or> e = DisplayError m c'" for e c' m
    using calm_shape [of w projectName options']
  proof (elim disjE exE conjE)
    fix m'
    assume "?T = openingCalls projectName options' @
                   [DisplayError m' (givenOptions projectName options')]"
    with that c show ?thesis
      by (auto simp add: openingCalls_def)
  next
    fix v
    assume "?T = beforeLookup w projectName options' v @
                  DriverDependencies (chosenDbType w options') #
                  afterLookup w projectName options' v"
    with that have "e \<in> set (beforeLookup w projectName options' v) \<or>
        e = DriverDependencies (chosenDbType w options') \<or>
        e \<in> set (afterLookup w projectName options' v)"
      by auto
    with that(2) c report_in_beforeLookup [of e w projectName options' v c' m]
      report_in_afterLookup [of e w projectName options' v c' m]
    show ?thesis
      by auto
  qed
  from steady_execute [of w projectName] run
  have o: "opts s = options' \<or>
      \<not> truthy (dbType options') \<and>
      opts s = options'\<lparr>dbType := inquirer_prompt w (dbTypeQuestions w) ''dbType''\<rparr>"
    by (auto simp add: steady_def invoke_def dest: spec [of _ "\<lparr>trace = [], opts = options'\<rparr>"])
  from events sub o show ?thesis
    by (auto simp add: dbTypeQuestions_def)
qed

text \<open>
  Claim C8, amended, in the sample world: a run that asks, and a run given \<^verbatim>\<open>hive\<close>.
\<close>

theorem options_after_construction_witness:
  "\<not> truthy (dbType \<lparr>template = None, dbType = None\<rparr>) \<and>
   EventCreateApp \<lparr>cao_projectName = ''fresh'', cao_dbType = None, cao_template = ''express''\<rparr>
     \<in> set (trace (snd (invoke sampleWorld ''fresh'' \<lparr>template = None, dbType = None\<rparr>))) \<and>
   template (opts (snd (invoke sampleWorld ''fresh'' \<lparr>template = None, dbType = None\<rparr>))) = None \<and>
   truthy (dbType \<lparr>template = None, dbType = Some ''hive''\<rparr>) \<and>
   opts (snd (invoke sampleWorld ''fresh'' \<lparr>template = None, dbType = Some ''hive''\<rparr>)) = \<lparr>template = None, dbType = Some ''hive''\<rparr>"
proof -
  let ?ask = "invoke sampleWorld ''fresh'' \<lparr>template = None, dbType = None\<rparr>"
  let ?hive = "invoke sampleWorld ''fresh'' \<lparr>template = None, dbType = Some ''hive''\<rparr>"
  have ask: "?ask = (fst ?ask, snd ?ask)" and hive: "?hive = (fst ?hive, snd ?hive)"
    by simp_all
  have event: "EventCreateApp
      \<lparr>cao_projectName = ''fresh'', cao_dbType = None, cao_template = ''express''\<rparr>
      \<in> set (trace (snd ?ask))"
    by (simp add: sample_prompted)
  from options_after_construction [OF ask]
  have b: "template (opts (snd ?ask)) = None"
    by simp
  from options_after_construction [OF hive]
  have c: "opts (snd ?hive) = \<lparr>template = None, dbType = Some ''hive''\<rparr>"
    by simp
  from event b c show ?thesis
    by simp
qed

subsection \<open>The template option\<close>

text \<open>
  Claim C10. An empty \<^verbatim>\<open>options.template\<close> (the one falsy string) is treated exactly as
  an absent one: both give the template \<^verbatim>\<open>express\<close>, and the two runs end the same
  way, make the same calls and leave the same database type.
\<close>

theorem empty_template_means_express:
  "effectiveTemplate (Some []) = ''express'' \<and>
   effectiveTemplate None = ''express'' \<and>
   fst (invoke w projectName \<lparr>template = Some [], dbType = d\<rparr>) =
     fst (invoke w projectName \<lparr>template = None, dbType = d\<rparr>) \<and>
   trace (snd (invoke w projectName \<lparr>template = Some [], dbType = d\<rparr>)) =
     trace (snd (invoke w projectName \<lparr>template = None, dbType = d\<rparr>)) \<and>
   dbType (opts (snd (invoke w projectName \<lparr>template = Some [], dbType = d\<rparr>))) =
     dbType (opts (snd (invoke w projectName \<lparr>template = None, dbType = d\<rparr>)))"
proof -
  let ?s = "\<lparr>trace = [], opts = \<lparr>template = None, dbType = d\<rparr>\<rparr>"
  have s: "\<lparr>trace = [], opts = \<lparr>template = Some [], dbType = d\<rparr>\<rparr> = retemplate (Some []) ?s"
    by (simp add: retemplate_def)
  have "invoke w projectName \<lparr>template = Some [], dbType = d\<rparr> =
          afterTemplate w projectName ''express'' (retemplate (Some []) ?s)"
    unfolding invoke_def execute_afterTemplate s by (simp add: retemplate_def)
  also have "\<dots> = (fst (afterTemplate w projectName ''express'' ?s),
                    retemplate (Some []) (snd (afterTemplate w projectName ''express'' ?s)))"
    using blind_afterTemplate [of w projectName "''express''"] by (simp add: blind_def)
  finally have a: "invoke w projectName \<lparr>template = Some [], dbType = d\<rparr> =
      (fst (afterTemplate w projectName ''express'' ?s),
       retemplate (Some []) (snd (afterTemplate w projectName ''express'' ?s)))" .
  have b: "invoke w projectName \<lparr>template = None, dbType = d\<rparr> =
      afterTemplate w projectName ''express'' ?s"
    unfolding invoke_def execute_afterTemplate by simp
  show ?thesis
    unfolding a b by (simp add: retemplate_def)
qed

end
